theory Spec2Isabelle
  imports Complex_Main
begin

section \<open>Data model of the dialogue engine (bot.py)\<close>

text \<open>
  The embedding follows \<^verbatim>\<open>src/main/bot.py\<close>. Python strings are byte lists in UTF-8
  (the type \<^typ>\<open>string\<close>); a value that may be \<^verbatim>\<open>None\<close> is an \<^typ>\<open>'a option\<close>;
  a key of \<^verbatim>\<open>context.user_data\<close> that may be absent is one more \<^typ>\<open>'a option\<close>
  around its value. An exception is a value: every function that can raise returns a
  \<open>Raise\<close>, together with the session data as the exception leaves them.
\<close>

datatype BotState = NONE | WAITING_FOR_CAR | WAITING_FOR_INTENT

datatype ResponseType = INTENT | GENERATE | FAILURE

datatype error = NameError | IndexError | ValueError | KeyError | TypeError

datatype 'a outcome = Return 'a | Raise error

text \<open>The values of the enumeration \<^verbatim>\<open>Intent\<close> (lines 32-44): intents are compared as strings.\<close>

definition HELLO :: string where "HELLO = ''hello''"
definition BYE :: string where "BYE = ''bye''"
definition YES :: string where "YES = ''yes''"
definition NO :: string where "NO = ''no''"
definition CAR_TYPES :: string where "CAR_TYPES = ''car_types''"
definition CAR_PRICE :: string where "CAR_PRICE = ''car_price''"
definition CAR_AVAILABILITY :: string where "CAR_AVAILABILITY = ''car_availability''"
definition CAR_RECOMMENDATION :: string where "CAR_RECOMMENDATION = ''car_recommendation''"
definition FILTER_CARS :: string where "FILTER_CARS = ''filter_cars''"
definition CAR_INFO :: string where "CAR_INFO = ''car_info''"
definition BOOK_TEST_DRIVE :: string where "BOOK_TEST_DRIVE = ''book_test_drive''"
definition COMPARE_CARS :: string where "COMPARE_CARS = ''compare_cars''"

text \<open>
  The list that lines 196-197 and 363-364 test membership in.
\<close>

definition car_intents :: "string list" where
  "car_intents = [CAR_PRICE, CAR_AVAILABILITY, CAR_INFO, BOOK_TEST_DRIVE]"

text \<open>
  A vehicle of \<^verbatim>\<open>CONFIG['cars']\<close>: \<^verbatim>\<open>data['price']\<close>,
  \<^verbatim>\<open>data.get('description', ...)\<close> (so the description may be missing) and
  \<^verbatim>\<open>data.get('categories', [])\<close> (a missing list reads as the empty one).
\<close>

record car_data =
  car_price :: int
  car_description :: "string option"
  car_categories :: "string list"

text \<open>
  An entry of \<^verbatim>\<open>CONFIG['intents']\<close>: \<^verbatim>\<open>data.get('examples', [])\<close> and
  \<^verbatim>\<open>['responses']\<close>.
\<close>

record intent_data =
  examples :: "string list"
  responses :: "string list"

text \<open>
  The per-session counters behind \<^verbatim>\<open>context.user_data['stats']\<close>, keyed by
  \<^verbatim>\<open>ResponseType\<close> (read by \<^verbatim>\<open>stats_command\<close>, lines 475-482).
\<close>

record counters =
  intent_count :: nat
  generate_count :: nat
  failure_count :: nat

text \<open>
  \<^verbatim>\<open>context.user_data\<close>. Each field is \<open>None\<close> while its key is absent from the
  dictionary; \<open>Some None\<close> is the key holding Python's \<^verbatim>\<open>None\<close>.
\<close>

record user_data =
  state :: "BotState option"
  current_car :: "string option option"
  last_bot_response :: "string option option"
  last_intent :: "string option option"
  history :: "string list option"
  stats :: "counters option"

text \<open>
  Everything \<^verbatim>\<open>Bot\<close> reads and does not define: the dictionary \<^verbatim>\<open>CONFIG\<close>
  (module \<^verbatim>\<open>config\<close>), the helpers imported from \<^verbatim>\<open>utils\<close>, the pickled
  model artefacts, and the scorer \<^verbatim>\<open>rapidfuzz.fuzz.ratio\<close>. None of them is in the
  source tree, so each is a parameter. A dictionary is an association list in
  insertion order.

  \<^item> \<open>clf_predict x\<close> is \<^verbatim>\<open>self.clf.predict(self.vectorizer.transform([x]))[0]\<close>;
  \<^item> \<open>tfidf_similarities x\<close> is
    \<^verbatim>\<open>cosine_similarity(self.tfidf_vectorizer.transform([x]), self.tfidf_matrix).flatten()\<close>;
  \<^item> \<open>set_order xs\<close> is the order in which Python iterates over \<^verbatim>\<open>set(xs)\<close>
    (it depends on string hashing, so nothing is assumed about it).
\<close>

record env =
  cars :: "(string \<times> car_data) list"
  intents :: "(string \<times> intent_data) list"
  failure_phrases :: "string list"
  intent_score :: real
  dialogues_similarity :: real
  history_limit :: int
  lemmatize_phrase :: "string \<Rightarrow> string"
  is_meaningful_text :: "string \<Rightarrow> bool"
  extract_car_name :: "string \<Rightarrow> string option"
  extract_car_category :: "string \<Rightarrow> string option"
  extract_price :: "string \<Rightarrow> int option"
  analyze_sentiment :: "string \<Rightarrow> string"
  clf_predict :: "string \<Rightarrow> string"
  fuzz_ratio :: "string \<Rightarrow> string \<Rightarrow> real"
  tfidf_similarities :: "string \<Rightarrow> real list"
  answers :: "string list"
  set_order :: "string list \<Rightarrow> string list"

section \<open>Python primitives\<close>

text \<open>Truthiness of an optional string and of an optional integer.\<close>

definition truthy_str :: "string option \<Rightarrow> bool" where
  "truthy_str v = (case v of None \<Rightarrow> False | Some s \<Rightarrow> s \<noteq> [])"

definition truthy_int :: "int option \<Rightarrow> bool" where
  "truthy_int v = (case v of None \<Rightarrow> False | Some i \<Rightarrow> i \<noteq> 0)"

text \<open>How an f-string prints an optional string: \<^verbatim>\<open>None\<close> prints as its name.\<close>

definition fmt :: "string option \<Rightarrow> string" where
  "fmt v = (case v of None \<Rightarrow> ''None'' | Some s \<Rightarrow> s)"

text \<open>\<^verbatim>\<open>sub in s\<close> on strings.\<close>

fun startswith :: "string \<Rightarrow> string \<Rightarrow> bool" where
  "startswith [] s = True"
| "startswith (p # ps) [] = False"
| "startswith (p # ps) (c # cs) = (p = c \<and> startswith ps cs)"

fun contains :: "string \<Rightarrow> string \<Rightarrow> bool" where
  "contains sub [] = (sub = [])"
| "contains sub (c # cs) = (startswith sub (c # cs) \<or> contains sub cs)"

text \<open>\<^verbatim>\<open>s.replace(old, new)\<close>: the occurrences of \<open>old\<close>, left to right, without overlap.\<close>

function replace :: "string \<Rightarrow> string \<Rightarrow> string \<Rightarrow> string" where
  "replace old new s =
     (if old = [] then new @ concat (map (\<lambda>c. c # new) s)
      else if s = [] then []
      else if startswith old s then new @ replace old new (drop (length old) s)
      else hd s # replace old new (tl s))"
  by pat_completeness auto
termination
  by (relation "measure (\<lambda>(old, new, s). length s)") auto

declare replace.simps [simp del]

text \<open>\<^verbatim>\<open>sep.join(xs)\<close>.\<close>

fun join :: "string \<Rightarrow> string list \<Rightarrow> string" where
  "join sep [] = []"
| "join sep [x] = x"
| "join sep (x # y # ys) = x @ sep @ join sep (y # ys)"

text \<open>\<^verbatim>\<open>str(n)\<close> of an integer, in decimal.\<close>

definition digit_char :: "nat \<Rightarrow> char" where
  "digit_char d = ''0123456789'' ! d"

function str_nat :: "nat \<Rightarrow> string" where
  "str_nat n = (if n < 10 then [digit_char n] else str_nat (n div 10) @ [digit_char (n mod 10)])"
  by pat_completeness auto
termination
  by (relation "measure id") auto

declare str_nat.simps [simp del]

definition str_int :: "int \<Rightarrow> string" where
  "str_int i = (if i < 0 then CHR ''-'' # str_nat (nat (- i)) else str_nat (nat i))"

text \<open>
  \<^verbatim>\<open>xs[i:]\<close> for an integer \<open>i\<close>: a negative start counts from the end and is clamped
  at the beginning of the list, and \<^verbatim>\<open>xs[-0:]\<close> is \<^verbatim>\<open>xs[0:]\<close>.
\<close>

definition slice_from :: "int \<Rightarrow> 'a list \<Rightarrow> 'a list" where
  "slice_from i xs =
     (if 0 \<le> i then drop (nat i) xs else drop (length xs - nat (- i)) xs)"

text \<open>
  \<^verbatim>\<open>numpy.argmax\<close> of a vector: the first index of the maximum; a
  \<^verbatim>\<open>ValueError\<close> on an empty vector.
\<close>

fun argmax_from :: "nat \<Rightarrow> real \<Rightarrow> nat \<Rightarrow> real list \<Rightarrow> nat" where
  "argmax_from best_idx best i [] = best_idx"
| "argmax_from best_idx best i (x # xs) =
     (if best < x then argmax_from i x (Suc i) xs else argmax_from best_idx best (Suc i) xs)"

definition argmax :: "real list \<Rightarrow> nat outcome" where
  "argmax xs = (case xs of [] \<Rightarrow> Raise ValueError | x # rest \<Rightarrow> Return (argmax_from 0 x 1 rest))"

subsection \<open>The module random\<close>

text \<open>
  The random source is a tape of natural numbers, one consumed by each draw (an exhausted
  tape yields 0). \<^verbatim>\<open>random.choice\<close> raises \<^verbatim>\<open>IndexError\<close> on an empty
  sequence and otherwise picks the element at the draw modulo the length;
  \<^verbatim>\<open>random.sample(xs, k)\<close> raises \<^verbatim>\<open>ValueError\<close> when \<open>k\<close> exceeds the
  length and otherwise picks \<open>k\<close> positions without replacement;
  \<^verbatim>\<open>random.random()\<close> is a multiple of \<open>2\<^sup>-\<^sup>5\<^sup>3\<close> in \<open>[0, 1)\<close>.
\<close>

type_synonym rng = "nat list"

definition draw :: "rng \<Rightarrow> nat \<times> rng" where
  "draw g = (case g of [] \<Rightarrow> (0, []) | n # g' \<Rightarrow> (n, g'))"

definition random_choice :: "'a list \<Rightarrow> rng \<Rightarrow> 'a outcome \<times> rng" where
  "random_choice xs g =
     (if xs = [] then (Raise IndexError, g)
      else (case draw g of (n, g') \<Rightarrow> (Return (xs ! (n mod length xs)), g')))"

fun sample_loop :: "nat \<Rightarrow> 'a list \<Rightarrow> rng \<Rightarrow> 'a list \<times> rng" where
  "sample_loop 0 pool g = ([], g)"
| "sample_loop (Suc k) pool g =
     (case draw g of (n, g') \<Rightarrow>
        (let i = n mod length pool in
         (case sample_loop k (take i pool @ drop (Suc i) pool) g' of
            (xs, g'') \<Rightarrow> (pool ! i # xs, g''))))"

definition random_sample :: "'a list \<Rightarrow> nat \<Rightarrow> rng \<Rightarrow> 'a list outcome \<times> rng" where
  "random_sample population k g =
     (if length population < k then (Raise ValueError, g)
      else (case sample_loop k population g of (xs, g') \<Rightarrow> (Return xs, g')))"

definition random_random :: "rng \<Rightarrow> real \<times> rng" where
  "random_random g = (case draw g of (n, g') \<Rightarrow> (real (n mod 2 ^ 53) / 2 ^ 53, g'))"

section \<open>The reply texts\<close>

text \<open>
  The Russian literals of bot.py, as UTF-8 bytes. The comment before each one gives its
  source line and a transliteration.
\<close>

(* bot.py line 109: Izvinite, takoj mashiny net v nalichii. *)
definition msg_no_such_car :: string where
  "msg_no_such_car =
     [CHR 0xD0, CHR 0x98, CHR 0xD0, CHR 0xB7, CHR 0xD0, CHR 0xB2, CHR 0xD0, CHR 0xB8, CHR 0xD0,
     CHR 0xBD, CHR 0xD0, CHR 0xB8, CHR 0xD1, CHR 0x82, CHR 0xD0, CHR 0xB5] @ '', '' @ [CHR 0xD1,
     CHR 0x82, CHR 0xD0, CHR 0xB0, CHR 0xD0, CHR 0xBA, CHR 0xD0, CHR 0xBE, CHR 0xD0, CHR 0xB9] @
     '' '' @ [CHR 0xD0, CHR 0xBC, CHR 0xD0, CHR 0xB0, CHR 0xD1, CHR 0x88, CHR 0xD0, CHR 0xB8,
     CHR 0xD0, CHR 0xBD, CHR 0xD1, CHR 0x8B] @ '' '' @ [CHR 0xD0, CHR 0xBD, CHR 0xD0, CHR 0xB5,
     CHR 0xD1, CHR 0x82] @ '' '' @ [CHR 0xD0, CHR 0xB2] @ '' '' @ [CHR 0xD0, CHR 0xBD, CHR 0xD0,
     CHR 0xB0, CHR 0xD0, CHR 0xBB, CHR 0xD0, CHR 0xB8, CHR 0xD1, CHR 0x87, CHR 0xD0, CHR 0xB8,
     CHR 0xD0, CHR 0xB8] @ ''.''"

(* bot.py line 115: otlichnyj avtomobil' *)
definition default_description :: string where
  "default_description =
     [CHR 0xD0, CHR 0xBE, CHR 0xD1, CHR 0x82, CHR 0xD0, CHR 0xBB, CHR 0xD0, CHR 0xB8, CHR 0xD1,
     CHR 0x87, CHR 0xD0, CHR 0xBD, CHR 0xD1, CHR 0x8B, CHR 0xD0, CHR 0xB9] @ '' '' @ [CHR 0xD0,
     CHR 0xB0, CHR 0xD0, CHR 0xB2, CHR 0xD1, CHR 0x82, CHR 0xD0, CHR 0xBE, CHR 0xD0, CHR 0xBC,
     CHR 0xD0, CHR 0xBE, CHR 0xD0, CHR 0xB1, CHR 0xD0, CHR 0xB8, CHR 0xD0, CHR 0xBB, CHR 0xD1,
     CHR 0x8C]"

(* bot.py line 119:  Rad, chto vam nravitsya! <U+1F60A> *)
definition sfx_car_positive :: string where
  "sfx_car_positive =
     '' '' @ [CHR 0xD0, CHR 0xA0, CHR 0xD0, CHR 0xB0, CHR 0xD0, CHR 0xB4] @ '', '' @ [CHR 0xD1,
     CHR 0x87, CHR 0xD1, CHR 0x82, CHR 0xD0, CHR 0xBE] @ '' '' @ [CHR 0xD0, CHR 0xB2, CHR 0xD0,
     CHR 0xB0, CHR 0xD0, CHR 0xBC] @ '' '' @ [CHR 0xD0, CHR 0xBD, CHR 0xD1, CHR 0x80, CHR 0xD0,
     CHR 0xB0, CHR 0xD0, CHR 0xB2, CHR 0xD0, CHR 0xB8, CHR 0xD1, CHR 0x82, CHR 0xD1, CHR 0x81,
     CHR 0xD1, CHR 0x8F] @ ''! '' @ [CHR 0xF0, CHR 0x9F, CHR 0x98, CHR 0x8A]"

(* bot.py line 121:  Kazhetsya, vy somnevaetes'. Mozhet, test-drajv pomozhet? <U+1F60A> *)
definition sfx_car_negative :: string where
  "sfx_car_negative =
     '' '' @ [CHR 0xD0, CHR 0x9A, CHR 0xD0, CHR 0xB0, CHR 0xD0, CHR 0xB6, CHR 0xD0, CHR 0xB5,
     CHR 0xD1, CHR 0x82, CHR 0xD1, CHR 0x81, CHR 0xD1, CHR 0x8F] @ '', '' @ [CHR 0xD0, CHR 0xB2,
     CHR 0xD1, CHR 0x8B] @ '' '' @ [CHR 0xD1, CHR 0x81, CHR 0xD0, CHR 0xBE, CHR 0xD0, CHR 0xBC,
     CHR 0xD0, CHR 0xBD, CHR 0xD0, CHR 0xB5, CHR 0xD0, CHR 0xB2, CHR 0xD0, CHR 0xB0, CHR 0xD0,
     CHR 0xB5, CHR 0xD1, CHR 0x82, CHR 0xD0, CHR 0xB5, CHR 0xD1, CHR 0x81, CHR 0xD1, CHR 0x8C] @
     ''. '' @ [CHR 0xD0, CHR 0x9C, CHR 0xD0, CHR 0xBE, CHR 0xD0, CHR 0xB6, CHR 0xD0, CHR 0xB5,
     CHR 0xD1, CHR 0x82] @ '', '' @ [CHR 0xD1, CHR 0x82, CHR 0xD0, CHR 0xB5, CHR 0xD1, CHR 0x81,
     CHR 0xD1, CHR 0x82] @ ''-'' @ [CHR 0xD0, CHR 0xB4, CHR 0xD1, CHR 0x80, CHR 0xD0, CHR 0xB0,
     CHR 0xD0, CHR 0xB9, CHR 0xD0, CHR 0xB2] @ '' '' @ [CHR 0xD0, CHR 0xBF, CHR 0xD0, CHR 0xBE,
     CHR 0xD0, CHR 0xBC, CHR 0xD0, CHR 0xBE, CHR 0xD0, CHR 0xB6, CHR 0xD0, CHR 0xB5, CHR 0xD1,
     CHR 0x82] @ ''? '' @ [CHR 0xF0, CHR 0x9F, CHR 0x98, CHR 0x8A]"

(* bot.py line 123:  Chto eshchyo interesuet? *)
definition msg_what_else :: string where
  "msg_what_else =
     '' '' @ [CHR 0xD0, CHR 0xA7, CHR 0xD1, CHR 0x82, CHR 0xD0, CHR 0xBE] @ '' '' @ [CHR 0xD0,
     CHR 0xB5, CHR 0xD1, CHR 0x89, CHR 0xD1, CHR 0x91] @ '' '' @ [CHR 0xD0, CHR 0xB8, CHR 0xD0,
     CHR 0xBD, CHR 0xD1, CHR 0x82, CHR 0xD0, CHR 0xB5, CHR 0xD1, CHR 0x80, CHR 0xD0, CHR 0xB5,
     CHR 0xD1, CHR 0x81, CHR 0xD1, CHR 0x83, CHR 0xD0, CHR 0xB5, CHR 0xD1, CHR 0x82] @ ''?''"

(* bot.py line 131: Kstati, u nas est' *)
definition upsell_marker :: string where
  "upsell_marker =
     [CHR 0xD0, CHR 0x9A, CHR 0xD1, CHR 0x81, CHR 0xD1, CHR 0x82, CHR 0xD0, CHR 0xB0, CHR 0xD1,
     CHR 0x82, CHR 0xD0, CHR 0xB8] @ '', '' @ [CHR 0xD1, CHR 0x83] @ '' '' @ [CHR 0xD0, CHR 0xBD,
     CHR 0xD0, CHR 0xB0, CHR 0xD1, CHR 0x81] @ '' '' @ [CHR 0xD0, CHR 0xB5, CHR 0xD1, CHR 0x81,
     CHR 0xD1, CHR 0x82, CHR 0xD1, CHR 0x8C]"

(* bot.py line 162: do  *)
definition msg_up_to :: string where
  "msg_up_to =
     [CHR 0xD0, CHR 0xB4, CHR 0xD0, CHR 0xBE] @ '' ''"

(* bot.py line 162:  rublej *)
definition msg_roubles :: string where
  "msg_roubles =
     '' '' @ [CHR 0xD1, CHR 0x80, CHR 0xD1, CHR 0x83, CHR 0xD0, CHR 0xB1, CHR 0xD0, CHR 0xBB,
     CHR 0xD0, CHR 0xB5, CHR 0xD0, CHR 0xB9]"

(* bot.py line 164: v kategorii  *)
definition msg_in_category :: string where
  "msg_in_category =
     [CHR 0xD0, CHR 0xB2] @ '' '' @ [CHR 0xD0, CHR 0xBA, CHR 0xD0, CHR 0xB0, CHR 0xD1, CHR 0x82,
     CHR 0xD0, CHR 0xB5, CHR 0xD0, CHR 0xB3, CHR 0xD0, CHR 0xBE, CHR 0xD1, CHR 0x80, CHR 0xD0,
     CHR 0xB8, CHR 0xD0, CHR 0xB8] @ '' ''"

(* bot.py line 165: Izvinite, net mashin dlya  *)
definition msg_no_cars_for :: string where
  "msg_no_cars_for =
     [CHR 0xD0, CHR 0x98, CHR 0xD0, CHR 0xB7, CHR 0xD0, CHR 0xB2, CHR 0xD0, CHR 0xB8, CHR 0xD0,
     CHR 0xBD, CHR 0xD0, CHR 0xB8, CHR 0xD1, CHR 0x82, CHR 0xD0, CHR 0xB5] @ '', '' @ [CHR 0xD0,
     CHR 0xBD, CHR 0xD0, CHR 0xB5, CHR 0xD1, CHR 0x82] @ '' '' @ [CHR 0xD0, CHR 0xBC, CHR 0xD0,
     CHR 0xB0, CHR 0xD1, CHR 0x88, CHR 0xD0, CHR 0xB8, CHR 0xD0, CHR 0xBD] @ '' '' @ [CHR 0xD0,
     CHR 0xB4, CHR 0xD0, CHR 0xBB, CHR 0xD1, CHR 0x8F] @ '' ''"

(* bot.py line 172: Sovetuyu  *)
definition msg_advise :: string where
  "msg_advise =
     [CHR 0xD0, CHR 0xA1, CHR 0xD0, CHR 0xBE, CHR 0xD0, CHR 0xB2, CHR 0xD0, CHR 0xB5, CHR 0xD1,
     CHR 0x82, CHR 0xD1, CHR 0x83, CHR 0xD1, CHR 0x8E] @ '' ''"

(* bot.py line 172: ! Hotite uznat' cenu ili harakteristiki? *)
definition msg_advise_tail :: string where
  "msg_advise_tail =
     ''! '' @ [CHR 0xD0, CHR 0xA5, CHR 0xD0, CHR 0xBE, CHR 0xD1, CHR 0x82, CHR 0xD0, CHR 0xB8,
     CHR 0xD1, CHR 0x82, CHR 0xD0, CHR 0xB5] @ '' '' @ [CHR 0xD1, CHR 0x83, CHR 0xD0, CHR 0xB7,
     CHR 0xD0, CHR 0xBD, CHR 0xD0, CHR 0xB0, CHR 0xD1, CHR 0x82, CHR 0xD1, CHR 0x8C] @ '' '' @
     [CHR 0xD1, CHR 0x86, CHR 0xD0, CHR 0xB5, CHR 0xD0, CHR 0xBD, CHR 0xD1, CHR 0x83] @ '' '' @
     [CHR 0xD0, CHR 0xB8, CHR 0xD0, CHR 0xBB, CHR 0xD0, CHR 0xB8] @ '' '' @ [CHR 0xD1, CHR 0x85,
     CHR 0xD0, CHR 0xB0, CHR 0xD1, CHR 0x80, CHR 0xD0, CHR 0xB0, CHR 0xD0, CHR 0xBA, CHR 0xD1,
     CHR 0x82, CHR 0xD0, CHR 0xB5, CHR 0xD1, CHR 0x80, CHR 0xD0, CHR 0xB8, CHR 0xD1, CHR 0x81,
     CHR 0xD1, CHR 0x82, CHR 0xD0, CHR 0xB8, CHR 0xD0, CHR 0xBA, CHR 0xD0, CHR 0xB8] @ ''?''"

(* bot.py line 173: Vot chto nashlos':  *)
definition msg_found :: string where
  "msg_found =
     [CHR 0xD0, CHR 0x92, CHR 0xD0, CHR 0xBE, CHR 0xD1, CHR 0x82] @ '' '' @ [CHR 0xD1, CHR 0x87,
     CHR 0xD1, CHR 0x82, CHR 0xD0, CHR 0xBE] @ '' '' @ [CHR 0xD0, CHR 0xBD, CHR 0xD0, CHR 0xB0,
     CHR 0xD1, CHR 0x88, CHR 0xD0, CHR 0xBB, CHR 0xD0, CHR 0xBE, CHR 0xD1, CHR 0x81, CHR 0xD1,
     CHR 0x8C] @ '': ''"

(* bot.py line 192:  Rad, chto vy v horoshem nastroenii! <U+1F60A> *)
definition sfx_intent_positive :: string where
  "sfx_intent_positive =
     '' '' @ [CHR 0xD0, CHR 0xA0, CHR 0xD0, CHR 0xB0, CHR 0xD0, CHR 0xB4] @ '', '' @ [CHR 0xD1,
     CHR 0x87, CHR 0xD1, CHR 0x82, CHR 0xD0, CHR 0xBE] @ '' '' @ [CHR 0xD0, CHR 0xB2, CHR 0xD1,
     CHR 0x8B] @ '' '' @ [CHR 0xD0, CHR 0xB2] @ '' '' @ [CHR 0xD1, CHR 0x85, CHR 0xD0, CHR 0xBE,
     CHR 0xD1, CHR 0x80, CHR 0xD0, CHR 0xBE, CHR 0xD1, CHR 0x88, CHR 0xD0, CHR 0xB5, CHR 0xD0,
     CHR 0xBC] @ '' '' @ [CHR 0xD0, CHR 0xBD, CHR 0xD0, CHR 0xB0, CHR 0xD1, CHR 0x81, CHR 0xD1,
     CHR 0x82, CHR 0xD1, CHR 0x80, CHR 0xD0, CHR 0xBE, CHR 0xD0, CHR 0xB5, CHR 0xD0, CHR 0xBD,
     CHR 0xD0, CHR 0xB8, CHR 0xD0, CHR 0xB8] @ ''! '' @ [CHR 0xF0, CHR 0x9F, CHR 0x98, CHR 0x8A]"

(* bot.py line 194:  Kazhetsya, vy ne v duhe. Davajte podberem avto! <U+1F60A> *)
definition sfx_intent_negative :: string where
  "sfx_intent_negative =
     '' '' @ [CHR 0xD0, CHR 0x9A, CHR 0xD0, CHR 0xB0, CHR 0xD0, CHR 0xB6, CHR 0xD0, CHR 0xB5,
     CHR 0xD1, CHR 0x82, CHR 0xD1, CHR 0x81, CHR 0xD1, CHR 0x8F] @ '', '' @ [CHR 0xD0, CHR 0xB2,
     CHR 0xD1, CHR 0x8B] @ '' '' @ [CHR 0xD0, CHR 0xBD, CHR 0xD0, CHR 0xB5] @ '' '' @ [CHR 0xD0,
     CHR 0xB2] @ '' '' @ [CHR 0xD0, CHR 0xB4, CHR 0xD1, CHR 0x83, CHR 0xD1, CHR 0x85, CHR 0xD0,
     CHR 0xB5] @ ''. '' @ [CHR 0xD0, CHR 0x94, CHR 0xD0, CHR 0xB0, CHR 0xD0, CHR 0xB2, CHR 0xD0,
     CHR 0xB0, CHR 0xD0, CHR 0xB9, CHR 0xD1, CHR 0x82, CHR 0xD0, CHR 0xB5] @ '' '' @ [CHR 0xD0,
     CHR 0xBF, CHR 0xD0, CHR 0xBE, CHR 0xD0, CHR 0xB4, CHR 0xD0, CHR 0xB1, CHR 0xD0, CHR 0xB5,
     CHR 0xD1, CHR 0x80, CHR 0xD0, CHR 0xB5, CHR 0xD0, CHR 0xBC] @ '' '' @ [CHR 0xD0, CHR 0xB0,
     CHR 0xD0, CHR 0xB2, CHR 0xD1, CHR 0x82, CHR 0xD0, CHR 0xBE] @ ''! '' @ [CHR 0xF0, CHR 0x9F,
     CHR 0x98, CHR 0x8A]"

(* bot.py line 203: Iz  *)
definition msg_from :: string where
  "msg_from =
     [CHR 0xD0, CHR 0x98, CHR 0xD0, CHR 0xB7] @ '' ''"

(* bot.py line 203: avto *)
definition msg_auto :: string where
  "msg_auto =
     [CHR 0xD0, CHR 0xB0, CHR 0xD0, CHR 0xB2, CHR 0xD1, CHR 0x82, CHR 0xD0, CHR 0xBE]"

(* bot.py line 203:  est'  *)
definition msg_there_is :: string where
  "msg_there_is =
     '' '' @ [CHR 0xD0, CHR 0xB5, CHR 0xD1, CHR 0x81, CHR 0xD1, CHR 0x82, CHR 0xD1, CHR 0x8C] @ '' ''"

(* bot.py line 203: . Hotite uznat' cenu, harakteristiki ili zapisat'sya na test? *)
definition msg_offer_tail_test :: string where
  "msg_offer_tail_test =
     ''. '' @ [CHR 0xD0, CHR 0xA5, CHR 0xD0, CHR 0xBE, CHR 0xD1, CHR 0x82, CHR 0xD0, CHR 0xB8,
     CHR 0xD1, CHR 0x82, CHR 0xD0, CHR 0xB5] @ '' '' @ [CHR 0xD1, CHR 0x83, CHR 0xD0, CHR 0xB7,
     CHR 0xD0, CHR 0xBD, CHR 0xD0, CHR 0xB0, CHR 0xD1, CHR 0x82, CHR 0xD1, CHR 0x8C] @ '' '' @
     [CHR 0xD1, CHR 0x86, CHR 0xD0, CHR 0xB5, CHR 0xD0, CHR 0xBD, CHR 0xD1, CHR 0x83] @ '', '' @
     [CHR 0xD1, CHR 0x85, CHR 0xD0, CHR 0xB0, CHR 0xD1, CHR 0x80, CHR 0xD0, CHR 0xB0, CHR 0xD0,
     CHR 0xBA, CHR 0xD1, CHR 0x82, CHR 0xD0, CHR 0xB5, CHR 0xD1, CHR 0x80, CHR 0xD0, CHR 0xB8,
     CHR 0xD1, CHR 0x81, CHR 0xD1, CHR 0x82, CHR 0xD0, CHR 0xB8, CHR 0xD0, CHR 0xBA, CHR 0xD0,
     CHR 0xB8] @ '' '' @ [CHR 0xD0, CHR 0xB8, CHR 0xD0, CHR 0xBB, CHR 0xD0, CHR 0xB8] @ '' '' @
     [CHR 0xD0, CHR 0xB7, CHR 0xD0, CHR 0xB0, CHR 0xD0, CHR 0xBF, CHR 0xD0, CHR 0xB8, CHR 0xD1,
     CHR 0x81, CHR 0xD0, CHR 0xB0, CHR 0xD1, CHR 0x82, CHR 0xD1, CHR 0x8C, CHR 0xD1, CHR 0x81,
     CHR 0xD1, CHR 0x8F] @ '' '' @ [CHR 0xD0, CHR 0xBD, CHR 0xD0, CHR 0xB0] @ '' '' @ [CHR 0xD1,
     CHR 0x82, CHR 0xD0, CHR 0xB5, CHR 0xD1, CHR 0x81, CHR 0xD1, CHR 0x82] @ ''?''"

(* bot.py line 205: Kakuyu mashinu ili kategoriyu vy imeete v vidu? *)
definition msg_which_car :: string where
  "msg_which_car =
     [CHR 0xD0, CHR 0x9A, CHR 0xD0, CHR 0xB0, CHR 0xD0, CHR 0xBA, CHR 0xD1, CHR 0x83, CHR 0xD1,
     CHR 0x8E] @ '' '' @ [CHR 0xD0, CHR 0xBC, CHR 0xD0, CHR 0xB0, CHR 0xD1, CHR 0x88, CHR 0xD0,
     CHR 0xB8, CHR 0xD0, CHR 0xBD, CHR 0xD1, CHR 0x83] @ '' '' @ [CHR 0xD0, CHR 0xB8, CHR 0xD0,
     CHR 0xBB, CHR 0xD0, CHR 0xB8] @ '' '' @ [CHR 0xD0, CHR 0xBA, CHR 0xD0, CHR 0xB0, CHR 0xD1,
     CHR 0x82, CHR 0xD0, CHR 0xB5, CHR 0xD0, CHR 0xB3, CHR 0xD0, CHR 0xBE, CHR 0xD1, CHR 0x80,
     CHR 0xD0, CHR 0xB8, CHR 0xD1, CHR 0x8E] @ '' '' @ [CHR 0xD0, CHR 0xB2, CHR 0xD1, CHR 0x8B] @
     '' '' @ [CHR 0xD0, CHR 0xB8, CHR 0xD0, CHR 0xBC, CHR 0xD0, CHR 0xB5, CHR 0xD0, CHR 0xB5,
     CHR 0xD1, CHR 0x82, CHR 0xD0, CHR 0xB5] @ '' '' @ [CHR 0xD0, CHR 0xB2] @ '' '' @ [CHR 0xD0,
     CHR 0xB2, CHR 0xD0, CHR 0xB8, CHR 0xD0, CHR 0xB4, CHR 0xD1, CHR 0x83] @ ''?''"

(* bot.py line 215: Ukazhite cenu ili kategoriyu dlya fil'tracii. *)
definition msg_give_filter :: string where
  "msg_give_filter =
     [CHR 0xD0, CHR 0xA3, CHR 0xD0, CHR 0xBA, CHR 0xD0, CHR 0xB0, CHR 0xD0, CHR 0xB6, CHR 0xD0,
     CHR 0xB8, CHR 0xD1, CHR 0x82, CHR 0xD0, CHR 0xB5] @ '' '' @ [CHR 0xD1, CHR 0x86, CHR 0xD0,
     CHR 0xB5, CHR 0xD0, CHR 0xBD, CHR 0xD1, CHR 0x83] @ '' '' @ [CHR 0xD0, CHR 0xB8, CHR 0xD0,
     CHR 0xBB, CHR 0xD0, CHR 0xB8] @ '' '' @ [CHR 0xD0, CHR 0xBA, CHR 0xD0, CHR 0xB0, CHR 0xD1,
     CHR 0x82, CHR 0xD0, CHR 0xB5, CHR 0xD0, CHR 0xB3, CHR 0xD0, CHR 0xBE, CHR 0xD1, CHR 0x80,
     CHR 0xD0, CHR 0xB8, CHR 0xD1, CHR 0x8E] @ '' '' @ [CHR 0xD0, CHR 0xB4, CHR 0xD0, CHR 0xBB,
     CHR 0xD1, CHR 0x8F] @ '' '' @ [CHR 0xD1, CHR 0x84, CHR 0xD0, CHR 0xB8, CHR 0xD0, CHR 0xBB,
     CHR 0xD1, CHR 0x8C, CHR 0xD1, CHR 0x82, CHR 0xD1, CHR 0x80, CHR 0xD0, CHR 0xB0, CHR 0xD1,
     CHR 0x86, CHR 0xD0, CHR 0xB8, CHR 0xD0, CHR 0xB8] @ ''.''"

(* bot.py line 221: U nas est'  *)
definition msg_we_have :: string where
  "msg_we_have =
     [CHR 0xD0, CHR 0xA3] @ '' '' @ [CHR 0xD0, CHR 0xBD, CHR 0xD0, CHR 0xB0, CHR 0xD1, CHR 0x81] @
     '' '' @ [CHR 0xD0, CHR 0xB5, CHR 0xD1, CHR 0x81, CHR 0xD1, CHR 0x82, CHR 0xD1, CHR 0x8C] @ '' ''"

(* bot.py line 221:  i modeli vrode  *)
definition msg_and_models :: string where
  "msg_and_models =
     '' '' @ [CHR 0xD0, CHR 0xB8] @ '' '' @ [CHR 0xD0, CHR 0xBC, CHR 0xD0, CHR 0xBE, CHR 0xD0,
     CHR 0xB4, CHR 0xD0, CHR 0xB5, CHR 0xD0, CHR 0xBB, CHR 0xD0, CHR 0xB8] @ '' '' @ [CHR 0xD0,
     CHR 0xB2, CHR 0xD1, CHR 0x80, CHR 0xD0, CHR 0xBE, CHR 0xD0, CHR 0xB4, CHR 0xD0, CHR 0xB5] @
     '' ''"

(* bot.py line 221: . Chto interesno? *)
definition msg_what_interesting :: string where
  "msg_what_interesting =
     ''. '' @ [CHR 0xD0, CHR 0xA7, CHR 0xD1, CHR 0x82, CHR 0xD0, CHR 0xBE] @ '' '' @ [CHR 0xD0,
     CHR 0xB8, CHR 0xD0, CHR 0xBD, CHR 0xD1, CHR 0x82, CHR 0xD0, CHR 0xB5, CHR 0xD1, CHR 0x80,
     CHR 0xD0, CHR 0xB5, CHR 0xD1, CHR 0x81, CHR 0xD0, CHR 0xBD, CHR 0xD0, CHR 0xBE] @ ''?''"

(* bot.py line 229:  Chto interesuet:  *)
definition msg_compare_ask :: string where
  "msg_compare_ask =
     '' '' @ [CHR 0xD0, CHR 0xA7, CHR 0xD1, CHR 0x82, CHR 0xD0, CHR 0xBE] @ '' '' @ [CHR 0xD0,
     CHR 0xB8, CHR 0xD0, CHR 0xBD, CHR 0xD1, CHR 0x82, CHR 0xD0, CHR 0xB5, CHR 0xD1, CHR 0x80,
     CHR 0xD0, CHR 0xB5, CHR 0xD1, CHR 0x81, CHR 0xD1, CHR 0x83, CHR 0xD0, CHR 0xB5, CHR 0xD1,
     CHR 0x82] @ '': ''"

(* bot.py line 229:  ili  *)
definition msg_or :: string where
  "msg_or =
     '' '' @ [CHR 0xD0, CHR 0xB8, CHR 0xD0, CHR 0xBB, CHR 0xD0, CHR 0xB8] @ '' ''"

(* bot.py line 236: Otlichno! U nas est'  *)
definition msg_great_we_have :: string where
  "msg_great_we_have =
     [CHR 0xD0, CHR 0x9E, CHR 0xD1, CHR 0x82, CHR 0xD0, CHR 0xBB, CHR 0xD0, CHR 0xB8, CHR 0xD1,
     CHR 0x87, CHR 0xD0, CHR 0xBD, CHR 0xD0, CHR 0xBE] @ ''! '' @ [CHR 0xD0, CHR 0xA3] @ '' '' @
     [CHR 0xD0, CHR 0xBD, CHR 0xD0, CHR 0xB0, CHR 0xD1, CHR 0x81] @ '' '' @ [CHR 0xD0, CHR 0xB5,
     CHR 0xD1, CHR 0x81, CHR 0xD1, CHR 0x82, CHR 0xD1, CHR 0x8C] @ '' ''"

(* bot.py line 236: . Chto hotite uznat'? *)
definition msg_what_to_know :: string where
  "msg_what_to_know =
     ''. '' @ [CHR 0xD0, CHR 0xA7, CHR 0xD1, CHR 0x82, CHR 0xD0, CHR 0xBE] @ '' '' @ [CHR 0xD1,
     CHR 0x85, CHR 0xD0, CHR 0xBE, CHR 0xD1, CHR 0x82, CHR 0xD0, CHR 0xB8, CHR 0xD1, CHR 0x82,
     CHR 0xD0, CHR 0xB5] @ '' '' @ [CHR 0xD1, CHR 0x83, CHR 0xD0, CHR 0xB7, CHR 0xD0, CHR 0xBD,
     CHR 0xD0, CHR 0xB0, CHR 0xD1, CHR 0x82, CHR 0xD1, CHR 0x8C] @ ''?''"

(* bot.py line 240: Cena na  *)
definition msg_price_of :: string where
  "msg_price_of =
     [CHR 0xD0, CHR 0xA6, CHR 0xD0, CHR 0xB5, CHR 0xD0, CHR 0xBD, CHR 0xD0, CHR 0xB0] @ '' '' @
     [CHR 0xD0, CHR 0xBD, CHR 0xD0, CHR 0xB0] @ '' ''"

(* bot.py line 240:  <U+2014>  *)
definition msg_dash :: string where
  "msg_dash =
     '' '' @ [CHR 0xE2, CHR 0x80, CHR 0x94] @ '' ''"

(* bot.py line 240:  rublej. Chto eshchyo interesuet? *)
definition msg_roubles_what_else :: string where
  "msg_roubles_what_else =
     '' '' @ [CHR 0xD1, CHR 0x80, CHR 0xD1, CHR 0x83, CHR 0xD0, CHR 0xB1, CHR 0xD0, CHR 0xBB,
     CHR 0xD0, CHR 0xB5, CHR 0xD0, CHR 0xB9] @ ''. '' @ [CHR 0xD0, CHR 0xA7, CHR 0xD1, CHR 0x82,
     CHR 0xD0, CHR 0xBE] @ '' '' @ [CHR 0xD0, CHR 0xB5, CHR 0xD1, CHR 0x89, CHR 0xD1, CHR 0x91] @
     '' '' @ [CHR 0xD0, CHR 0xB8, CHR 0xD0, CHR 0xBD, CHR 0xD1, CHR 0x82, CHR 0xD0, CHR 0xB5,
     CHR 0xD1, CHR 0x80, CHR 0xD0, CHR 0xB5, CHR 0xD1, CHR 0x81, CHR 0xD1, CHR 0x83, CHR 0xD0,
     CHR 0xB5, CHR 0xD1, CHR 0x82] @ ''?''"

(* bot.py line 242: Nazovi mashinu, chtoby ya rasskazal podrobnee! *)
definition msg_name_car :: string where
  "msg_name_car =
     [CHR 0xD0, CHR 0x9D, CHR 0xD0, CHR 0xB0, CHR 0xD0, CHR 0xB7, CHR 0xD0, CHR 0xBE, CHR 0xD0,
     CHR 0xB2, CHR 0xD0, CHR 0xB8] @ '' '' @ [CHR 0xD0, CHR 0xBC, CHR 0xD0, CHR 0xB0, CHR 0xD1,
     CHR 0x88, CHR 0xD0, CHR 0xB8, CHR 0xD0, CHR 0xBD, CHR 0xD1, CHR 0x83] @ '', '' @ [CHR 0xD1,
     CHR 0x87, CHR 0xD1, CHR 0x82, CHR 0xD0, CHR 0xBE, CHR 0xD0, CHR 0xB1, CHR 0xD1, CHR 0x8B] @
     '' '' @ [CHR 0xD1, CHR 0x8F] @ '' '' @ [CHR 0xD1, CHR 0x80, CHR 0xD0, CHR 0xB0, CHR 0xD1,
     CHR 0x81, CHR 0xD1, CHR 0x81, CHR 0xD0, CHR 0xBA, CHR 0xD0, CHR 0xB0, CHR 0xD0, CHR 0xB7,
     CHR 0xD0, CHR 0xB0, CHR 0xD0, CHR 0xBB] @ '' '' @ [CHR 0xD0, CHR 0xBF, CHR 0xD0, CHR 0xBE,
     CHR 0xD0, CHR 0xB4, CHR 0xD1, CHR 0x80, CHR 0xD0, CHR 0xBE, CHR 0xD0, CHR 0xB1, CHR 0xD0,
     CHR 0xBD, CHR 0xD0, CHR 0xB5, CHR 0xD0, CHR 0xB5] @ ''!''"

(* bot.py line 245: . Nazovi odnu, chtoby uznat' bol'she! *)
definition msg_name_one :: string where
  "msg_name_one =
     ''. '' @ [CHR 0xD0, CHR 0x9D, CHR 0xD0, CHR 0xB0, CHR 0xD0, CHR 0xB7, CHR 0xD0, CHR 0xBE,
     CHR 0xD0, CHR 0xB2, CHR 0xD0, CHR 0xB8] @ '' '' @ [CHR 0xD0, CHR 0xBE, CHR 0xD0, CHR 0xB4,
     CHR 0xD0, CHR 0xBD, CHR 0xD1, CHR 0x83] @ '', '' @ [CHR 0xD1, CHR 0x87, CHR 0xD1, CHR 0x82,
     CHR 0xD0, CHR 0xBE, CHR 0xD0, CHR 0xB1, CHR 0xD1, CHR 0x8B] @ '' '' @ [CHR 0xD1, CHR 0x83,
     CHR 0xD0, CHR 0xB7, CHR 0xD0, CHR 0xBD, CHR 0xD0, CHR 0xB0, CHR 0xD1, CHR 0x82, CHR 0xD1,
     CHR 0x8C] @ '' '' @ [CHR 0xD0, CHR 0xB1, CHR 0xD0, CHR 0xBE, CHR 0xD0, CHR 0xBB, CHR 0xD1,
     CHR 0x8C, CHR 0xD1, CHR 0x88, CHR 0xD0, CHR 0xB5] @ ''!''"

(* bot.py line 247: Horosho, davaj prodolzhim! Hochesh' uznat' pro avto? *)
definition msg_continue_offtopic :: string where
  "msg_continue_offtopic =
     [CHR 0xD0, CHR 0xA5, CHR 0xD0, CHR 0xBE, CHR 0xD1, CHR 0x80, CHR 0xD0, CHR 0xBE, CHR 0xD1,
     CHR 0x88, CHR 0xD0, CHR 0xBE] @ '', '' @ [CHR 0xD0, CHR 0xB4, CHR 0xD0, CHR 0xB0, CHR 0xD0,
     CHR 0xB2, CHR 0xD0, CHR 0xB0, CHR 0xD0, CHR 0xB9] @ '' '' @ [CHR 0xD0, CHR 0xBF, CHR 0xD1,
     CHR 0x80, CHR 0xD0, CHR 0xBE, CHR 0xD0, CHR 0xB4, CHR 0xD0, CHR 0xBE, CHR 0xD0, CHR 0xBB,
     CHR 0xD0, CHR 0xB6, CHR 0xD0, CHR 0xB8, CHR 0xD0, CHR 0xBC] @ ''! '' @ [CHR 0xD0, CHR 0xA5,
     CHR 0xD0, CHR 0xBE, CHR 0xD1, CHR 0x87, CHR 0xD0, CHR 0xB5, CHR 0xD1, CHR 0x88, CHR 0xD1,
     CHR 0x8C] @ '' '' @ [CHR 0xD1, CHR 0x83, CHR 0xD0, CHR 0xB7, CHR 0xD0, CHR 0xBD, CHR 0xD0,
     CHR 0xB0, CHR 0xD1, CHR 0x82, CHR 0xD1, CHR 0x8C] @ '' '' @ [CHR 0xD0, CHR 0xBF, CHR 0xD1,
     CHR 0x80, CHR 0xD0, CHR 0xBE] @ '' '' @ [CHR 0xD0, CHR 0xB0, CHR 0xD0, CHR 0xB2, CHR 0xD1,
     CHR 0x82, CHR 0xD0, CHR 0xBE] @ ''?''"

(* bot.py line 249: Horosho, chto interesuet? Modeli, ceny ili test-drajv? *)
definition msg_ok_what :: string where
  "msg_ok_what =
     [CHR 0xD0, CHR 0xA5, CHR 0xD0, CHR 0xBE, CHR 0xD1, CHR 0x80, CHR 0xD0, CHR 0xBE, CHR 0xD1,
     CHR 0x88, CHR 0xD0, CHR 0xBE] @ '', '' @ [CHR 0xD1, CHR 0x87, CHR 0xD1, CHR 0x82, CHR 0xD0,
     CHR 0xBE] @ '' '' @ [CHR 0xD0, CHR 0xB8, CHR 0xD0, CHR 0xBD, CHR 0xD1, CHR 0x82, CHR 0xD0,
     CHR 0xB5, CHR 0xD1, CHR 0x80, CHR 0xD0, CHR 0xB5, CHR 0xD1, CHR 0x81, CHR 0xD1, CHR 0x83,
     CHR 0xD0, CHR 0xB5, CHR 0xD1, CHR 0x82] @ ''? '' @ [CHR 0xD0, CHR 0x9C, CHR 0xD0, CHR 0xBE,
     CHR 0xD0, CHR 0xB4, CHR 0xD0, CHR 0xB5, CHR 0xD0, CHR 0xBB, CHR 0xD0, CHR 0xB8] @ '', '' @
     [CHR 0xD1, CHR 0x86, CHR 0xD0, CHR 0xB5, CHR 0xD0, CHR 0xBD, CHR 0xD1, CHR 0x8B] @ '' '' @
     [CHR 0xD0, CHR 0xB8, CHR 0xD0, CHR 0xBB, CHR 0xD0, CHR 0xB8] @ '' '' @ [CHR 0xD1, CHR 0x82,
     CHR 0xD0, CHR 0xB5, CHR 0xD1, CHR 0x81, CHR 0xD1, CHR 0x82] @ ''-'' @ [CHR 0xD0, CHR 0xB4,
     CHR 0xD1, CHR 0x80, CHR 0xD0, CHR 0xB0, CHR 0xD0, CHR 0xB9, CHR 0xD0, CHR 0xB2] @ ''?''"

(* bot.py line 254: Horosho, kakuyu mashinu obsudim teper'? *)
definition msg_ok_which_car :: string where
  "msg_ok_which_car =
     [CHR 0xD0, CHR 0xA5, CHR 0xD0, CHR 0xBE, CHR 0xD1, CHR 0x80, CHR 0xD0, CHR 0xBE, CHR 0xD1,
     CHR 0x88, CHR 0xD0, CHR 0xBE] @ '', '' @ [CHR 0xD0, CHR 0xBA, CHR 0xD0, CHR 0xB0, CHR 0xD0,
     CHR 0xBA, CHR 0xD1, CHR 0x83, CHR 0xD1, CHR 0x8E] @ '' '' @ [CHR 0xD0, CHR 0xBC, CHR 0xD0,
     CHR 0xB0, CHR 0xD1, CHR 0x88, CHR 0xD0, CHR 0xB8, CHR 0xD0, CHR 0xBD, CHR 0xD1, CHR 0x83] @
     '' '' @ [CHR 0xD0, CHR 0xBE, CHR 0xD0, CHR 0xB1, CHR 0xD1, CHR 0x81, CHR 0xD1, CHR 0x83,
     CHR 0xD0, CHR 0xB4, CHR 0xD0, CHR 0xB8, CHR 0xD0, CHR 0xBC] @ '' '' @ [CHR 0xD1, CHR 0x82,
     CHR 0xD0, CHR 0xB5, CHR 0xD0, CHR 0xBF, CHR 0xD0, CHR 0xB5, CHR 0xD1, CHR 0x80, CHR 0xD1,
     CHR 0x8C] @ ''?''"

(* bot.py line 258:  Kstati, u nas est'  *)
definition msg_upsell :: string where
  "msg_upsell =
     '' '' @ [CHR 0xD0, CHR 0x9A, CHR 0xD1, CHR 0x81, CHR 0xD1, CHR 0x82, CHR 0xD0, CHR 0xB0,
     CHR 0xD1, CHR 0x82, CHR 0xD0, CHR 0xB8] @ '', '' @ [CHR 0xD1, CHR 0x83] @ '' '' @ [CHR 0xD0,
     CHR 0xBD, CHR 0xD0, CHR 0xB0, CHR 0xD1, CHR 0x81] @ '' '' @ [CHR 0xD0, CHR 0xB5, CHR 0xD1,
     CHR 0x81, CHR 0xD1, CHR 0x82, CHR 0xD1, CHR 0x8C] @ '' ''"

(* bot.py line 258:  <U+2014> otlichnyj vybor! *)
definition msg_upsell_tail :: string where
  "msg_upsell_tail =
     '' '' @ [CHR 0xE2, CHR 0x80, CHR 0x94] @ '' '' @ [CHR 0xD0, CHR 0xBE, CHR 0xD1, CHR 0x82,
     CHR 0xD0, CHR 0xBB, CHR 0xD0, CHR 0xB8, CHR 0xD1, CHR 0x87, CHR 0xD0, CHR 0xBD, CHR 0xD1,
     CHR 0x8B, CHR 0xD0, CHR 0xB9] @ '' '' @ [CHR 0xD0, CHR 0xB2, CHR 0xD1, CHR 0x8B, CHR 0xD0,
     CHR 0xB1, CHR 0xD0, CHR 0xBE, CHR 0xD1, CHR 0x80] @ ''!''"

(* bot.py line 279:  Rad, chto ty v horoshem nastroenii! <U+1F60A> *)
definition sfx_gen_positive :: string where
  "sfx_gen_positive =
     '' '' @ [CHR 0xD0, CHR 0xA0, CHR 0xD0, CHR 0xB0, CHR 0xD0, CHR 0xB4] @ '', '' @ [CHR 0xD1,
     CHR 0x87, CHR 0xD1, CHR 0x82, CHR 0xD0, CHR 0xBE] @ '' '' @ [CHR 0xD1, CHR 0x82, CHR 0xD1,
     CHR 0x8B] @ '' '' @ [CHR 0xD0, CHR 0xB2] @ '' '' @ [CHR 0xD1, CHR 0x85, CHR 0xD0, CHR 0xBE,
     CHR 0xD1, CHR 0x80, CHR 0xD0, CHR 0xBE, CHR 0xD1, CHR 0x88, CHR 0xD0, CHR 0xB5, CHR 0xD0,
     CHR 0xBC] @ '' '' @ [CHR 0xD0, CHR 0xBD, CHR 0xD0, CHR 0xB0, CHR 0xD1, CHR 0x81, CHR 0xD1,
     CHR 0x82, CHR 0xD1, CHR 0x80, CHR 0xD0, CHR 0xBE, CHR 0xD0, CHR 0xB5, CHR 0xD0, CHR 0xBD,
     CHR 0xD0, CHR 0xB8, CHR 0xD0, CHR 0xB8] @ ''! '' @ [CHR 0xF0, CHR 0x9F, CHR 0x98, CHR 0x8A]"

(* bot.py line 281:  Kazhetsya, ty ne v duhe. Mozhet, novyj avto podnimet nastroenie? <U+1F60A> *)
definition sfx_gen_negative :: string where
  "sfx_gen_negative =
     '' '' @ [CHR 0xD0, CHR 0x9A, CHR 0xD0, CHR 0xB0, CHR 0xD0, CHR 0xB6, CHR 0xD0, CHR 0xB5,
     CHR 0xD1, CHR 0x82, CHR 0xD1, CHR 0x81, CHR 0xD1, CHR 0x8F] @ '', '' @ [CHR 0xD1, CHR 0x82,
     CHR 0xD1, CHR 0x8B] @ '' '' @ [CHR 0xD0, CHR 0xBD, CHR 0xD0, CHR 0xB5] @ '' '' @ [CHR 0xD0,
     CHR 0xB2] @ '' '' @ [CHR 0xD0, CHR 0xB4, CHR 0xD1, CHR 0x83, CHR 0xD1, CHR 0x85, CHR 0xD0,
     CHR 0xB5] @ ''. '' @ [CHR 0xD0, CHR 0x9C, CHR 0xD0, CHR 0xBE, CHR 0xD0, CHR 0xB6, CHR 0xD0,
     CHR 0xB5, CHR 0xD1, CHR 0x82] @ '', '' @ [CHR 0xD0, CHR 0xBD, CHR 0xD0, CHR 0xBE, CHR 0xD0,
     CHR 0xB2, CHR 0xD1, CHR 0x8B, CHR 0xD0, CHR 0xB9] @ '' '' @ [CHR 0xD0, CHR 0xB0, CHR 0xD0,
     CHR 0xB2, CHR 0xD1, CHR 0x82, CHR 0xD0, CHR 0xBE] @ '' '' @ [CHR 0xD0, CHR 0xBF, CHR 0xD0,
     CHR 0xBE, CHR 0xD0, CHR 0xB4, CHR 0xD0, CHR 0xBD, CHR 0xD0, CHR 0xB8, CHR 0xD0, CHR 0xBC,
     CHR 0xD0, CHR 0xB5, CHR 0xD1, CHR 0x82] @ '' '' @ [CHR 0xD0, CHR 0xBD, CHR 0xD0, CHR 0xB0,
     CHR 0xD1, CHR 0x81, CHR 0xD1, CHR 0x82, CHR 0xD1, CHR 0x80, CHR 0xD0, CHR 0xBE, CHR 0xD0,
     CHR 0xB5, CHR 0xD0, CHR 0xBD, CHR 0xD0, CHR 0xB8, CHR 0xD0, CHR 0xB5] @ ''? '' @ [CHR 0xF0,
     CHR 0x9F, CHR 0x98, CHR 0x8A]"

(* bot.py line 296:  Ty v otlichnom nastroenii, davaj najdem mashinu! <U+1F60A> *)
definition sfx_fail_positive :: string where
  "sfx_fail_positive =
     '' '' @ [CHR 0xD0, CHR 0xA2, CHR 0xD1, CHR 0x8B] @ '' '' @ [CHR 0xD0, CHR 0xB2] @ '' '' @
     [CHR 0xD0, CHR 0xBE, CHR 0xD1, CHR 0x82, CHR 0xD0, CHR 0xBB, CHR 0xD0, CHR 0xB8, CHR 0xD1,
     CHR 0x87, CHR 0xD0, CHR 0xBD, CHR 0xD0, CHR 0xBE, CHR 0xD0, CHR 0xBC] @ '' '' @ [CHR 0xD0,
     CHR 0xBD, CHR 0xD0, CHR 0xB0, CHR 0xD1, CHR 0x81, CHR 0xD1, CHR 0x82, CHR 0xD1, CHR 0x80,
     CHR 0xD0, CHR 0xBE, CHR 0xD0, CHR 0xB5, CHR 0xD0, CHR 0xBD, CHR 0xD0, CHR 0xB8, CHR 0xD0,
     CHR 0xB8] @ '', '' @ [CHR 0xD0, CHR 0xB4, CHR 0xD0, CHR 0xB0, CHR 0xD0, CHR 0xB2, CHR 0xD0,
     CHR 0xB0, CHR 0xD0, CHR 0xB9] @ '' '' @ [CHR 0xD0, CHR 0xBD, CHR 0xD0, CHR 0xB0, CHR 0xD0,
     CHR 0xB9, CHR 0xD0, CHR 0xB4, CHR 0xD0, CHR 0xB5, CHR 0xD0, CHR 0xBC] @ '' '' @ [CHR 0xD0,
     CHR 0xBC, CHR 0xD0, CHR 0xB0, CHR 0xD1, CHR 0x88, CHR 0xD0, CHR 0xB8, CHR 0xD0, CHR 0xBD,
     CHR 0xD1, CHR 0x83] @ ''! '' @ [CHR 0xF0, CHR 0x9F, CHR 0x98, CHR 0x8A]"

(* bot.py line 298:  Ne perezhivaj, podberem avto dlya tebya! <U+1F60A> *)
definition sfx_fail_negative :: string where
  "sfx_fail_negative =
     '' '' @ [CHR 0xD0, CHR 0x9D, CHR 0xD0, CHR 0xB5] @ '' '' @ [CHR 0xD0, CHR 0xBF, CHR 0xD0,
     CHR 0xB5, CHR 0xD1, CHR 0x80, CHR 0xD0, CHR 0xB5, CHR 0xD0, CHR 0xB6, CHR 0xD0, CHR 0xB8,
     CHR 0xD0, CHR 0xB2, CHR 0xD0, CHR 0xB0, CHR 0xD0, CHR 0xB9] @ '', '' @ [CHR 0xD0, CHR 0xBF,
     CHR 0xD0, CHR 0xBE, CHR 0xD0, CHR 0xB4, CHR 0xD0, CHR 0xB1, CHR 0xD0, CHR 0xB5, CHR 0xD1,
     CHR 0x80, CHR 0xD0, CHR 0xB5, CHR 0xD0, CHR 0xBC] @ '' '' @ [CHR 0xD0, CHR 0xB0, CHR 0xD0,
     CHR 0xB2, CHR 0xD1, CHR 0x82, CHR 0xD0, CHR 0xBE] @ '' '' @ [CHR 0xD0, CHR 0xB4, CHR 0xD0,
     CHR 0xBB, CHR 0xD1, CHR 0x8F] @ '' '' @ [CHR 0xD1, CHR 0x82, CHR 0xD0, CHR 0xB5, CHR 0xD0,
     CHR 0xB1, CHR 0xD1, CHR 0x8F] @ ''! '' @ [CHR 0xF0, CHR 0x9F, CHR 0x98, CHR 0x8A]"

(* bot.py line 308:  Kazhetsya, ty ne v duhe. Davaj najdem avto? <U+1F60A> *)
definition sfx_none_name_negative :: string where
  "sfx_none_name_negative =
     '' '' @ [CHR 0xD0, CHR 0x9A, CHR 0xD0, CHR 0xB0, CHR 0xD0, CHR 0xB6, CHR 0xD0, CHR 0xB5,
     CHR 0xD1, CHR 0x82, CHR 0xD1, CHR 0x81, CHR 0xD1, CHR 0x8F] @ '', '' @ [CHR 0xD1, CHR 0x82,
     CHR 0xD1, CHR 0x8B] @ '' '' @ [CHR 0xD0, CHR 0xBD, CHR 0xD0, CHR 0xB5] @ '' '' @ [CHR 0xD0,
     CHR 0xB2] @ '' '' @ [CHR 0xD0, CHR 0xB4, CHR 0xD1, CHR 0x83, CHR 0xD1, CHR 0x85, CHR 0xD0,
     CHR 0xB5] @ ''. '' @ [CHR 0xD0, CHR 0x94, CHR 0xD0, CHR 0xB0, CHR 0xD0, CHR 0xB2, CHR 0xD0,
     CHR 0xB0, CHR 0xD0, CHR 0xB9] @ '' '' @ [CHR 0xD0, CHR 0xBD, CHR 0xD0, CHR 0xB0, CHR 0xD0,
     CHR 0xB9, CHR 0xD0, CHR 0xB4, CHR 0xD0, CHR 0xB5, CHR 0xD0, CHR 0xBC] @ '' '' @ [CHR 0xD0,
     CHR 0xB0, CHR 0xD0, CHR 0xB2, CHR 0xD1, CHR 0x82, CHR 0xD0, CHR 0xBE] @ ''? '' @ [CHR 0xF0,
     CHR 0x9F, CHR 0x98, CHR 0x8A]"

(* bot.py line 309: Vy imeete v vidu  *)
definition msg_you_mean :: string where
  "msg_you_mean =
     [CHR 0xD0, CHR 0x92, CHR 0xD1, CHR 0x8B] @ '' '' @ [CHR 0xD0, CHR 0xB8, CHR 0xD0, CHR 0xBC,
     CHR 0xD0, CHR 0xB5, CHR 0xD0, CHR 0xB5, CHR 0xD1, CHR 0x82, CHR 0xD0, CHR 0xB5] @ '' '' @
     [CHR 0xD0, CHR 0xB2] @ '' '' @ [CHR 0xD0, CHR 0xB2, CHR 0xD0, CHR 0xB8, CHR 0xD0, CHR 0xB4,
     CHR 0xD1, CHR 0x83] @ '' ''"

(* bot.py line 309: ? Hotite uznat' cenu, harakteristiki ili test-drajv? *)
definition msg_you_mean_tail :: string where
  "msg_you_mean_tail =
     ''? '' @ [CHR 0xD0, CHR 0xA5, CHR 0xD0, CHR 0xBE, CHR 0xD1, CHR 0x82, CHR 0xD0, CHR 0xB8,
     CHR 0xD1, CHR 0x82, CHR 0xD0, CHR 0xB5] @ '' '' @ [CHR 0xD1, CHR 0x83, CHR 0xD0, CHR 0xB7,
     CHR 0xD0, CHR 0xBD, CHR 0xD0, CHR 0xB0, CHR 0xD1, CHR 0x82, CHR 0xD1, CHR 0x8C] @ '' '' @
     [CHR 0xD1, CHR 0x86, CHR 0xD0, CHR 0xB5, CHR 0xD0, CHR 0xBD, CHR 0xD1, CHR 0x83] @ '', '' @
     [CHR 0xD1, CHR 0x85, CHR 0xD0, CHR 0xB0, CHR 0xD1, CHR 0x80, CHR 0xD0, CHR 0xB0, CHR 0xD0,
     CHR 0xBA, CHR 0xD1, CHR 0x82, CHR 0xD0, CHR 0xB5, CHR 0xD1, CHR 0x80, CHR 0xD0, CHR 0xB8,
     CHR 0xD1, CHR 0x81, CHR 0xD1, CHR 0x82, CHR 0xD0, CHR 0xB8, CHR 0xD0, CHR 0xBA, CHR 0xD0,
     CHR 0xB8] @ '' '' @ [CHR 0xD0, CHR 0xB8, CHR 0xD0, CHR 0xBB, CHR 0xD0, CHR 0xB8] @ '' '' @
     [CHR 0xD1, CHR 0x82, CHR 0xD0, CHR 0xB5, CHR 0xD1, CHR 0x81, CHR 0xD1, CHR 0x82] @ ''-'' @
     [CHR 0xD0, CHR 0xB4, CHR 0xD1, CHR 0x80, CHR 0xD0, CHR 0xB0, CHR 0xD0, CHR 0xB9, CHR 0xD0,
     CHR 0xB2] @ ''?''"

(* bot.py line 319:  Ty v otlichnom nastroenii, davaj prodolzhim! <U+1F60A> *)
definition sfx_none_cat_positive :: string where
  "sfx_none_cat_positive =
     '' '' @ [CHR 0xD0, CHR 0xA2, CHR 0xD1, CHR 0x8B] @ '' '' @ [CHR 0xD0, CHR 0xB2] @ '' '' @
     [CHR 0xD0, CHR 0xBE, CHR 0xD1, CHR 0x82, CHR 0xD0, CHR 0xBB, CHR 0xD0, CHR 0xB8, CHR 0xD1,
     CHR 0x87, CHR 0xD0, CHR 0xBD, CHR 0xD0, CHR 0xBE, CHR 0xD0, CHR 0xBC] @ '' '' @ [CHR 0xD0,
     CHR 0xBD, CHR 0xD0, CHR 0xB0, CHR 0xD1, CHR 0x81, CHR 0xD1, CHR 0x82, CHR 0xD1, CHR 0x80,
     CHR 0xD0, CHR 0xBE, CHR 0xD0, CHR 0xB5, CHR 0xD0, CHR 0xBD, CHR 0xD0, CHR 0xB8, CHR 0xD0,
     CHR 0xB8] @ '', '' @ [CHR 0xD0, CHR 0xB4, CHR 0xD0, CHR 0xB0, CHR 0xD0, CHR 0xB2, CHR 0xD0,
     CHR 0xB0, CHR 0xD0, CHR 0xB9] @ '' '' @ [CHR 0xD0, CHR 0xBF, CHR 0xD1, CHR 0x80, CHR 0xD0,
     CHR 0xBE, CHR 0xD0, CHR 0xB4, CHR 0xD0, CHR 0xBE, CHR 0xD0, CHR 0xBB, CHR 0xD0, CHR 0xB6,
     CHR 0xD0, CHR 0xB8, CHR 0xD0, CHR 0xBC] @ ''! '' @ [CHR 0xF0, CHR 0x9F, CHR 0x98, CHR 0x8A]"

(* bot.py line 319:  Ne grusti, najdem mashinu! <U+1F60A> *)
definition sfx_none_cat_negative :: string where
  "sfx_none_cat_negative =
     '' '' @ [CHR 0xD0, CHR 0x9D, CHR 0xD0, CHR 0xB5] @ '' '' @ [CHR 0xD0, CHR 0xB3, CHR 0xD1,
     CHR 0x80, CHR 0xD1, CHR 0x83, CHR 0xD1, CHR 0x81, CHR 0xD1, CHR 0x82, CHR 0xD0, CHR 0xB8] @
     '', '' @ [CHR 0xD0, CHR 0xBD, CHR 0xD0, CHR 0xB0, CHR 0xD0, CHR 0xB9, CHR 0xD0, CHR 0xB4,
     CHR 0xD0, CHR 0xB5, CHR 0xD0, CHR 0xBC] @ '' '' @ [CHR 0xD0, CHR 0xBC, CHR 0xD0, CHR 0xB0,
     CHR 0xD1, CHR 0x88, CHR 0xD0, CHR 0xB8, CHR 0xD0, CHR 0xBD, CHR 0xD1, CHR 0x83] @ ''! '' @
     [CHR 0xF0, CHR 0x9F, CHR 0x98, CHR 0x8A]"

(* bot.py line 320: . Hotite uznat' cenu, harakteristiki ili test-drajv? *)
definition msg_offer_tail :: string where
  "msg_offer_tail =
     ''. '' @ [CHR 0xD0, CHR 0xA5, CHR 0xD0, CHR 0xBE, CHR 0xD1, CHR 0x82, CHR 0xD0, CHR 0xB8,
     CHR 0xD1, CHR 0x82, CHR 0xD0, CHR 0xB5] @ '' '' @ [CHR 0xD1, CHR 0x83, CHR 0xD0, CHR 0xB7,
     CHR 0xD0, CHR 0xBD, CHR 0xD0, CHR 0xB0, CHR 0xD1, CHR 0x82, CHR 0xD1, CHR 0x8C] @ '' '' @
     [CHR 0xD1, CHR 0x86, CHR 0xD0, CHR 0xB5, CHR 0xD0, CHR 0xBD, CHR 0xD1, CHR 0x83] @ '', '' @
     [CHR 0xD1, CHR 0x85, CHR 0xD0, CHR 0xB0, CHR 0xD1, CHR 0x80, CHR 0xD0, CHR 0xB0, CHR 0xD0,
     CHR 0xBA, CHR 0xD1, CHR 0x82, CHR 0xD0, CHR 0xB5, CHR 0xD1, CHR 0x80, CHR 0xD0, CHR 0xB8,
     CHR 0xD1, CHR 0x81, CHR 0xD1, CHR 0x82, CHR 0xD0, CHR 0xB8, CHR 0xD0, CHR 0xBA, CHR 0xD0,
     CHR 0xB8] @ '' '' @ [CHR 0xD0, CHR 0xB8, CHR 0xD0, CHR 0xBB, CHR 0xD0, CHR 0xB8] @ '' '' @
     [CHR 0xD1, CHR 0x82, CHR 0xD0, CHR 0xB5, CHR 0xD1, CHR 0x81, CHR 0xD1, CHR 0x82] @ ''-'' @
     [CHR 0xD0, CHR 0xB4, CHR 0xD1, CHR 0x80, CHR 0xD0, CHR 0xB0, CHR 0xD0, CHR 0xB9, CHR 0xD0,
     CHR 0xB2] @ ''?''"

(* bot.py line 322:  V horoshem nastroenii? Davaj poprobuem druguyu kategoriyu! <U+1F60A> *)
definition sfx_none_nocat_positive :: string where
  "sfx_none_nocat_positive =
     '' '' @ [CHR 0xD0, CHR 0x92] @ '' '' @ [CHR 0xD1, CHR 0x85, CHR 0xD0, CHR 0xBE, CHR 0xD1,
     CHR 0x80, CHR 0xD0, CHR 0xBE, CHR 0xD1, CHR 0x88, CHR 0xD0, CHR 0xB5, CHR 0xD0, CHR 0xBC] @
     '' '' @ [CHR 0xD0, CHR 0xBD, CHR 0xD0, CHR 0xB0, CHR 0xD1, CHR 0x81, CHR 0xD1, CHR 0x82,
     CHR 0xD1, CHR 0x80, CHR 0xD0, CHR 0xBE, CHR 0xD0, CHR 0xB5, CHR 0xD0, CHR 0xBD, CHR 0xD0,
     CHR 0xB8, CHR 0xD0, CHR 0xB8] @ ''? '' @ [CHR 0xD0, CHR 0x94, CHR 0xD0, CHR 0xB0, CHR 0xD0,
     CHR 0xB2, CHR 0xD0, CHR 0xB0, CHR 0xD0, CHR 0xB9] @ '' '' @ [CHR 0xD0, CHR 0xBF, CHR 0xD0,
     CHR 0xBE, CHR 0xD0, CHR 0xBF, CHR 0xD1, CHR 0x80, CHR 0xD0, CHR 0xBE, CHR 0xD0, CHR 0xB1,
     CHR 0xD1, CHR 0x83, CHR 0xD0, CHR 0xB5, CHR 0xD0, CHR 0xBC] @ '' '' @ [CHR 0xD0, CHR 0xB4,
     CHR 0xD1, CHR 0x80, CHR 0xD1, CHR 0x83, CHR 0xD0, CHR 0xB3, CHR 0xD1, CHR 0x83, CHR 0xD1,
     CHR 0x8E] @ '' '' @ [CHR 0xD0, CHR 0xBA, CHR 0xD0, CHR 0xB0, CHR 0xD1, CHR 0x82, CHR 0xD0,
     CHR 0xB5, CHR 0xD0, CHR 0xB3, CHR 0xD0, CHR 0xBE, CHR 0xD1, CHR 0x80, CHR 0xD0, CHR 0xB8,
     CHR 0xD1, CHR 0x8E] @ ''! '' @ [CHR 0xF0, CHR 0x9F, CHR 0x98, CHR 0x8A]"

(* bot.py line 322:  Ne perezhivaj, poprobuem druguyu kategoriyu! <U+1F60A> *)
definition sfx_none_nocat_negative :: string where
  "sfx_none_nocat_negative =
     '' '' @ [CHR 0xD0, CHR 0x9D, CHR 0xD0, CHR 0xB5] @ '' '' @ [CHR 0xD0, CHR 0xBF, CHR 0xD0,
     CHR 0xB5, CHR 0xD1, CHR 0x80, CHR 0xD0, CHR 0xB5, CHR 0xD0, CHR 0xB6, CHR 0xD0, CHR 0xB8,
     CHR 0xD0, CHR 0xB2, CHR 0xD0, CHR 0xB0, CHR 0xD0, CHR 0xB9] @ '', '' @ [CHR 0xD0, CHR 0xBF,
     CHR 0xD0, CHR 0xBE, CHR 0xD0, CHR 0xBF, CHR 0xD1, CHR 0x80, CHR 0xD0, CHR 0xBE, CHR 0xD0,
     CHR 0xB1, CHR 0xD1, CHR 0x83, CHR 0xD0, CHR 0xB5, CHR 0xD0, CHR 0xBC] @ '' '' @ [CHR 0xD0,
     CHR 0xB4, CHR 0xD1, CHR 0x80, CHR 0xD1, CHR 0x83, CHR 0xD0, CHR 0xB3, CHR 0xD1, CHR 0x83,
     CHR 0xD1, CHR 0x8E] @ '' '' @ [CHR 0xD0, CHR 0xBA, CHR 0xD0, CHR 0xB0, CHR 0xD1, CHR 0x82,
     CHR 0xD0, CHR 0xB5, CHR 0xD0, CHR 0xB3, CHR 0xD0, CHR 0xBE, CHR 0xD1, CHR 0x80, CHR 0xD0,
     CHR 0xB8, CHR 0xD1, CHR 0x8E] @ ''! '' @ [CHR 0xF0, CHR 0x9F, CHR 0x98, CHR 0x8A]"

(* bot.py line 323: U nas net mashin v kategorii  *)
definition msg_no_cars_in_category :: string where
  "msg_no_cars_in_category =
     [CHR 0xD0, CHR 0xA3] @ '' '' @ [CHR 0xD0, CHR 0xBD, CHR 0xD0, CHR 0xB0, CHR 0xD1, CHR 0x81] @
     '' '' @ [CHR 0xD0, CHR 0xBD, CHR 0xD0, CHR 0xB5, CHR 0xD1, CHR 0x82] @ '' '' @ [CHR 0xD0,
     CHR 0xBC, CHR 0xD0, CHR 0xB0, CHR 0xD1, CHR 0x88, CHR 0xD0, CHR 0xB8, CHR 0xD0, CHR 0xBD] @
     '' '' @ [CHR 0xD0, CHR 0xB2] @ '' '' @ [CHR 0xD0, CHR 0xBA, CHR 0xD0, CHR 0xB0, CHR 0xD1,
     CHR 0x82, CHR 0xD0, CHR 0xB5, CHR 0xD0, CHR 0xB3, CHR 0xD0, CHR 0xBE, CHR 0xD1, CHR 0x80,
     CHR 0xD0, CHR 0xB8, CHR 0xD0, CHR 0xB8] @ '' ''"

(* bot.py line 323: . Poprobujte druguyu kategoriyu! *)
definition msg_try_other_category :: string where
  "msg_try_other_category =
     ''. '' @ [CHR 0xD0, CHR 0x9F, CHR 0xD0, CHR 0xBE, CHR 0xD0, CHR 0xBF, CHR 0xD1, CHR 0x80,
     CHR 0xD0, CHR 0xBE, CHR 0xD0, CHR 0xB1, CHR 0xD1, CHR 0x83, CHR 0xD0, CHR 0xB9, CHR 0xD1,
     CHR 0x82, CHR 0xD0, CHR 0xB5] @ '' '' @ [CHR 0xD0, CHR 0xB4, CHR 0xD1, CHR 0x80, CHR 0xD1,
     CHR 0x83, CHR 0xD0, CHR 0xB3, CHR 0xD1, CHR 0x83, CHR 0xD1, CHR 0x8E] @ '' '' @ [CHR 0xD0,
     CHR 0xBA, CHR 0xD0, CHR 0xB0, CHR 0xD1, CHR 0x82, CHR 0xD0, CHR 0xB5, CHR 0xD0, CHR 0xB3,
     CHR 0xD0, CHR 0xBE, CHR 0xD1, CHR 0x80, CHR 0xD0, CHR 0xB8, CHR 0xD1, CHR 0x8E] @ ''!''"

(* bot.py line 338:  Otlichnoe nastroenie, da? <U+1F60A> *)
definition sfx_wcar_name_positive :: string where
  "sfx_wcar_name_positive =
     '' '' @ [CHR 0xD0, CHR 0x9E, CHR 0xD1, CHR 0x82, CHR 0xD0, CHR 0xBB, CHR 0xD0, CHR 0xB8,
     CHR 0xD1, CHR 0x87, CHR 0xD0, CHR 0xBD, CHR 0xD0, CHR 0xBE, CHR 0xD0, CHR 0xB5] @ '' '' @
     [CHR 0xD0, CHR 0xBD, CHR 0xD0, CHR 0xB0, CHR 0xD1, CHR 0x81, CHR 0xD1, CHR 0x82, CHR 0xD1,
     CHR 0x80, CHR 0xD0, CHR 0xBE, CHR 0xD0, CHR 0xB5, CHR 0xD0, CHR 0xBD, CHR 0xD0, CHR 0xB8,
     CHR 0xD0, CHR 0xB5] @ '', '' @ [CHR 0xD0, CHR 0xB4, CHR 0xD0, CHR 0xB0] @ ''? '' @ [CHR 0xF0,
     CHR 0x9F, CHR 0x98, CHR 0x8A]"

(* bot.py line 338:  Davaj najdem chto-to podhodyashchee! <U+1F60A> *)
definition sfx_wcar_name_negative :: string where
  "sfx_wcar_name_negative =
     '' '' @ [CHR 0xD0, CHR 0x94, CHR 0xD0, CHR 0xB0, CHR 0xD0, CHR 0xB2, CHR 0xD0, CHR 0xB0,
     CHR 0xD0, CHR 0xB9] @ '' '' @ [CHR 0xD0, CHR 0xBD, CHR 0xD0, CHR 0xB0, CHR 0xD0, CHR 0xB9,
     CHR 0xD0, CHR 0xB4, CHR 0xD0, CHR 0xB5, CHR 0xD0, CHR 0xBC] @ '' '' @ [CHR 0xD1, CHR 0x87,
     CHR 0xD1, CHR 0x82, CHR 0xD0, CHR 0xBE] @ ''-'' @ [CHR 0xD1, CHR 0x82, CHR 0xD0, CHR 0xBE] @
     '' '' @ [CHR 0xD0, CHR 0xBF, CHR 0xD0, CHR 0xBE, CHR 0xD0, CHR 0xB4, CHR 0xD1, CHR 0x85,
     CHR 0xD0, CHR 0xBE, CHR 0xD0, CHR 0xB4, CHR 0xD1, CHR 0x8F, CHR 0xD1, CHR 0x89, CHR 0xD0,
     CHR 0xB5, CHR 0xD0, CHR 0xB5] @ ''! '' @ [CHR 0xF0, CHR 0x9F, CHR 0x98, CHR 0x8A]"

(* bot.py line 348:  V horoshem raspolozhenii duha? <U+1F60A> *)
definition sfx_wcar_cat_positive :: string where
  "sfx_wcar_cat_positive =
     '' '' @ [CHR 0xD0, CHR 0x92] @ '' '' @ [CHR 0xD1, CHR 0x85, CHR 0xD0, CHR 0xBE, CHR 0xD1,
     CHR 0x80, CHR 0xD0, CHR 0xBE, CHR 0xD1, CHR 0x88, CHR 0xD0, CHR 0xB5, CHR 0xD0, CHR 0xBC] @
     '' '' @ [CHR 0xD1, CHR 0x80, CHR 0xD0, CHR 0xB0, CHR 0xD1, CHR 0x81, CHR 0xD0, CHR 0xBF,
     CHR 0xD0, CHR 0xBE, CHR 0xD0, CHR 0xBB, CHR 0xD0, CHR 0xBE, CHR 0xD0, CHR 0xB6, CHR 0xD0,
     CHR 0xB5, CHR 0xD0, CHR 0xBD, CHR 0xD0, CHR 0xB8, CHR 0xD0, CHR 0xB8] @ '' '' @ [CHR 0xD0,
     CHR 0xB4, CHR 0xD1, CHR 0x83, CHR 0xD1, CHR 0x85, CHR 0xD0, CHR 0xB0] @ ''? '' @ [CHR 0xF0,
     CHR 0x9F, CHR 0x98, CHR 0x8A]"

(* bot.py line 348:  Ne grusti, najdem avto! <U+1F60A> *)
definition sfx_wcar_cat_negative :: string where
  "sfx_wcar_cat_negative =
     '' '' @ [CHR 0xD0, CHR 0x9D, CHR 0xD0, CHR 0xB5] @ '' '' @ [CHR 0xD0, CHR 0xB3, CHR 0xD1,
     CHR 0x80, CHR 0xD1, CHR 0x83, CHR 0xD1, CHR 0x81, CHR 0xD1, CHR 0x82, CHR 0xD0, CHR 0xB8] @
     '', '' @ [CHR 0xD0, CHR 0xBD, CHR 0xD0, CHR 0xB0, CHR 0xD0, CHR 0xB9, CHR 0xD0, CHR 0xB4,
     CHR 0xD0, CHR 0xB5, CHR 0xD0, CHR 0xBC] @ '' '' @ [CHR 0xD0, CHR 0xB0, CHR 0xD0, CHR 0xB2,
     CHR 0xD1, CHR 0x82, CHR 0xD0, CHR 0xBE] @ ''! '' @ [CHR 0xF0, CHR 0x9F, CHR 0x98, CHR 0x8A]"

(* bot.py line 351:  Otlichno, davaj prodolzhim! <U+1F60A> *)
definition sfx_wcar_positive :: string where
  "sfx_wcar_positive =
     '' '' @ [CHR 0xD0, CHR 0x9E, CHR 0xD1, CHR 0x82, CHR 0xD0, CHR 0xBB, CHR 0xD0, CHR 0xB8,
     CHR 0xD1, CHR 0x87, CHR 0xD0, CHR 0xBD, CHR 0xD0, CHR 0xBE] @ '', '' @ [CHR 0xD0, CHR 0xB4,
     CHR 0xD0, CHR 0xB0, CHR 0xD0, CHR 0xB2, CHR 0xD0, CHR 0xB0, CHR 0xD0, CHR 0xB9] @ '' '' @
     [CHR 0xD0, CHR 0xBF, CHR 0xD1, CHR 0x80, CHR 0xD0, CHR 0xBE, CHR 0xD0, CHR 0xB4, CHR 0xD0,
     CHR 0xBE, CHR 0xD0, CHR 0xBB, CHR 0xD0, CHR 0xB6, CHR 0xD0, CHR 0xB8, CHR 0xD0, CHR 0xBC] @
     ''! '' @ [CHR 0xF0, CHR 0x9F, CHR 0x98, CHR 0x8A]"

(* bot.py line 351:  Ne perezhivaj, utochnim! <U+1F60A> *)
definition sfx_wcar_negative :: string where
  "sfx_wcar_negative =
     '' '' @ [CHR 0xD0, CHR 0x9D, CHR 0xD0, CHR 0xB5] @ '' '' @ [CHR 0xD0, CHR 0xBF, CHR 0xD0,
     CHR 0xB5, CHR 0xD1, CHR 0x80, CHR 0xD0, CHR 0xB5, CHR 0xD0, CHR 0xB6, CHR 0xD0, CHR 0xB8,
     CHR 0xD0, CHR 0xB2, CHR 0xD0, CHR 0xB0, CHR 0xD0, CHR 0xB9] @ '', '' @ [CHR 0xD1, CHR 0x83,
     CHR 0xD1, CHR 0x82, CHR 0xD0, CHR 0xBE, CHR 0xD1, CHR 0x87, CHR 0xD0, CHR 0xBD, CHR 0xD0,
     CHR 0xB8, CHR 0xD0, CHR 0xBC] @ ''! '' @ [CHR 0xF0, CHR 0x9F, CHR 0x98, CHR 0x8A]"

(* bot.py line 352: Pozhalujsta, utochnite nazvanie mashiny ili kategoriyu. *)
definition msg_clarify :: string where
  "msg_clarify =
     [CHR 0xD0, CHR 0x9F, CHR 0xD0, CHR 0xBE, CHR 0xD0, CHR 0xB6, CHR 0xD0, CHR 0xB0, CHR 0xD0,
     CHR 0xBB, CHR 0xD1, CHR 0x83, CHR 0xD0, CHR 0xB9, CHR 0xD1, CHR 0x81, CHR 0xD1, CHR 0x82,
     CHR 0xD0, CHR 0xB0] @ '', '' @ [CHR 0xD1, CHR 0x83, CHR 0xD1, CHR 0x82, CHR 0xD0, CHR 0xBE,
     CHR 0xD1, CHR 0x87, CHR 0xD0, CHR 0xBD, CHR 0xD0, CHR 0xB8, CHR 0xD1, CHR 0x82, CHR 0xD0,
     CHR 0xB5] @ '' '' @ [CHR 0xD0, CHR 0xBD, CHR 0xD0, CHR 0xB0, CHR 0xD0, CHR 0xB7, CHR 0xD0,
     CHR 0xB2, CHR 0xD0, CHR 0xB0, CHR 0xD0, CHR 0xBD, CHR 0xD0, CHR 0xB8, CHR 0xD0, CHR 0xB5] @
     '' '' @ [CHR 0xD0, CHR 0xBC, CHR 0xD0, CHR 0xB0, CHR 0xD1, CHR 0x88, CHR 0xD0, CHR 0xB8,
     CHR 0xD0, CHR 0xBD, CHR 0xD1, CHR 0x8B] @ '' '' @ [CHR 0xD0, CHR 0xB8, CHR 0xD0, CHR 0xBB,
     CHR 0xD0, CHR 0xB8] @ '' '' @ [CHR 0xD0, CHR 0xBA, CHR 0xD0, CHR 0xB0, CHR 0xD1, CHR 0x82,
     CHR 0xD0, CHR 0xB5, CHR 0xD0, CHR 0xB3, CHR 0xD0, CHR 0xBE, CHR 0xD1, CHR 0x80, CHR 0xD0,
     CHR 0xB8, CHR 0xD1, CHR 0x8E] @ ''.''"

(* bot.py line 360: mashinu *)
definition msg_mashinu :: string where
  "msg_mashinu =
     [CHR 0xD0, CHR 0xBC, CHR 0xD0, CHR 0xB0, CHR 0xD1, CHR 0x88, CHR 0xD0, CHR 0xB8, CHR 0xD0,
     CHR 0xBD, CHR 0xD1, CHR 0x83]"

(* bot.py line 384:  Otlichno, prodolzhaem! <U+1F60A> *)
definition sfx_wint_no_positive :: string where
  "sfx_wint_no_positive =
     '' '' @ [CHR 0xD0, CHR 0x9E, CHR 0xD1, CHR 0x82, CHR 0xD0, CHR 0xBB, CHR 0xD0, CHR 0xB8,
     CHR 0xD1, CHR 0x87, CHR 0xD0, CHR 0xBD, CHR 0xD0, CHR 0xBE] @ '', '' @ [CHR 0xD0, CHR 0xBF,
     CHR 0xD1, CHR 0x80, CHR 0xD0, CHR 0xBE, CHR 0xD0, CHR 0xB4, CHR 0xD0, CHR 0xBE, CHR 0xD0,
     CHR 0xBB, CHR 0xD0, CHR 0xB6, CHR 0xD0, CHR 0xB0, CHR 0xD0, CHR 0xB5, CHR 0xD0, CHR 0xBC] @
     ''! '' @ [CHR 0xF0, CHR 0x9F, CHR 0x98, CHR 0x8A]"

(* bot.py line 384:  Ne grusti, najdem drugoe! <U+1F60A> *)
definition sfx_wint_no_negative :: string where
  "sfx_wint_no_negative =
     '' '' @ [CHR 0xD0, CHR 0x9D, CHR 0xD0, CHR 0xB5] @ '' '' @ [CHR 0xD0, CHR 0xB3, CHR 0xD1,
     CHR 0x80, CHR 0xD1, CHR 0x83, CHR 0xD1, CHR 0x81, CHR 0xD1, CHR 0x82, CHR 0xD0, CHR 0xB8] @
     '', '' @ [CHR 0xD0, CHR 0xBD, CHR 0xD0, CHR 0xB0, CHR 0xD0, CHR 0xB9, CHR 0xD0, CHR 0xB4,
     CHR 0xD0, CHR 0xB5, CHR 0xD0, CHR 0xBC] @ '' '' @ [CHR 0xD0, CHR 0xB4, CHR 0xD1, CHR 0x80,
     CHR 0xD1, CHR 0x83, CHR 0xD0, CHR 0xB3, CHR 0xD0, CHR 0xBE, CHR 0xD0, CHR 0xB5] @ ''! '' @
     [CHR 0xF0, CHR 0x9F, CHR 0x98, CHR 0x8A]"

(* bot.py line 387:  V horoshem nastroenii? <U+1F60A> *)
definition sfx_wint_positive :: string where
  "sfx_wint_positive =
     '' '' @ [CHR 0xD0, CHR 0x92] @ '' '' @ [CHR 0xD1, CHR 0x85, CHR 0xD0, CHR 0xBE, CHR 0xD1,
     CHR 0x80, CHR 0xD0, CHR 0xBE, CHR 0xD1, CHR 0x88, CHR 0xD0, CHR 0xB5, CHR 0xD0, CHR 0xBC] @
     '' '' @ [CHR 0xD0, CHR 0xBD, CHR 0xD0, CHR 0xB0, CHR 0xD1, CHR 0x81, CHR 0xD1, CHR 0x82,
     CHR 0xD1, CHR 0x80, CHR 0xD0, CHR 0xBE, CHR 0xD0, CHR 0xB5, CHR 0xD0, CHR 0xBD, CHR 0xD0,
     CHR 0xB8, CHR 0xD0, CHR 0xB8] @ ''? '' @ [CHR 0xF0, CHR 0x9F, CHR 0x98, CHR 0x8A]"

(* bot.py line 387:  Ne perezhivaj, najdem chto-to podhodyashchee! <U+1F60A> *)
definition sfx_wint_negative :: string where
  "sfx_wint_negative =
     '' '' @ [CHR 0xD0, CHR 0x9D, CHR 0xD0, CHR 0xB5] @ '' '' @ [CHR 0xD0, CHR 0xBF, CHR 0xD0,
     CHR 0xB5, CHR 0xD1, CHR 0x80, CHR 0xD0, CHR 0xB5, CHR 0xD0, CHR 0xB6, CHR 0xD0, CHR 0xB8,
     CHR 0xD0, CHR 0xB2, CHR 0xD0, CHR 0xB0, CHR 0xD0, CHR 0xB9] @ '', '' @ [CHR 0xD0, CHR 0xBD,
     CHR 0xD0, CHR 0xB0, CHR 0xD0, CHR 0xB9, CHR 0xD0, CHR 0xB4, CHR 0xD0, CHR 0xB5, CHR 0xD0,
     CHR 0xBC] @ '' '' @ [CHR 0xD1, CHR 0x87, CHR 0xD1, CHR 0x82, CHR 0xD0, CHR 0xBE] @ ''-'' @
     [CHR 0xD1, CHR 0x82, CHR 0xD0, CHR 0xBE] @ '' '' @ [CHR 0xD0, CHR 0xBF, CHR 0xD0, CHR 0xBE,
     CHR 0xD0, CHR 0xB4, CHR 0xD1, CHR 0x85, CHR 0xD0, CHR 0xBE, CHR 0xD0, CHR 0xB4, CHR 0xD1,
     CHR 0x8F, CHR 0xD1, CHR 0x89, CHR 0xD0, CHR 0xB5, CHR 0xD0, CHR 0xB5] @ ''! '' @ [CHR 0xF0,
     CHR 0x9F, CHR 0x98, CHR 0x8A]"

(* bot.py line 388: Chto hotite uznat' pro  *)
definition msg_what_about :: string where
  "msg_what_about =
     [CHR 0xD0, CHR 0xA7, CHR 0xD1, CHR 0x82, CHR 0xD0, CHR 0xBE] @ '' '' @ [CHR 0xD1, CHR 0x85,
     CHR 0xD0, CHR 0xBE, CHR 0xD1, CHR 0x82, CHR 0xD0, CHR 0xB8, CHR 0xD1, CHR 0x82, CHR 0xD0,
     CHR 0xB5] @ '' '' @ [CHR 0xD1, CHR 0x83, CHR 0xD0, CHR 0xB7, CHR 0xD0, CHR 0xBD, CHR 0xD0,
     CHR 0xB0, CHR 0xD1, CHR 0x82, CHR 0xD1, CHR 0x8C] @ '' '' @ [CHR 0xD0, CHR 0xBF, CHR 0xD1,
     CHR 0x80, CHR 0xD0, CHR 0xBE] @ '' ''"

(* bot.py line 388: : cenu, harakteristiki ili test-drajv? *)
definition msg_what_about_tail :: string where
  "msg_what_about_tail =
     '': '' @ [CHR 0xD1, CHR 0x86, CHR 0xD0, CHR 0xB5, CHR 0xD0, CHR 0xBD, CHR 0xD1, CHR 0x83] @
     '', '' @ [CHR 0xD1, CHR 0x85, CHR 0xD0, CHR 0xB0, CHR 0xD1, CHR 0x80, CHR 0xD0, CHR 0xB0,
     CHR 0xD0, CHR 0xBA, CHR 0xD1, CHR 0x82, CHR 0xD0, CHR 0xB5, CHR 0xD1, CHR 0x80, CHR 0xD0,
     CHR 0xB8, CHR 0xD1, CHR 0x81, CHR 0xD1, CHR 0x82, CHR 0xD0, CHR 0xB8, CHR 0xD0, CHR 0xBA,
     CHR 0xD0, CHR 0xB8] @ '' '' @ [CHR 0xD0, CHR 0xB8, CHR 0xD0, CHR 0xBB, CHR 0xD0, CHR 0xB8] @
     '' '' @ [CHR 0xD1, CHR 0x82, CHR 0xD0, CHR 0xB5, CHR 0xD1, CHR 0x81, CHR 0xD1, CHR 0x82] @ ''-''
     @ [CHR 0xD0, CHR 0xB4, CHR 0xD1, CHR 0x80, CHR 0xD0, CHR 0xB0, CHR 0xD0, CHR 0xB9, CHR 0xD0,
     CHR 0xB2] @ ''?''"

section \<open>Session context\<close>

text \<open>The reads \<^verbatim>\<open>context.user_data.get(key, default)\<close> of the source, with their defaults.\<close>

definition get_state :: "user_data \<Rightarrow> BotState" where
  "get_state ctx = (case state ctx of None \<Rightarrow> NONE | Some s \<Rightarrow> s)"

definition get_current_car :: "user_data \<Rightarrow> string option" where
  "get_current_car ctx = (case current_car ctx of None \<Rightarrow> None | Some v \<Rightarrow> v)"

definition get_last_bot_response :: "user_data \<Rightarrow> string option" where
  "get_last_bot_response ctx = (case last_bot_response ctx of None \<Rightarrow> Some [] | Some v \<Rightarrow> v)"

definition get_last_intent :: "user_data \<Rightarrow> string option" where
  "get_last_intent ctx = (case last_intent ctx of None \<Rightarrow> Some [] | Some v \<Rightarrow> v)"

definition get_history :: "user_data \<Rightarrow> string list" where
  "get_history ctx = (case history ctx of None \<Rightarrow> [] | Some h \<Rightarrow> h)"

text \<open>Lines 73-77: the five calls of \<^verbatim>\<open>setdefault\<close>.\<close>

definition setdefaults :: "user_data \<Rightarrow> user_data" where
  "setdefaults ctx =
     ctx\<lparr>state := Some (case state ctx of None \<Rightarrow> NONE | Some s \<Rightarrow> s),
         current_car := Some (case current_car ctx of None \<Rightarrow> None | Some v \<Rightarrow> v),
         last_bot_response := Some (case last_bot_response ctx of None \<Rightarrow> None | Some v \<Rightarrow> v),
         last_intent := Some (case last_intent ctx of None \<Rightarrow> None | Some v \<Rightarrow> v),
         history := Some (case history ctx of None \<Rightarrow> [] | Some h \<Rightarrow> h)\<rparr>"

text \<open>
  \<^verbatim>\<open>Bot._update_context\<close> (lines 71-83). The answer may be \<^verbatim>\<open>None\<close>
  (\<^verbatim>\<open>get_answer_by_intent\<close> can return it), and so may the intent.
\<close>

definition update_context ::
  "env \<Rightarrow> user_data \<Rightarrow> string \<Rightarrow> string option \<Rightarrow> string option \<Rightarrow> user_data" where
  "update_context env ctx replica answer intent =
     (let c1 = setdefaults ctx;
          c2 = c1\<lparr>history := Some (slice_from (- history_limit env) (get_history c1 @ [replica]))\<rparr>;
          c3 = c2\<lparr>last_bot_response := Some answer\<rparr>
      in if truthy_str intent then c3\<lparr>last_intent := Some intent\<rparr> else c3)"

text \<open>
  Modelled from the spec: the class \<^verbatim>\<open>Stats\<close> of the module \<^verbatim>\<open>utils\<close>, which is
  not in the source tree. Section 4.7: it "increments a per-session counter keyed by
  resolution outcome on every turn", "purely additive". \<open>stats_add\<close> is
  \<^verbatim>\<open>stats.add(type, replica, answer, context)\<close>; the counters start at zero, as
  \<^verbatim>\<open>stats_command\<close> reads them (lines 475-476). Constructing \<^verbatim>\<open>Stats(context)\<close>
  (line 392) changes nothing.
\<close>

definition stats_add :: "ResponseType \<Rightarrow> user_data \<Rightarrow> user_data" where
  "stats_add ty ctx =
     (let s = (case stats ctx of
                 None \<Rightarrow> \<lparr>intent_count = 0, generate_count = 0, failure_count = 0\<rparr>
               | Some s \<Rightarrow> s)
      in ctx\<lparr>stats := Some (case ty of
                 INTENT \<Rightarrow> s\<lparr>intent_count := Suc (intent_count s)\<rparr>
               | GENERATE \<Rightarrow> s\<lparr>generate_count := Suc (generate_count s)\<rparr>
               | FAILURE \<Rightarrow> s\<lparr>failure_count := Suc (failure_count s)\<rparr>)\<rparr>)"

section \<open>Intent classification\<close>

text \<open>
  \<^verbatim>\<open>rapidfuzz.process.extractOne(query, choices, scorer=...)\<close>: the choice with the
  highest score (the first one among equals) and its score, \<^verbatim>\<open>None\<close> when there is
  no choice. Scores and thresholds are real numbers here: the rounding of floating-point
  division is not modelled.
\<close>

fun extractOne ::
  "(string \<Rightarrow> string \<Rightarrow> real) \<Rightarrow> string \<Rightarrow> string list \<Rightarrow> (string \<times> real) option" where
  "extractOne scorer query [] = None"
| "extractOne scorer query (c # cs) =
     (case extractOne scorer query cs of
        None \<Rightarrow> Some (c, scorer query c)
      | Some (b, s) \<Rightarrow> if scorer query c < s then Some (b, s) else Some (c, scorer query c))"

text \<open>Line 95: the lemmatized examples of an intent, the empty ones dropped.\<close>

definition lemmatized_examples :: "env \<Rightarrow> intent_data \<Rightarrow> string list" where
  "lemmatized_examples env data =
     [lemmatize_phrase env ex. ex \<leftarrow> examples data, lemmatize_phrase env ex \<noteq> []]"

text \<open>
  The loop of lines 94-101 over \<^verbatim>\<open>CONFIG['intents'].items()\<close>, with its two variables
  \<^verbatim>\<open>best_score\<close> and \<^verbatim>\<open>best_intent\<close>.
\<close>

fun classify_loop ::
  "env \<Rightarrow> string \<Rightarrow> (string \<times> intent_data) list \<Rightarrow> real \<times> string option \<Rightarrow> real \<times> string option"
where
  "classify_loop env replica_lemmatized [] acc = acc"
| "classify_loop env replica_lemmatized ((intent_key, data) # rest) (best_score, best_intent) =
     (case extractOne (fuzz_ratio env) replica_lemmatized (lemmatized_examples env data) of
        None \<Rightarrow> classify_loop env replica_lemmatized rest (best_score, best_intent)
      | Some (m, score) \<Rightarrow>
          if best_score < score / 100 \<and> intent_score env \<le> score / 100
          then classify_loop env replica_lemmatized rest (score / 100, Some intent_key)
          else classify_loop env replica_lemmatized rest (best_score, best_intent))"

text \<open>
  \<^verbatim>\<open>Bot.classify_intent\<close> (lines 85-104). The last line reads
  \<^verbatim>\<open>(best_intent or intent) if best_score >= threshold else None\<close>.
\<close>

definition classify_intent :: "env \<Rightarrow> string \<Rightarrow> string option" where
  "classify_intent env replica =
     (let replica_lemmatized = lemmatize_phrase env replica in
      if replica_lemmatized = [] then None
      else
        (let intent = clf_predict env replica_lemmatized in
         (case classify_loop env replica_lemmatized (intents env) (0, None) of
            (best_score, best_intent) \<Rightarrow>
              if intent_score env \<le> best_score
              then (if truthy_str best_intent then best_intent else Some intent)
              else None)))"

section \<open>Replies about vehicles\<close>

text \<open>
  The three-way choice of a suffix by \<^verbatim>\<open>analyze_sentiment(replica)\<close>, which every
  reply of the source repeats with its own two texts.
\<close>

definition sentiment_suffix :: "env \<Rightarrow> string \<Rightarrow> string \<Rightarrow> string \<Rightarrow> string" where
  "sentiment_suffix env replica pos neg =
     (let sentiment = analyze_sentiment env replica in
      if sentiment = ''positive'' then pos
      else if sentiment = ''negative'' then neg
      else [])"

text \<open>
  \<^verbatim>\<open>[car for car, data in CONFIG['cars'].items() if car_category in data.get('categories', [])]\<close>
  (lines 134, 143, 313, 342).
\<close>

definition cars_in_category :: "env \<Rightarrow> string \<Rightarrow> string list" where
  "cars_in_category env car_category =
     [car. (car, data) \<leftarrow> cars env, car_category \<in> set (car_categories data)]"

text \<open>\<^verbatim>\<open>Bot._get_car_response\<close> (lines 106-123); it does not touch the context.\<close>

definition get_car_response ::
  "env \<Rightarrow> string \<Rightarrow> string option \<Rightarrow> string \<Rightarrow> rng \<Rightarrow> string outcome \<times> rng" where
  "get_car_response env intent car_name replica g =
     (case car_name of
        None \<Rightarrow> (Return msg_no_such_car, g)
      | Some name \<Rightarrow>
          (case map_of (cars env) name of
             None \<Rightarrow> (Return msg_no_such_car, g)
           | Some data \<Rightarrow>
               (case map_of (intents env) intent of
                  None \<Rightarrow> (Raise KeyError, g)
                | Some idata \<Rightarrow>
                    (case random_choice (responses idata) g of
                       (Raise e, g') \<Rightarrow> (Raise e, g')
                     | (Return template, g') \<Rightarrow>
                         (let a1 = replace ''[car_name]'' name template;
                              a2 = replace ''[price]'' (str_int (car_price data)) a1;
                              a3 = replace ''[description]''
                                     (case car_description data of
                                        None \<Rightarrow> default_description
                                      | Some d \<Rightarrow> d) a2;
                              a4 = a3 @ sentiment_suffix env replica sfx_car_positive sfx_car_negative
                          in (Return (a4 @ msg_what_else), g'))))))"

text \<open>
  The loop of lines 137-146 over the history, most recent first. A \<^verbatim>\<open>return\<close> inside
  it ends \<^verbatim>\<open>_find_car_by_context\<close>.
\<close>

fun find_in_history :: "env \<Rightarrow> string list \<Rightarrow> rng \<Rightarrow> string option outcome \<times> rng" where
  "find_in_history env [] g = (Return None, g)"
| "find_in_history env (hist # rest) g =
     (let hist_car = extract_car_name env hist in
      if truthy_str hist_car then (Return hist_car, g)
      else
        (case extract_car_category env hist of
           None \<Rightarrow> find_in_history env rest g
         | Some hist_category \<Rightarrow>
             if hist_category = [] then find_in_history env rest g
             else
               (let suitable = cars_in_category env hist_category in
                if suitable = [] then find_in_history env rest g
                else (case random_choice suitable g of
                        (Raise e, g') \<Rightarrow> (Raise e, g')
                      | (Return car, g') \<Rightarrow> (Return (Some car), g')))))"

text \<open>
  \<^verbatim>\<open>Bot._find_car_by_context\<close> (lines 125-147): first the branches of lines 133-147,
  then the whole function with the test of line 131 in front.
\<close>

definition find_car_by_category_or_history ::
  "env \<Rightarrow> string \<Rightarrow> user_data \<Rightarrow> rng \<Rightarrow> string option outcome \<times> rng" where
  "find_car_by_category_or_history env replica ctx g =
     (let car_category = extract_car_category env replica in
      if truthy_str car_category then
        (let suitable = cars_in_category env (case car_category of None \<Rightarrow> [] | Some k \<Rightarrow> k) in
         if suitable = [] then (Return None, g)
         else (case random_choice suitable g of
                 (Raise e, g') \<Rightarrow> (Raise e, g')
               | (Return car, g') \<Rightarrow> (Return (Some car), g')))
      else if get_last_intent ctx = Some CAR_TYPES
      then find_in_history env (rev (get_history ctx)) g
      else (Return None, g))"

definition find_car_by_context ::
  "env \<Rightarrow> string \<Rightarrow> user_data \<Rightarrow> rng \<Rightarrow> string option outcome \<times> rng" where
  "find_car_by_context env replica ctx g =
     (case get_last_bot_response ctx of
        None \<Rightarrow> find_car_by_category_or_history env replica ctx g
      | Some last_response \<Rightarrow>
          if last_response \<noteq> [] \<and> contains upsell_marker last_response
          then (Return (extract_car_name env last_response), g)
          else find_car_by_category_or_history env replica ctx g)"

text \<open>
  Lines 151-157 of \<^verbatim>\<open>_handle_filter_cars\<close>: the vehicles that pass the price ceiling and
  the category, when given, less those that \<^verbatim>\<open>extract_car_name\<close> finds in an utterance
  of the history.
\<close>

definition price_ok :: "int option \<Rightarrow> car_data \<Rightarrow> bool" where
  "price_ok price data = 
     (case price of None \<Rightarrow> True | Some p \<Rightarrow> if p = 0 then True else car_price data \<le> p)"

definition category_ok :: "string option \<Rightarrow> car_data \<Rightarrow> bool" where
  "category_ok car_category data =
     (case car_category of
        None \<Rightarrow> True
      | Some k \<Rightarrow> if k = [] then True else k \<in> set (car_categories data))"

definition recent_cars :: "env \<Rightarrow> user_data \<Rightarrow> string option list" where
  "recent_cars env ctx = map (extract_car_name env) (get_history ctx)"

definition suitable_cars :: "env \<Rightarrow> int option \<Rightarrow> string option \<Rightarrow> user_data \<Rightarrow> string list" where
  "suitable_cars env price car_category ctx =
     [c \<leftarrow> [car. (car, data) \<leftarrow> cars env, price_ok price data \<and> category_ok car_category data].
        Some c \<notin> set (recent_cars env ctx)]"

text \<open>The list \<^verbatim>\<open>conditions\<close> of lines 160-164.\<close>

definition filter_conditions :: "int option \<Rightarrow> string option \<Rightarrow> string list" where
  "filter_conditions price car_category =
     (case price of
        None \<Rightarrow> []
      | Some p \<Rightarrow> if p = 0 then [] else [msg_up_to @ str_int p @ msg_roubles]) @
     (case car_category of
        None \<Rightarrow> []
      | Some k \<Rightarrow> if k = [] then [] else [msg_in_category @ k])"

text \<open>\<^verbatim>\<open>Bot._handle_filter_cars\<close> (lines 149-173).\<close>

definition handle_filter_cars ::
  "env \<Rightarrow> int option \<Rightarrow> string option \<Rightarrow> user_data \<Rightarrow> rng \<Rightarrow> string outcome \<times> user_data \<times> rng"
where
  "handle_filter_cars env price car_category ctx g =
     (let suitable = suitable_cars env price car_category ctx in
      if suitable = [] then
        (Return (msg_no_cars_for @ join '', '' (filter_conditions price car_category) @ ''.''), ctx, g)
      else if \<not> truthy_int price \<and> \<not> truthy_str car_category then
        (case random_choice suitable g of
           (Raise e, g') \<Rightarrow> (Raise e, ctx, g')
         | (Return car_name, g') \<Rightarrow>
             (Return (msg_advise @ car_name @ msg_advise_tail),
              ctx\<lparr>current_car := Some (Some car_name), state := Some WAITING_FOR_INTENT\<rparr>, g'))
      else (Return (msg_found @ join '', '' suitable @ ''.''), ctx, g))"

section \<open>Answers by intent\<close>

text \<open>
  How a branch of a function ends: \<open>Done\<close> is a \<^verbatim>\<open>return\<close> inside the branch,
  \<open>Next\<close> carries the value of \<^verbatim>\<open>answer\<close> on to the code after the branches.
\<close>

datatype 'a flow = Done 'a | Next 'a

text \<open>
  \<^verbatim>\<open>[cat for car in CONFIG['cars'].values() for cat in car.get('categories', [])]\<close>
  (lines 218 and 234) and \<^verbatim>\<open>list(CONFIG['cars'].keys())\<close>.
\<close>

definition all_categories :: "env \<Rightarrow> string list" where
  "all_categories env = concat (map (\<lambda>(car, data). car_categories data) (cars env))"

definition car_names :: "env \<Rightarrow> string list" where
  "car_names env = map fst (cars env)"

text \<open>
  Lines 196-206 of \<^verbatim>\<open>get_answer_by_intent\<close>: an intent about one vehicle. Every path
  returns, and none writes \<^verbatim>\<open>last_intent\<close>.
\<close>

definition car_intent_branch ::
  "env \<Rightarrow> string \<Rightarrow> string \<Rightarrow> string \<Rightarrow> user_data \<Rightarrow> rng \<Rightarrow> string outcome \<times> user_data \<times> rng"
where
  "car_intent_branch env intent sfx replica ctx g =
     (if \<not> truthy_str (get_current_car ctx) then
        (case find_car_by_context env replica ctx g of
           (Raise e, g') \<Rightarrow> (Raise e, ctx, g')
         | (Return car_name, g') \<Rightarrow>
             if truthy_str car_name then
               (let car_category = extract_car_category env replica in
                (Return (msg_from @ (if truthy_str car_category then fmt car_category else msg_auto)
                           @ msg_there_is @ fmt car_name @ msg_offer_tail_test @ sfx),
                 ctx\<lparr>current_car := Some car_name, state := Some WAITING_FOR_INTENT\<rparr>, g'))
             else (Return (msg_which_car @ sfx), ctx\<lparr>state := Some WAITING_FOR_CAR\<rparr>, g'))
      else
        (case get_car_response env intent (get_current_car ctx) replica g of
           (r, g') \<Rightarrow> (r, ctx, g')))"

text \<open>Lines 231-249: the intent \<^verbatim>\<open>yes\<close>, by the previous intent.\<close>

definition yes_branch ::
  "env \<Rightarrow> string \<Rightarrow> user_data \<Rightarrow> rng \<Rightarrow> string outcome \<times> rng" where
  "yes_branch env sfx ctx g =
     (let car_name = get_current_car ctx; prev = get_last_intent ctx in
      if prev = Some HELLO then
        (case random_sample (all_categories env) (min 3 (length (cars env))) g of
           (Raise e, g') \<Rightarrow> (Raise e, g')
         | (Return cats, g') \<Rightarrow>
             (Return (msg_great_we_have @ join '', '' (set_order env cats) @ msg_what_to_know @ sfx), g'))
      else if prev \<in> Some ` set [CAR_PRICE, CAR_INFO, CAR_AVAILABILITY, BOOK_TEST_DRIVE] then
        (case car_name of
           None \<Rightarrow> (Return (msg_name_car @ sfx), g)
         | Some name \<Rightarrow>
             if name = [] then (Return (msg_name_car @ sfx), g)
             else (case map_of (cars env) name of
                     None \<Rightarrow> (Raise KeyError, g)
                   | Some data \<Rightarrow>
                       (Return (msg_price_of @ name @ msg_dash @ str_int (car_price data)
                                  @ msg_roubles_what_else @ sfx), g)))
      else if prev = Some CAR_TYPES then
        (case random_sample (car_names env) (min 2 (length (cars env))) g of
           (Raise e, g') \<Rightarrow> (Raise e, g')
         | (Return names, g') \<Rightarrow>
             (Return (msg_we_have @ join '', '' names @ msg_name_one @ sfx), g'))
      else if prev = Some ''offtopic'' then (Return (msg_continue_offtopic @ sfx), g)
      else (Return (msg_ok_what @ sfx), g))"

text \<open>
  Lines 208-254: the branches for the other intents. \<open>template\<close> is the value
  \<^verbatim>\<open>answer\<close> has from line 187.
\<close>

definition intent_branch ::
  "env \<Rightarrow> string \<Rightarrow> string \<Rightarrow> string \<Rightarrow> string \<Rightarrow> user_data \<Rightarrow> rng
     \<Rightarrow> string flow outcome \<times> user_data \<times> rng" where
  "intent_branch env intent template sfx replica ctx g =
     (let car_category = extract_car_category env replica;
          price = extract_price env replica
      in
      if intent = CAR_RECOMMENDATION then
        (case handle_filter_cars env None car_category ctx g of
           (Raise e, c, g') \<Rightarrow> (Raise e, c, g')
         | (Return a, c, g') \<Rightarrow> (Return (Next a), c, g'))
      else if intent = FILTER_CARS then
        (if truthy_int price \<or> truthy_str car_category then
           (case handle_filter_cars env price car_category ctx g of
              (Raise e, c, g') \<Rightarrow> (Raise e, c, g')
            | (Return a, c, g') \<Rightarrow> (Return (Next a), c, g'))
         else (Return (Done (msg_give_filter @ sfx)), ctx, g))
      else if intent = CAR_TYPES then
        (case random_sample (all_categories env) (min 3 (length (cars env))) g of
           (Raise e, g1) \<Rightarrow> (Raise e, ctx, g1)
         | (Return cats, g1) \<Rightarrow>
             (case random_sample (car_names env) (min 2 (length (cars env))) g1 of
                (Raise e, g2) \<Rightarrow> (Raise e, ctx, g2)
              | (Return names, g2) \<Rightarrow>
                  (Return (Next (msg_we_have @ join '', '' (set_order env cats) @ msg_and_models
                                   @ join '', '' names @ msg_what_interesting @ sfx)),
                   ctx\<lparr>current_car := Some None\<rparr>, g2)))
      else if intent = COMPARE_CARS then
        (case random_choice (car_names env) g of
           (Raise e, g1) \<Rightarrow> (Raise e, ctx, g1)
         | (Return car1, g1) \<Rightarrow>
             (case random_choice [c \<leftarrow> car_names env. c \<noteq> car1] g1 of
                (Raise e, g2) \<Rightarrow> (Raise e, ctx, g2)
              | (Return car2, g2) \<Rightarrow>
                  (Return (Next (replace ''[car2]'' car2 (replace ''[car1]'' car1 template)
                                   @ msg_compare_ask @ car1 @ msg_or @ car2 @ ''?'' @ sfx)),
                   ctx\<lparr>current_car := Some (Some car1)\<rparr>, g2)))
      else if intent = YES then
        (case yes_branch env sfx ctx g of
           (Raise e, g') \<Rightarrow> (Raise e, ctx, g')
         | (Return a, g') \<Rightarrow> (Return (Next a), ctx, g'))
      else if intent = NO then
        (Return (Next (msg_ok_which_car @ sfx)), ctx\<lparr>current_car := Some None, state := Some NONE\<rparr>, g)
      else (Return (Next template), ctx, g))"

text \<open>
  Lines 256-261: the upsell for the intents \<^verbatim>\<open>hello\<close> and \<^verbatim>\<open>car_types\<close>
  (\<^verbatim>\<open>random.random()\<close> is drawn only for them), then \<^verbatim>\<open>last_intent\<close>.
  \<open>car_name\<close> is the local variable read at line 177.
\<close>

definition intent_tail ::
  "env \<Rightarrow> string \<Rightarrow> string option \<Rightarrow> string \<Rightarrow> string \<Rightarrow> user_data \<Rightarrow> rng
     \<Rightarrow> string option outcome \<times> user_data \<times> rng" where
  "intent_tail env intent car_name sfx answer ctx g =
     (if intent \<in> set [HELLO, CAR_TYPES] then
        (case random_random g of
           (r, g1) \<Rightarrow>
             if r < 0.2 then
               (case random_choice [c \<leftarrow> car_names env. Some c \<noteq> car_name] g1 of
                  (Raise e, g2) \<Rightarrow> (Raise e, ctx, g2)
                | (Return ad_car, g2) \<Rightarrow>
                    (Return (Some (answer @ msg_upsell @ ad_car @ msg_upsell_tail @ sfx)),
                     ctx\<lparr>last_intent := Some (Some intent)\<rparr>, g2))
             else (Return (Some answer), ctx\<lparr>last_intent := Some (Some intent)\<rparr>, g1))
      else (Return (Some answer), ctx\<lparr>last_intent := Some (Some intent)\<rparr>, g))"

text \<open>\<^verbatim>\<open>Bot.get_answer_by_intent\<close> (lines 175-261).\<close>

definition get_answer_by_intent ::
  "env \<Rightarrow> string \<Rightarrow> string \<Rightarrow> user_data \<Rightarrow> rng \<Rightarrow> string option outcome \<times> user_data \<times> rng"
where
  "get_answer_by_intent env intent replica ctx g =
     (case map_of (intents env) intent of
        None \<Rightarrow> (Return None, ctx, g)
      | Some idata \<Rightarrow>
          if responses idata = [] then (Return None, ctx, g)
          else
            (case random_choice (responses idata) g of
               (Raise e, g1) \<Rightarrow> (Raise e, ctx, g1)
             | (Return template, g1) \<Rightarrow>
                 (let sfx = sentiment_suffix env replica sfx_intent_positive sfx_intent_negative in
                  if intent \<in> set car_intents then
                    (case car_intent_branch env intent sfx replica ctx g1 of
                       (Raise e, c, g2) \<Rightarrow> (Raise e, c, g2)
                     | (Return a, c, g2) \<Rightarrow> (Return (Some a), c, g2))
                  else
                    (case intent_branch env intent template sfx replica ctx g1 of
                       (Raise e, c, g2) \<Rightarrow> (Raise e, c, g2)
                     | (Return (Done a), c, g2) \<Rightarrow> (Return (Some a), c, g2)
                     | (Return (Next a), c, g2) \<Rightarrow>
                         intent_tail env intent (get_current_car ctx) sfx a c g2))))"

section \<open>Retrieval fallback and failure phrase\<close>

text \<open>\<^verbatim>\<open>Bot.generate_answer\<close> (lines 263-288).\<close>

definition generate_answer ::
  "env \<Rightarrow> string \<Rightarrow> user_data \<Rightarrow> rng \<Rightarrow> string option outcome \<times> user_data \<times> rng" where
  "generate_answer env replica ctx g =
     (let replica_lemmatized = lemmatize_phrase env replica in
      if replica_lemmatized = [] \<or> answers env = [] then (Return None, ctx, g)
      else if \<not> is_meaningful_text env replica then (Return None, ctx, g)
      else
        (let similarities = tfidf_similarities env replica_lemmatized in
         (case argmax similarities of
            Raise e \<Rightarrow> (Raise e, ctx, g)
          | Return best_idx \<Rightarrow>
              if dialogues_similarity env < similarities ! best_idx then
                (if length (answers env) \<le> best_idx then (Raise IndexError, ctx, g)
                 else
                   (let answer = answers env ! best_idx
                                   @ sentiment_suffix env replica sfx_gen_positive sfx_gen_negative
                    in
                    (case random_random g of
                       (r, g1) \<Rightarrow>
                         if r < 0.3 then
                           (case random_choice (car_names env) g1 of
                              (Raise e, g2) \<Rightarrow> (Raise e, ctx, g2)
                            | (Return ad_car, g2) \<Rightarrow>
                                (Return (Some (answer @ msg_upsell @ ad_car @ msg_upsell_tail)),
                                 ctx\<lparr>last_intent := Some (Some ''offtopic'')\<rparr>, g2))
                         else (Return (Some answer), ctx\<lparr>last_intent := Some (Some ''offtopic'')\<rparr>, g1))))
              else (Return None, ctx, g))))"

text \<open>\<^verbatim>\<open>Bot.get_failure_phrase\<close> (lines 290-299).\<close>

definition get_failure_phrase :: "env \<Rightarrow> string \<Rightarrow> rng \<Rightarrow> string outcome \<times> rng" where
  "get_failure_phrase env replica g =
     (case random_choice (car_names env) g of
        (Raise e, g1) \<Rightarrow> (Raise e, g1)
      | (Return car_name, g1) \<Rightarrow>
          (case random_choice (failure_phrases env) g1 of
             (Raise e, g2) \<Rightarrow> (Raise e, g2)
           | (Return phrase, g2) \<Rightarrow>
               (Return (replace ''[car_name]'' car_name phrase
                          @ sentiment_suffix env replica sfx_fail_positive sfx_fail_negative), g2)))"

section \<open>The dialogue state machine\<close>

text \<open>
  Lines 311-323 and 340-349: the offer of a vehicle from the category named in the
  utterance. The two states differ in their suffixes, and only the state
  \<^verbatim>\<open>NONE\<close> answers when the category has no vehicle.
\<close>

definition offer_from_category ::
  "env \<Rightarrow> string \<Rightarrow> string \<Rightarrow> string \<Rightarrow> string \<Rightarrow> user_data \<Rightarrow> rng
     \<Rightarrow> string outcome \<times> user_data \<times> rng" where
  "offer_from_category env car_category pos neg replica ctx g =
     (case random_choice (cars_in_category env car_category) g of
        (Raise e, g') \<Rightarrow> (Raise e, ctx, g')
      | (Return car_name, g') \<Rightarrow>
          (Return (msg_from @ car_category @ msg_there_is @ car_name @ msg_offer_tail
                     @ sentiment_suffix env replica pos neg),
           ctx\<lparr>current_car := Some (Some car_name), state := Some WAITING_FOR_INTENT\<rparr>, g'))"

text \<open>\<^verbatim>\<open>Bot._process_none_state\<close> (lines 301-329).\<close>

definition process_none_state ::
  "env \<Rightarrow> string \<Rightarrow> user_data \<Rightarrow> rng \<Rightarrow> string option outcome \<times> user_data \<times> rng" where
  "process_none_state env replica ctx g =
     (let car_name = extract_car_name env replica;
          car_category = extract_car_category env replica in
      if truthy_str car_name then
        (Return (Some (msg_you_mean @ fmt car_name @ msg_you_mean_tail
                         @ sentiment_suffix env replica sfx_gen_positive sfx_none_name_negative)),
         ctx\<lparr>current_car := Some car_name, state := Some WAITING_FOR_INTENT\<rparr>, g)
      else if truthy_str car_category then
        (if cars_in_category env (fmt car_category) \<noteq> [] then
           (case offer_from_category env (fmt car_category) sfx_none_cat_positive
                   sfx_none_cat_negative replica ctx g of
              (Raise e, c, g') \<Rightarrow> (Raise e, c, g')
            | (Return a, c, g') \<Rightarrow> (Return (Some a), c, g'))
         else
           (Return (Some (msg_no_cars_in_category @ fmt car_category @ msg_try_other_category
                            @ sentiment_suffix env replica sfx_none_nocat_positive
                                sfx_none_nocat_negative)), ctx, g))
      else
        (let intent = classify_intent env replica in
         if truthy_str intent then get_answer_by_intent env (fmt intent) replica ctx g
         else
           (case generate_answer env replica ctx g of
              (Raise e, c, g') \<Rightarrow> (Raise e, c, g')
            | (Return a, c, g') \<Rightarrow>
                if truthy_str a then (Return a, c, g')
                else (case get_failure_phrase env replica g' of
                        (Raise e, g'') \<Rightarrow> (Raise e, c, g'')
                      | (Return f, g'') \<Rightarrow> (Return (Some f), c, g'')))))"

text \<open>\<^verbatim>\<open>Bot._process_waiting_for_car\<close> (lines 331-352).\<close>

definition process_waiting_for_car ::
  "env \<Rightarrow> string \<Rightarrow> user_data \<Rightarrow> rng \<Rightarrow> string option outcome \<times> user_data \<times> rng" where
  "process_waiting_for_car env replica ctx g =
     (let car_name = extract_car_name env replica;
          car_category = extract_car_category env replica in
      if truthy_str car_name then
        (Return (Some (msg_you_mean @ fmt car_name @ msg_you_mean_tail
                         @ sentiment_suffix env replica sfx_wcar_name_positive sfx_wcar_name_negative)),
         ctx\<lparr>current_car := Some car_name, state := Some WAITING_FOR_INTENT\<rparr>, g)
      else if truthy_str car_category \<and> cars_in_category env (fmt car_category) \<noteq> [] then
        (case offer_from_category env (fmt car_category) sfx_wcar_cat_positive
                sfx_wcar_cat_negative replica ctx g of
           (Raise e, c, g') \<Rightarrow> (Raise e, c, g')
         | (Return a, c, g') \<Rightarrow> (Return (Some a), c, g'))
      else
        (Return (Some (msg_clarify @ sentiment_suffix env replica sfx_wcar_positive sfx_wcar_negative)),
         ctx, g))"

text \<open>
  \<^verbatim>\<open>Bot._process_waiting_for_intent\<close> (lines 354-388). In the branch of line 367 the
  first thing evaluated is \<^verbatim>\<open>last_intent\<close> (line 368), a name that is neither a local
  variable of the method nor a global of the module: Python raises
  \<^verbatim>\<open>NameError\<close> there, and lines 369-379 are never reached.
\<close>

definition process_waiting_for_intent ::
  "env \<Rightarrow> string \<Rightarrow> user_data \<Rightarrow> rng \<Rightarrow> string option outcome \<times> user_data \<times> rng" where
  "process_waiting_for_intent env replica ctx g =
     (let extracted = extract_car_name env replica;
          found = (truthy_str extracted \<and> fmt extracted \<in> set (car_names env));
          c1 = (if found then ctx\<lparr>current_car := Some extracted\<rparr> else ctx);
          car_name = (if found then extracted
                      else (case current_car ctx of None \<Rightarrow> Some msg_mashinu | Some v \<Rightarrow> v));
          intent = classify_intent env replica
      in
      if intent \<in> Some ` set car_intents then
        (case get_car_response env (fmt intent) car_name replica g of
           (Raise e, g') \<Rightarrow> (Raise e, c1\<lparr>state := Some NONE\<rparr>, g')
         | (Return a, g') \<Rightarrow> (Return (Some a), c1\<lparr>state := Some NONE\<rparr>, g'))
      else if intent = Some YES then (Raise NameError, c1, g)
      else if intent = Some NO then
        (Return (Some (msg_ok_which_car
                         @ sentiment_suffix env replica sfx_wint_no_positive sfx_wint_no_negative)),
         c1\<lparr>current_car := Some None, state := Some NONE\<rparr>, g)
      else
        (Return (Some (msg_what_about @ fmt car_name @ msg_what_about_tail
                         @ sentiment_suffix env replica sfx_wint_positive sfx_wint_negative)),
         c1, g))"

text \<open>Lines 407-416 of \<^verbatim>\<open>process\<close>: the dispatch on the current state.\<close>

definition dispatch ::
  "env \<Rightarrow> string \<Rightarrow> user_data \<Rightarrow> rng \<Rightarrow> string option outcome \<times> user_data \<times> rng" where
  "dispatch env replica ctx g =
     (case get_state ctx of
        WAITING_FOR_CAR \<Rightarrow> process_waiting_for_car env replica ctx g
      | WAITING_FOR_INTENT \<Rightarrow> process_waiting_for_intent env replica ctx g
      | NONE \<Rightarrow> process_none_state env replica ctx g)"

text \<open>
  Lines 419-420: the key handed to \<^verbatim>\<open>stats.add\<close>. The test
  \<^verbatim>\<open>'dialogues.txt' in answer\<close> is evaluated only when the second call of
  \<^verbatim>\<open>classify_intent\<close> gives a falsy value, and raises \<^verbatim>\<open>TypeError\<close> on
  \<^verbatim>\<open>None\<close>.
\<close>

definition outcome_type :: "env \<Rightarrow> string \<Rightarrow> string option \<Rightarrow> ResponseType outcome" where
  "outcome_type env replica answer =
     (if truthy_str (classify_intent env replica) then Return INTENT
      else (case answer of
              None \<Rightarrow> Raise TypeError
            | Some a \<Rightarrow> if contains ''dialogues.txt'' a then Return GENERATE else Return FAILURE))"

text \<open>
  \<^verbatim>\<open>Bot.process\<close> (lines 390-422). The result is what the call returns or raises, the
  session data after it, and the rest of the random tape.
\<close>

definition process ::
  "env \<Rightarrow> string \<Rightarrow> user_data \<Rightarrow> rng \<Rightarrow> string option outcome \<times> user_data \<times> rng" where
  "process env replica ctx g =
     (if \<not> is_meaningful_text env replica then
        (case get_failure_phrase env replica g of
           (Raise e, g') \<Rightarrow> (Raise e, ctx, g')
         | (Return answer, g') \<Rightarrow>
             (Return (Some answer),
              stats_add FAILURE (update_context env ctx replica (Some answer) None), g'))
      else
        (let price = extract_price env replica;
             car_category = extract_car_category env replica in
         if truthy_int price then
           (case handle_filter_cars env price car_category ctx g of
              (Raise e, c, g') \<Rightarrow> (Raise e, c, g')
            | (Return answer, c, g') \<Rightarrow>
                (Return (Some answer),
                 stats_add INTENT (update_context env c replica (Some answer) (Some FILTER_CARS)), g'))
         else
           (case dispatch env replica ctx g of
              (Raise e, c, g') \<Rightarrow> (Raise e, c, g')
            | (Return answer, c, g') \<Rightarrow>
                (let c' = update_context env c replica answer None in
                 (case outcome_type env replica answer of
                    Raise e \<Rightarrow> (Raise e, c', g')
                  | Return ty \<Rightarrow> (Return answer, stats_add ty c', g'))))))"

text \<open>
  A conversation: \<^verbatim>\<open>process\<close> on each utterance in turn. The session data outlive a
  call that raises (\<^verbatim>\<open>handle_message\<close> catches nothing, and the dictionary stays
  with the session), so the next turn starts from the data as the exception left them.
\<close>

fun process_all :: "env \<Rightarrow> string list \<Rightarrow> user_data \<Rightarrow> rng \<Rightarrow> user_data \<times> rng" where
  "process_all env [] ctx g = (ctx, g)"
| "process_all env (replica # rest) ctx g =
     (case process env replica ctx g of (r, c, g') \<Rightarrow> process_all env rest c g')"

text \<open>A fresh session: \<^verbatim>\<open>context.user_data\<close> is the empty dictionary.\<close>

definition empty_context :: user_data where
  "empty_context =
     \<lparr>state = None, current_car = None, last_bot_response = None, last_intent = None,
      history = None, stats = None\<rparr>"

section \<open>The classifier as the specification words it\<close>

text \<open>
  The score of an intent is the best ratio of the lemmatized input against its lemmatized
  examples, over 100; an intent without examples has none.
\<close>

definition intent_match :: "env \<Rightarrow> string \<Rightarrow> string \<times> intent_data \<Rightarrow> (string \<times> real) option" where
  "intent_match env query kd =
     (case extractOne (fuzz_ratio env) query (lemmatized_examples env (snd kd)) of
        None \<Rightarrow> None
      | Some (m, score) \<Rightarrow> Some (fst kd, score / 100))"

definition scored_intents :: "env \<Rightarrow> string \<Rightarrow> (string \<times> real) list" where
  "scored_intents env query = List.map_filter (intent_match env query) (intents env)"

text \<open>The first entry with the highest score.\<close>

fun first_max :: "(string \<times> real) list \<Rightarrow> (string \<times> real) option" where
  "first_max [] = None"
| "first_max ((k, s) # rest) =
     (case first_max rest of
        None \<Rightarrow> Some (k, s)
      | Some (k', s') \<Rightarrow> if s < s' then Some (k', s') else Some (k, s))"

text \<open>
  \<open>best_match\<close> is the pair the specification calls \<open>best_intent\<close> and \<open>best_score\<close>
  (section 4.3, step c): the single best-scoring intent across all intents.
\<close>

definition best_match :: "env \<Rightarrow> string \<Rightarrow> (string \<times> real) option" where
  "best_match env query = first_max (scored_intents env query)"

text \<open>
  Step (d) of section 4.3 as it is worded: the best intent when its score is at or above
  the threshold, otherwise the model's prediction when the model's own confidence clears
  the threshold, otherwise none. The source computes no confidence of the model, so it is
  a parameter of this definition only.
\<close>

definition classify_intent_spec :: "env \<Rightarrow> (string \<Rightarrow> real) \<Rightarrow> string \<Rightarrow> string option" where
  "classify_intent_spec env confidence replica =
     (let replica_lemmatized = lemmatize_phrase env replica;
          fallback = (if intent_score env \<le> confidence replica_lemmatized
                      then Some (clf_predict env replica_lemmatized) else None)
      in if replica_lemmatized = [] then None
         else (case best_match env replica_lemmatized of
                 None \<Rightarrow> fallback
               | Some (best_intent, best_score) \<Rightarrow>
                   if intent_score env \<le> best_score then Some best_intent else fallback))"

text \<open>The loop of \<open>classify_loop\<close> on a list of scores.\<close>

fun score_loop ::
  "real \<Rightarrow> (string \<times> real) list \<Rightarrow> real \<times> string option \<Rightarrow> real \<times> string option" where
  "score_loop thr [] acc = acc"
| "score_loop thr ((k, s) # rest) (best_score, best_intent) =
     (if best_score < s \<and> thr \<le> s then score_loop thr rest (s, Some k)
      else score_loop thr rest (best_score, best_intent))"

section \<open>A small catalogue\<close>

text \<open>
  The scenario of the specification: vehicle A (price 1000000, category sedan) and
  vehicle B (price 2000000, category suv). The utterance of the scenario reads
  "mashiny do 1500000" in transliteration; the helpers of \<^verbatim>\<open>utils\<close> are fixed to what
  the scenario expects of them: a price in that utterance, a vehicle name in an utterance
  that is one, an intent by exact match with an example.
\<close>

definition scenario_text :: string where
  "scenario_text =
     [CHR 0xD0, CHR 0xBC, CHR 0xD0, CHR 0xB0, CHR 0xD1, CHR 0x88, CHR 0xD0, CHR 0xB8, CHR 0xD0,
      CHR 0xBD, CHR 0xD1, CHR 0x8B] @ '' '' @ [CHR 0xD0, CHR 0xB4, CHR 0xD0, CHR 0xBE] @ '' 1500000''"

definition scenario_env :: env where
  "scenario_env =
     \<lparr>cars = [(''A'', \<lparr>car_price = 1000000, car_description = None, car_categories = [''sedan'']\<rparr>),
              (''B'', \<lparr>car_price = 2000000, car_description = None, car_categories = [''suv'']\<rparr>)],
      intents = [(''hello'', \<lparr>examples = [''hello''], responses = [''Hello!'']\<rparr>),
                 (''yes'', \<lparr>examples = [''yes''], responses = [''Good.'']\<rparr>)],
      failure_phrases = [''Sorry, try [car_name].''],
      intent_score = 0.8,
      dialogues_similarity = 0.5,
      history_limit = 5,
      lemmatize_phrase = (\<lambda>s. s),
      is_meaningful_text = (\<lambda>s. s \<noteq> ''???''),
      extract_car_name = (\<lambda>s. if s = ''A'' \<or> s = ''B'' then Some s else None),
      extract_car_category = (\<lambda>s. None),
      extract_price = (\<lambda>s. if s = scenario_text then Some 1500000 else None),
      analyze_sentiment = (\<lambda>s. ''neutral''),
      clf_predict = (\<lambda>s. ''hello''),
      fuzz_ratio = (\<lambda>a b. if a = b then 100 else 0),
      tfidf_similarities = (\<lambda>s. if s = ''how are you'' then [0.1, 0.9] else [0, 0]),
      answers = [''Hi.'', ''Fine, thanks.''],
      set_order = remdups\<rparr>"

text \<open>A session in the middle of a conversation about vehicle A, every key present.\<close>

definition waiting_context :: user_data where
  "waiting_context =
     \<lparr>state = Some WAITING_FOR_INTENT, current_car = Some (Some ''A''),
      last_bot_response = Some None, last_intent = Some (Some ''hello''),
      history = Some [''A''], stats = None\<rparr>"

section \<open>The invariant of the current vehicle\<close>

text \<open>
  \<open>car_known\<close>: the current vehicle, if the key is present and holds a name, is a key of
  \<^verbatim>\<open>CONFIG['cars']\<close>.
\<close>

definition car_known :: "env \<Rightarrow> user_data \<Rightarrow> bool" where
  "car_known env ctx =
     (case current_car ctx of
        None \<Rightarrow> True
      | Some None \<Rightarrow> True
      | Some (Some c) \<Rightarrow> c \<in> set (car_names env))"

section \<open>Basic facts\<close>

lemma random_choice_in:
  "random_choice xs g = (Return x, g') \<Longrightarrow> x \<in> set xs"
  by (auto simp: random_choice_def split: if_splits prod.splits)

lemma random_choice_Raise:
  "random_choice xs g = (Raise e, g') \<Longrightarrow> xs = []"
  by (auto simp: random_choice_def split: if_splits prod.splits)

lemma suitable_cars_state [simp]:
  "suitable_cars env price cat (ctx\<lparr>state := s\<rparr>) = suitable_cars env price cat ctx"
  by (simp add: suitable_cars_def recent_cars_def get_history_def)

lemma suitable_cars_sound:
  assumes "car \<in> set (suitable_cars env price car_category ctx)"
  shows "\<exists>data. (car, data) \<in> set (cars env)
           \<and> (\<forall>p. price = Some p \<and> p \<noteq> 0 \<longrightarrow> car_price data \<le> p)
           \<and> (\<forall>k. car_category = Some k \<and> k \<noteq> [] \<longrightarrow> k \<in> set (car_categories data))
           \<and> (\<forall>h \<in> set (get_history ctx). extract_car_name env h \<noteq> Some car)"
proof -
  from assms obtain data where d: "(car, data) \<in> set (cars env)" "price_ok price data"
      "category_ok car_category data" and r: "Some car \<notin> set (recent_cars env ctx)"
    by (auto simp: suitable_cars_def)
  from d(2) have "\<forall>p. price = Some p \<and> p \<noteq> 0 \<longrightarrow> car_price data \<le> p"
    by (auto simp: price_ok_def)
  moreover from d(3) have "\<forall>k. car_category = Some k \<and> k \<noteq> [] \<longrightarrow> k \<in> set (car_categories data)"
    by (auto simp: category_ok_def)
  moreover from r have "\<forall>h \<in> set (get_history ctx). extract_car_name env h \<noteq> Some car"
    by (force simp: recent_cars_def)
  ultimately show ?thesis using d(1) by blast
qed

section \<open>Intent classification: what the loop computes\<close>

lemma classify_loop_score_loop:
  "classify_loop env q xs acc =
     score_loop (intent_score env) (List.map_filter (intent_match env q) xs) acc"
proof (induction xs arbitrary: acc)
  case Nil
  show ?case by (simp add: List.map_filter_simps)
next
  case (Cons kd xs)
  obtain k d where kd: "kd = (k, d)" by (cases kd)
  obtain bs bi where acc: "acc = (bs, bi)" by (cases acc)
  show ?case
    by (simp add: kd acc Cons.IH List.map_filter_simps intent_match_def
          split: option.splits prod.splits)
qed

lemma score_loop_append:
  "score_loop thr (xs @ ys) acc = score_loop thr ys (score_loop thr xs acc)"
  by (induction thr xs acc rule: score_loop.induct) simp_all

lemma score_loop_skip:
  "\<forall>(k, s) \<in> set xs. \<not> (bs < s \<and> thr \<le> s) \<Longrightarrow> score_loop thr xs (bs, bi) = (bs, bi)"
  by (induction xs) auto

lemma score_loop_below:
  "\<forall>(k, s) \<in> set xs. s < t \<Longrightarrow> bs < t \<Longrightarrow> fst (score_loop thr xs (bs, bi)) < t"
  by (induction xs arbitrary: bs bi) auto

lemma first_max_None: "first_max xs = None \<longleftrightarrow> xs = []"
  by (induction xs rule: first_max.induct) (auto split: option.splits)

text \<open>
  \<open>first_max\<close> is the first entry with the highest score: every entry before it scores
  strictly less, every entry after it at most as much.
\<close>

lemma first_max_split:
  "first_max xs = Some (k, s) \<Longrightarrow>
     \<exists>pre post. xs = pre @ (k, s) # post \<and> (\<forall>(k', s') \<in> set pre. s' < s)
       \<and> (\<forall>(k', s') \<in> set post. s' \<le> s)"
proof (induction xs arbitrary: k s rule: first_max.induct)
  case 1
  then show ?case by simp
next
  case (2 k0 s0 rest)
  show ?case
  proof (cases "first_max rest")
    case None
    then have "rest = []" by (simp add: first_max_None)
    with "2.prems" None have "(k0, s0) # rest = [] @ (k, s) # []" by simp
    then show ?thesis by (metis empty_iff list.set(1))
  next
    case (Some p)
    obtain k' s' where p: "p = (k', s')" by (cases p)
    from "2.IH"[of k' s'] Some p obtain pre post where
      sp: "rest = pre @ (k', s') # post" "\<forall>(a, b) \<in> set pre. b < s'"
          "\<forall>(a, b) \<in> set post. b \<le> s'"
      by blast
    show ?thesis
    proof (cases "s0 < s'")
      case True
      with "2.prems" Some p have ks: "k = k'" "s = s'" by auto
      have "(k0, s0) # rest = ((k0, s0) # pre) @ (k, s) # post" using sp ks by simp
      moreover have "\<forall>(a, b) \<in> set ((k0, s0) # pre). b < s" using sp True ks by auto
      moreover have "\<forall>(a, b) \<in> set post. b \<le> s" using sp ks by auto
      ultimately show ?thesis by blast
    next
      case False
      with "2.prems" Some p have ks: "k = k0" "s = s0" by auto
      have "(k0, s0) # rest = [] @ (k, s) # rest" using ks by simp
      moreover have "\<forall>(a, b) \<in> set rest. b \<le> s" using sp False ks by (auto simp: sp(1))
      ultimately show ?thesis by (metis empty_iff list.set(1))
    qed
  qed
qed

lemma score_loop_first_max:
  assumes "first_max xs = Some (k, s)"
  shows "score_loop thr xs (0, None) = (if thr \<le> s \<and> 0 < s then (s, Some k) else (0, None))"
proof -
  from first_max_split[OF assms] obtain pre post where
    sp: "xs = pre @ (k, s) # post" "\<forall>(a, b) \<in> set pre. b < s" "\<forall>(a, b) \<in> set post. b \<le> s"
    by blast
  show ?thesis
  proof (cases "thr \<le> s \<and> 0 < s")
    case True
    obtain bs bi where pre: "score_loop thr pre (0, None) = (bs, bi)"
      by (cases "score_loop thr pre (0, None)")
    have "fst (score_loop thr pre (0, None)) < s"
      using sp(2) True by (intro score_loop_below) auto
    then have "bs < s" by (simp add: pre)
    moreover have "score_loop thr post (s, Some k) = (s, Some k)"
      using sp(3) by (intro score_loop_skip) auto
    ultimately show ?thesis using True by (simp add: sp(1) score_loop_append pre)
  next
    case False
    have "score_loop thr xs (0, None) = (0, None)"
    proof (rule score_loop_skip, clarify)
      fix a b assume "(a, b) \<in> set xs" and "0 < b" and "thr \<le> b"
      moreover from this have "b \<le> s" using sp by auto
      ultimately show False using False by auto
    qed
    then show ?thesis using False by simp
  qed
qed

text \<open>
  The value of \<open>classify_intent\<close> in terms of \<open>best_match\<close>: what lines 92-104
  compute.
\<close>

lemma classify_intent_unfold:
  "classify_intent env replica =
     (let replica_lemmatized = lemmatize_phrase env replica;
          fallback = (if intent_score env \<le> 0
                      then Some (clf_predict env replica_lemmatized) else None)
      in if replica_lemmatized = [] then None
         else (case best_match env replica_lemmatized of
                 None \<Rightarrow> fallback
               | Some (best_intent, best_score) \<Rightarrow>
                   if intent_score env \<le> best_score \<and> 0 < best_score
                   then (if best_intent = [] then Some (clf_predict env replica_lemmatized)
                         else Some best_intent)
                   else fallback))"
proof (cases "best_match env (lemmatize_phrase env replica)")
  case None
  then have "scored_intents env (lemmatize_phrase env replica) = []"
    by (simp add: best_match_def first_max_None)
  then show ?thesis using None
    by (simp add: classify_intent_def Let_def classify_loop_score_loop scored_intents_def
          truthy_str_def)
next
  case (Some p)
  obtain k s where p: "p = (k, s)" by (cases p)
  have "first_max (List.map_filter (intent_match env (lemmatize_phrase env replica)) (intents env))
          = Some (k, s)"
    using Some p by (simp add: best_match_def scored_intents_def)
  from score_loop_first_max[OF this, of "intent_score env"] show ?thesis using Some p
    by (simp add: classify_intent_def Let_def classify_loop_score_loop truthy_str_def)
qed

lemma best_match_clf_predict:
  "best_match (env\<lparr>clf_predict := f\<rparr>) query = best_match env query"
proof -
  have "intent_match (env\<lparr>clf_predict := f\<rparr>) query kd = intent_match env query kd" for kd
    by (simp add: intent_match_def lemmatized_examples_def cong: if_cong)
  then have "intent_match (env\<lparr>clf_predict := f\<rparr>) query = intent_match env query"
    by (rule ext)
  then show ?thesis by (simp add: best_match_def scored_intents_def)
qed

text \<open>
  C2 asks that an input whose best score is below the threshold gets the statistical
  model's point prediction when the model is confident. The source computes the
  prediction (line 91) and offers it at line 104 in \<^verbatim>\<open>best_intent or intent\<close>, but
  only behind the test \<^verbatim>\<open>best_score >= threshold\<close>, and \<^verbatim>\<open>best_score\<close> leaves 0
  only together with \<^verbatim>\<open>best_intent\<close>. So for a positive threshold and an input whose
  best score is below it (or for which no intent has an example), \<open>classify_intent\<close>
  returns none whatever the model \<open>f\<close> predicts.
\<close>

theorem prediction_never_returned:
  assumes "0 < intent_score env"
      and "\<forall>k s. best_match env (lemmatize_phrase env replica) = Some (k, s) \<longrightarrow> s < intent_score env"
  shows "classify_intent (env\<lparr>clf_predict := f\<rparr>) replica = None"
proof (cases "best_match env (lemmatize_phrase env replica)")
  case None
  with assms(1) show ?thesis
    by (simp add: classify_intent_unfold [of "env\<lparr>clf_predict := f\<rparr>" replica]
          best_match_clf_predict Let_def)
next
  case (Some p)
  obtain k s where p: "p = (k, s)" by (cases p)
  with Some assms(2) have "s < intent_score env" by simp
  with assms(1) Some p show ?thesis
    by (simp add: classify_intent_unfold [of "env\<lparr>clf_predict := f\<rparr>" replica]
          best_match_clf_predict Let_def)
qed

text \<open>
  At the threshold 0.8, the input \<open>good day\<close> matches no example (best score 0) and
  the model predicts \<open>hello\<close>: the source returns none, where step (d) of section 4.3
  with a fully confident model returns \<open>hello\<close>.
\<close>

theorem prediction_never_returned_witness:
  "0 < intent_score scenario_env
   \<and> best_match scenario_env (lemmatize_phrase scenario_env ''good day'') = Some (''hello'', 0)
   \<and> clf_predict (scenario_env\<lparr>clf_predict := (\<lambda>s. ''hello'')\<rparr>) ''good day'' = ''hello''
   \<and> classify_intent (scenario_env\<lparr>clf_predict := (\<lambda>s. ''hello'')\<rparr>) ''good day'' = None
   \<and> classify_intent_spec (scenario_env\<lparr>clf_predict := (\<lambda>s. ''hello'')\<rparr>) (\<lambda>x. 1) ''good day''
        = Some ''hello''"
proof -
  have t: "0 < intent_score scenario_env" by (simp add: scenario_env_def)
  have b: "best_match scenario_env (lemmatize_phrase scenario_env ''good day'') = Some (''hello'', 0)"
    by (simp add: scenario_env_def best_match_def scored_intents_def List.map_filter_simps
          intent_match_def lemmatized_examples_def)
  have l: "\<forall>k s. best_match scenario_env (lemmatize_phrase scenario_env ''good day'') = Some (k, s)
             \<longrightarrow> s < intent_score scenario_env"
    by (simp add: b) (simp add: scenario_env_def)
  have s: "classify_intent_spec (scenario_env\<lparr>clf_predict := (\<lambda>s. ''hello'')\<rparr>) (\<lambda>x. 1) ''good day''
        = Some ''hello''"
    by (simp add: classify_intent_spec_def scenario_env_def best_match_def scored_intents_def
          List.map_filter_simps intent_match_def lemmatized_examples_def)
  from prediction_never_returned [OF t l, of "\<lambda>s. ''hello''"] t b s show ?thesis by simp
qed

section \<open>Price extraction preempts the dispatch\<close>

text \<open>
  C5: for every meaningful utterance from which a positive price is extracted, and for
  every prior state \<open>s\<close> (an absent key as well), the reply of \<open>process\<close> is the
  one that the vehicle filter \<open>handle_filter_cars\<close> produces, the same for every
  state; the turn is counted as \<open>INTENT\<close>, the context is updated with the intent
  \<open>filter_cars\<close>, no random number is drawn, and the per-state dispatch is not run.
\<close>

theorem price_preempts_dispatch:
  assumes "is_meaningful_text env replica"
      and "extract_price env replica = Some p"
      and "0 < p"
  shows "\<exists>answer.
           (\<forall>s g'. handle_filter_cars env (Some p) (extract_car_category env replica)
                      (ctx\<lparr>state := s\<rparr>) g' = (Return answer, ctx\<lparr>state := s\<rparr>, g'))
         \<and> (\<forall>s. process env replica (ctx\<lparr>state := s\<rparr>) g =
                  (Return (Some answer),
                   stats_add INTENT
                     (update_context env (ctx\<lparr>state := s\<rparr>) replica (Some answer) (Some FILTER_CARS)),
                   g))"
proof -
  let ?cat = "extract_car_category env replica"
  let ?suitable = "suitable_cars env (Some p) ?cat ctx"
  let ?answer = "if ?suitable = []
                 then msg_no_cars_for @ join '', '' (filter_conditions (Some p) ?cat) @ ''.''
                 else msg_found @ join '', '' ?suitable @ ''.''"
  have tr: "truthy_int (Some p)" using assms(3) by (simp add: truthy_int_def)
  have h: "handle_filter_cars env (Some p) ?cat (ctx\<lparr>state := s\<rparr>) g' = (Return ?answer, ctx\<lparr>state := s\<rparr>, g')"
    for s g'
    using tr by (simp add: handle_filter_cars_def Let_def)
  have "process env replica (ctx\<lparr>state := s\<rparr>) g =
          (Return (Some ?answer),
           stats_add INTENT (update_context env (ctx\<lparr>state := s\<rparr>) replica (Some ?answer) (Some FILTER_CARS)), g)"
    for s
    using assms(1,2) tr by (simp add: process_def Let_def h)
  with h show ?thesis by blast
qed

theorem price_preempts_dispatch_witness:
  "process scenario_env scenario_text (empty_context\<lparr>state := Some WAITING_FOR_CAR\<rparr>) [7] =
     (Return (Some (msg_found @ ''A.'')),
      \<lparr>state = Some WAITING_FOR_CAR, current_car = Some None,
       last_bot_response = Some (Some (msg_found @ ''A.'')),
       last_intent = Some (Some FILTER_CARS), history = Some [scenario_text],
       stats = Some \<lparr>intent_count = 1, generate_count = 0, failure_count = 0\<rparr>\<rparr>, [7])"
proof -
  have m: "is_meaningful_text scenario_env scenario_text"
    by (simp add: scenario_env_def scenario_text_def)
  have p: "extract_price scenario_env scenario_text = Some 1500000"
    by (simp add: scenario_env_def)
  have c: "extract_car_category scenario_env scenario_text = None"
    by (simp add: scenario_env_def)
  have s: "suitable_cars scenario_env (Some 1500000) None empty_context = [''A'']"
    by (simp add: suitable_cars_def scenario_env_def price_ok_def category_ok_def recent_cars_def
          get_history_def empty_context_def)
  have t: "truthy_int (Some 1500000)" by (simp add: truthy_int_def)
  have l: "history_limit scenario_env = 5" by (simp add: scenario_env_def)
  from price_preempts_dispatch [OF m p, of empty_context "[7]"] obtain answer where
    a: "\<forall>s g'. handle_filter_cars scenario_env (Some 1500000) None (empty_context\<lparr>state := s\<rparr>) g'
          = (Return answer, empty_context\<lparr>state := s\<rparr>, g')"
    and b: "\<forall>s. process scenario_env scenario_text (empty_context\<lparr>state := s\<rparr>) [7] =
          (Return (Some answer), stats_add INTENT (update_context scenario_env
             (empty_context\<lparr>state := s\<rparr>) scenario_text (Some answer) (Some FILTER_CARS)), [7])"
    by (auto simp: c)
  from a have "answer = msg_found @ ''A.''"
    by (simp add: handle_filter_cars_def s t Let_def)
  with b show ?thesis
    by (simp add: stats_add_def update_context_def setdefaults_def empty_context_def truthy_str_def
          FILTER_CARS_def get_history_def slice_from_def l Let_def)
qed

section \<open>The vehicle filter\<close>

text \<open>
  C7: for every price ceiling, category and session context, \<open>handle_filter_cars\<close>
  returns a reply (it never raises), and the reply is the no-match message, or recommends
  one vehicle of \<open>suitable_cars\<close>, or lists exactly \<open>suitable_cars\<close>. Every vehicle
  of \<open>suitable_cars\<close> is in the catalogue, costs at most the ceiling when one is given,
  has the category when one is given, and is not the vehicle name extracted from any
  utterance of the history.
\<close>

theorem filter_reply_sound:
  "\<exists>answer c g'. handle_filter_cars env price car_category ctx g = (Return answer, c, g')
     \<and> ((suitable_cars env price car_category ctx = []
           \<and> answer = msg_no_cars_for @ join '', '' (filter_conditions price car_category) @ ''.'')
         \<or> (\<exists>car \<in> set (suitable_cars env price car_category ctx).
               answer = msg_advise @ car @ msg_advise_tail)
         \<or> answer = msg_found @ join '', '' (suitable_cars env price car_category ctx) @ ''.'')
     \<and> (\<forall>car \<in> set (suitable_cars env price car_category ctx).
          \<exists>data. (car, data) \<in> set (cars env)
            \<and> (\<forall>p. price = Some p \<and> p \<noteq> 0 \<longrightarrow> car_price data \<le> p)
            \<and> (\<forall>k. car_category = Some k \<and> k \<noteq> [] \<longrightarrow> k \<in> set (car_categories data))
            \<and> (\<forall>h \<in> set (get_history ctx). extract_car_name env h \<noteq> Some car))"
proof -
  let ?S = "suitable_cars env price car_category ctx"
  have sound: "\<forall>car \<in> set ?S. \<exists>data. (car, data) \<in> set (cars env)
            \<and> (\<forall>p. price = Some p \<and> p \<noteq> 0 \<longrightarrow> car_price data \<le> p)
            \<and> (\<forall>k. car_category = Some k \<and> k \<noteq> [] \<longrightarrow> k \<in> set (car_categories data))
            \<and> (\<forall>h \<in> set (get_history ctx). extract_car_name env h \<noteq> Some car)"
    by (intro ballI suitable_cars_sound)
  consider (none) "?S = []"
    | (advise) "?S \<noteq> []" "\<not> truthy_int price \<and> \<not> truthy_str car_category"
    | (found) "?S \<noteq> []" "\<not> (\<not> truthy_int price \<and> \<not> truthy_str car_category)"
    by blast
  then show ?thesis
  proof cases
    case none
    then have "handle_filter_cars env price car_category ctx g =
        (Return (msg_no_cars_for @ join '', '' (filter_conditions price car_category) @ ''.''), ctx, g)"
      by (simp add: handle_filter_cars_def)
    with none sound show ?thesis by blast
  next
    case advise
    obtain r g' where rc: "random_choice ?S g = (r, g')" by (cases "random_choice ?S g")
    with advise(1) obtain car where r: "r = Return car"
      by (cases r) (auto dest: random_choice_Raise)
    with rc have car: "car \<in> set ?S" by (auto dest: random_choice_in)
    have "handle_filter_cars env price car_category ctx g =
        (Return (msg_advise @ car @ msg_advise_tail),
         ctx\<lparr>current_car := Some (Some car), state := Some WAITING_FOR_INTENT\<rparr>, g')"
      using advise rc r by (simp add: handle_filter_cars_def Let_def)
    with car sound show ?thesis by blast
  next
    case found
    then have "handle_filter_cars env price car_category ctx g =
        (Return (msg_found @ join '', '' ?S @ ''.''), ctx, g)"
      by (auto simp: handle_filter_cars_def Let_def)
    with sound show ?thesis by blast
  qed
qed

theorem filter_reply_sound_witness:
  "handle_filter_cars scenario_env (Some 2500000) None (empty_context\<lparr>history := Some [''A'']\<rparr>) []
     = (Return (msg_found @ ''B.''), empty_context\<lparr>history := Some [''A'']\<rparr>, [])
   \<and> suitable_cars scenario_env (Some 2500000) None (empty_context\<lparr>history := Some [''A'']\<rparr>) = [''B'']
   \<and> map_of (cars scenario_env) ''B''
        = Some \<lparr>car_price = 2000000, car_description = None, car_categories = [''suv'']\<rparr>
   \<and> extract_car_name scenario_env ''A'' \<noteq> Some ''B''"
  using filter_reply_sound [of scenario_env "Some 2500000" None
          "empty_context\<lparr>history := Some [''A'']\<rparr>" "[]"]
  by (simp add: handle_filter_cars_def suitable_cars_def scenario_env_def price_ok_def
        category_ok_def recent_cars_def get_history_def empty_context_def truthy_int_def
        truthy_str_def)

section \<open>The price scenario\<close>

text \<open>
  C3, as the claim states it, fails: in the scenario the reply names exactly A, but
  afterwards the state is not \<open>WAITING_FOR_INTENT\<close> and the current vehicle is not A.
\<close>

theorem price_scenario_counterexample:
  "fst (process scenario_env scenario_text empty_context []) = Return (Some (msg_found @ ''A.''))
   \<and> state (fst (snd (process scenario_env scenario_text empty_context []))) \<noteq> Some WAITING_FOR_INTENT
   \<and> current_car (fst (snd (process scenario_env scenario_text empty_context []))) \<noteq> Some (Some ''A'')"
proof -
  have s: "suitable_cars scenario_env (Some 1500000) None empty_context = [''A'']"
    by (simp add: suitable_cars_def scenario_env_def price_ok_def category_ok_def recent_cars_def
          get_history_def empty_context_def)
  have e: "is_meaningful_text scenario_env scenario_text"
     "extract_price scenario_env scenario_text = Some 1500000"
     "extract_car_category scenario_env scenario_text = None"
    by (simp_all add: scenario_env_def scenario_text_def)
  have "process scenario_env scenario_text empty_context [] =
     (Return (Some (msg_found @ ''A.'')),
      stats_add INTENT (update_context scenario_env empty_context scenario_text
        (Some (msg_found @ ''A.'')) (Some FILTER_CARS)), [])"
    by (simp add: process_def e handle_filter_cars_def s truthy_int_def truthy_str_def)
  then show ?thesis
    by (simp add: stats_add_def update_context_def setdefaults_def empty_context_def Let_def)
qed

text \<open>
  C3, amended: for a fresh session and a catalogue of exactly vehicle \<open>a\<close> (price
  1000000, category sedan) and vehicle \<open>b\<close> (price 2000000, category suv), an
  utterance that is meaningful, carries the price 1500000 and no category gets the filter
  reply that lists exactly \<open>a\<close>; afterwards the state is \<open>NONE\<close>, the current vehicle
  is none, the last intent is \<open>filter_cars\<close>, the history holds the utterance and the
  intent counter is 1. The filter moves to \<open>WAITING_FOR_INTENT\<close> only when neither a
  price nor a category is given (line 168).
\<close>

theorem price_scenario_amended:
  assumes "cars env = [(a, \<lparr>car_price = 1000000, car_description = da, car_categories = [''sedan'']\<rparr>),
                       (b, \<lparr>car_price = 2000000, car_description = db, car_categories = [''suv'']\<rparr>)]"
      and "is_meaningful_text env replica"
      and "extract_price env replica = Some 1500000"
      and "extract_car_category env replica = None"
  shows "process env replica empty_context g =
           (Return (Some (msg_found @ a @ ''.'')),
            \<lparr>state = Some NONE, current_car = Some None,
             last_bot_response = Some (Some (msg_found @ a @ ''.'')),
             last_intent = Some (Some FILTER_CARS),
             history = Some (slice_from (- history_limit env) [replica]),
             stats = Some \<lparr>intent_count = 1, generate_count = 0, failure_count = 0\<rparr>\<rparr>, g)"
proof -
  have s: "suitable_cars env (Some 1500000) None empty_context = [a]"
    by (simp add: suitable_cars_def assms(1) price_ok_def category_ok_def recent_cars_def
          get_history_def empty_context_def)
  have "process env replica empty_context g =
     (Return (Some (msg_found @ a @ ''.'')),
      stats_add INTENT (update_context env empty_context replica
        (Some (msg_found @ a @ ''.'')) (Some FILTER_CARS)), g)"
    by (simp add: process_def assms handle_filter_cars_def s truthy_int_def truthy_str_def)
  then show ?thesis
    by (simp add: stats_add_def update_context_def setdefaults_def empty_context_def Let_def
          truthy_str_def FILTER_CARS_def get_history_def)
qed

theorem price_scenario_amended_witness:
  "process scenario_env scenario_text empty_context [] =
     (Return (Some (msg_found @ ''A.'')),
      \<lparr>state = Some NONE, current_car = Some None,
       last_bot_response = Some (Some (msg_found @ ''A.'')),
       last_intent = Some (Some FILTER_CARS),
       history = Some [scenario_text],
       stats = Some \<lparr>intent_count = 1, generate_count = 0, failure_count = 0\<rparr>\<rparr>, [])"
proof -
  have c: "cars scenario_env =
      [(''A'', \<lparr>car_price = 1000000, car_description = None, car_categories = [''sedan'']\<rparr>),
       (''B'', \<lparr>car_price = 2000000, car_description = None, car_categories = [''suv'']\<rparr>)]"
    by (simp add: scenario_env_def)
  have e: "is_meaningful_text scenario_env scenario_text"
     "extract_price scenario_env scenario_text = Some 1500000"
     "extract_car_category scenario_env scenario_text = None"
    by (simp_all add: scenario_env_def scenario_text_def)
  have l: "history_limit scenario_env = 5" by (simp add: scenario_env_def)
  show ?thesis
    using price_scenario_amended [OF c e, of "[]"] by (simp add: slice_from_def l)
qed

section \<open>The failure path\<close>

text \<open>
  C10: for every session context whose fields are all initialised, if the utterance is
  not meaningful then \<open>process\<close> leaves \<open>state\<close>, \<open>current_car\<close> and
  \<open>last_intent\<close> as they were. When the call returns, only \<open>history\<close> (the
  utterance appended, then trimmed), \<open>last_bot_response\<close> and the failure counter
  differ from before; when it raises (the catalogue or the list of failure phrases is
  empty), nothing has changed.
\<close>

theorem failure_path_frame:
  assumes "\<not> is_meaningful_text env replica"
      and "state ctx \<noteq> None" and "current_car ctx \<noteq> None" and "last_bot_response ctx \<noteq> None"
      and "last_intent ctx \<noteq> None" and "history ctx \<noteq> None"
  shows "\<exists>r c g'. process env replica ctx g = (r, c, g')
           \<and> state c = state ctx \<and> current_car c = current_car ctx \<and> last_intent c = last_intent ctx
           \<and> (case r of
                 Raise e \<Rightarrow> c = ctx
               | Return answer \<Rightarrow>
                   c = ctx\<lparr>history := Some (slice_from (- history_limit env) (get_history ctx @ [replica])),
                          last_bot_response := Some answer,
                          stats := stats (stats_add FAILURE ctx)\<rparr>)"
proof -
  obtain s cc lb li h where
    init: "state ctx = Some s" "current_car ctx = Some cc" "last_bot_response ctx = Some lb"
          "last_intent ctx = Some li" "history ctx = Some h"
    using assms(2-6) by auto
  have sd: "setdefaults ctx = ctx" by (simp add: setdefaults_def init)
  have upd: "update_context env ctx replica a None =
      ctx\<lparr>history := Some (slice_from (- history_limit env) (get_history ctx @ [replica])),
          last_bot_response := Some a\<rparr>" for a
    by (simp add: update_context_def sd Let_def truthy_str_def)
  obtain r g' where f: "get_failure_phrase env replica g = (r, g')"
    by (cases "get_failure_phrase env replica g")
  show ?thesis
  proof (cases r)
    case (Raise e)
    with f assms(1) have "process env replica ctx g = (Raise e, ctx, g')"
      by (simp add: process_def)
    then show ?thesis by simp
  next
    case (Return answer)
    with f assms(1) have "process env replica ctx g =
        (Return (Some answer), stats_add FAILURE (update_context env ctx replica (Some answer) None), g')"
      by (simp add: process_def)
    then show ?thesis by (simp add: upd stats_add_def Let_def)
  qed
qed

theorem failure_path_frame_witness:
  "\<not> is_meaningful_text scenario_env ''???''
   \<and> state (fst (snd (process scenario_env ''???'' waiting_context []))) = Some WAITING_FOR_INTENT
   \<and> current_car (fst (snd (process scenario_env ''???'' waiting_context []))) = Some (Some ''A'')
   \<and> last_intent (fst (snd (process scenario_env ''???'' waiting_context []))) = Some (Some ''hello'')"
proof -
  have m: "\<not> is_meaningful_text scenario_env ''???''" by (simp add: scenario_env_def)
  from failure_path_frame [OF m, of waiting_context "[]"] m show ?thesis
    by (auto simp: waiting_context_def)
qed

section \<open>The affirmative answer while waiting for an intent\<close>

text \<open>
  C1 asks that \<open>process\<close> never raises. It does: for a meaningful utterance without
  a price, in the state \<open>WAITING_FOR_INTENT\<close>, classified as \<open>yes\<close>, the call
  raises \<open>NameError\<close> (line 368 reads the undefined name \<^verbatim>\<open>last_intent\<close>), whatever
  the rest of the context and the random source.
\<close>

theorem waiting_for_intent_yes_raises:
  assumes "is_meaningful_text env replica"
      and "\<not> truthy_int (extract_price env replica)"
      and "state ctx = Some WAITING_FOR_INTENT"
      and "classify_intent env replica = Some YES"
  shows "fst (process env replica ctx g) = Raise NameError"
proof -
  have "Some YES \<notin> Some ` set car_intents"
    by (simp add: car_intents_def YES_def CAR_PRICE_def CAR_AVAILABILITY_def CAR_INFO_def
          BOOK_TEST_DRIVE_def)
  then have "fst (process_waiting_for_intent env replica ctx g) = Raise NameError"
    using assms(4) by (simp add: process_waiting_for_intent_def Let_def)
  then have "fst (dispatch env replica ctx g) = Raise NameError"
    using assms(3) by (simp add: dispatch_def get_state_def)
  then obtain c g' where "dispatch env replica ctx g = (Raise NameError, c, g')"
    by (cases "dispatch env replica ctx g") auto
  then show ?thesis
    using assms(1,2) by (simp add: process_def Let_def)
qed

lemma classify_yes: "classify_intent scenario_env ''yes'' = Some YES"
  by (simp add: classify_intent_def scenario_env_def lemmatized_examples_def truthy_str_def YES_def)

theorem waiting_for_intent_yes_raises_witness:
  "is_meaningful_text scenario_env ''yes''
   \<and> classify_intent scenario_env ''yes'' = Some YES
   \<and> fst (process scenario_env ''yes'' waiting_context []) = Raise NameError"
proof -
  have m: "is_meaningful_text scenario_env ''yes''" by (simp add: scenario_env_def)
  have p: "\<not> truthy_int (extract_price scenario_env ''yes'')"
    by (simp add: scenario_env_def scenario_text_def truthy_int_def)
  have s: "state waiting_context = Some WAITING_FOR_INTENT" by (simp add: waiting_context_def)
  from waiting_for_intent_yes_raises [OF m p s classify_yes, of "[]"] m classify_yes
  show ?thesis by simp
qed

section \<open>How a retrieved answer is counted\<close>

text \<open>
  C4 asks that a turn answered by the retrieval fallback increments the retrieved counter
  (\<open>GENERATE\<close>). In the state \<open>NONE\<close>, when the utterance names no vehicle, no
  category and no price, no intent is classified and \<open>generate_answer\<close> returns a
  non-empty answer, that answer is the reply; unless its text happens to contain
  \<^verbatim>\<open>dialogues.txt\<close> (the test of line 420), the turn is counted as \<open>FAILURE\<close>.
\<close>

theorem retrieval_counted_as_failure:
  assumes "is_meaningful_text env replica"
      and "\<not> truthy_int (extract_price env replica)"
      and "get_state ctx = NONE"
      and "\<not> truthy_str (extract_car_name env replica)"
      and "\<not> truthy_str (extract_car_category env replica)"
      and "\<not> truthy_str (classify_intent env replica)"
      and "generate_answer env replica ctx g = (Return (Some a), c, g')"
      and "a \<noteq> []"
      and "\<not> contains ''dialogues.txt'' a"
  shows "process env replica ctx g =
           (Return (Some a), stats_add FAILURE (update_context env c replica (Some a) None), g')"
proof -
  have "process_none_state env replica ctx g = (Return (Some a), c, g')"
    using assms(4-8) by (simp add: process_none_state_def Let_def truthy_str_def)
  then have "dispatch env replica ctx g = (Return (Some a), c, g')"
    using assms(3) by (simp add: dispatch_def)
  moreover have "outcome_type env replica (Some a) = Return FAILURE"
    using assms(6,9) by (simp add: outcome_type_def)
  ultimately show ?thesis
    using assms(1,2) by (simp add: process_def Let_def)
qed

lemma retrieval_example:
  "generate_answer scenario_env ''how are you'' empty_context [4503599627370496] =
     (Return (Some ''Fine, thanks.''), empty_context\<lparr>last_intent := Some (Some ''offtopic'')\<rparr>, [])"
  by (simp add: generate_answer_def scenario_env_def argmax_def sentiment_suffix_def
        random_random_def draw_def Let_def)

theorem retrieval_counted_as_failure_witness:
  "process scenario_env ''how are you'' empty_context [4503599627370496] =
     (Return (Some ''Fine, thanks.''),
      \<lparr>state = Some NONE, current_car = Some None,
       last_bot_response = Some (Some ''Fine, thanks.''),
       last_intent = Some (Some ''offtopic''), history = Some [''how are you''],
       stats = Some \<lparr>intent_count = 0, generate_count = 0, failure_count = 1\<rparr>\<rparr>, [])"
proof -
  have m: "is_meaningful_text scenario_env ''how are you''" by (simp add: scenario_env_def)
  have p: "\<not> truthy_int (extract_price scenario_env ''how are you'')"
    by (simp add: scenario_env_def scenario_text_def truthy_int_def)
  have s: "get_state empty_context = NONE" by (simp add: get_state_def empty_context_def)
  have n: "\<not> truthy_str (extract_car_name scenario_env ''how are you'')"
    by (simp add: scenario_env_def truthy_str_def)
  have k: "\<not> truthy_str (extract_car_category scenario_env ''how are you'')"
    by (simp add: scenario_env_def truthy_str_def)
  have i: "\<not> truthy_str (classify_intent scenario_env ''how are you'')"
    by (simp add: classify_intent_def scenario_env_def lemmatized_examples_def truthy_str_def)
  have a: "''Fine, thanks.'' \<noteq> []" by simp
  have d: "\<not> contains ''dialogues.txt'' ''Fine, thanks.''" by simp
  have l: "history_limit scenario_env = 5" by (simp add: scenario_env_def)
  show ?thesis
    using retrieval_counted_as_failure [OF m p s n k i retrieval_example a d]
    by (simp add: stats_add_def update_context_def setdefaults_def empty_context_def truthy_str_def
          get_history_def slice_from_def l Let_def)
qed

section \<open>The history is written by update_context only\<close>

lemma handle_filter_cars_history:
  "handle_filter_cars env price cat ctx g = (r, c, g') \<Longrightarrow> history c = history ctx"
  by (auto simp: handle_filter_cars_def Let_def split: if_splits prod.splits outcome.splits)

lemma car_intent_branch_history:
  "car_intent_branch env intent sfx replica ctx g = (r, c, g') \<Longrightarrow> history c = history ctx"
  by (auto simp: car_intent_branch_def Let_def split: if_splits prod.splits outcome.splits)

lemma intent_branch_history:
  "intent_branch env intent template sfx replica ctx g = (r, c, g') \<Longrightarrow> history c = history ctx"
  by (auto simp: intent_branch_def Let_def dest: handle_filter_cars_history
        split: if_splits prod.splits outcome.splits)

lemma intent_tail_history:
  "intent_tail env intent car_name sfx answer ctx g = (r, c, g') \<Longrightarrow> history c = history ctx"
  by (auto simp: intent_tail_def Let_def split: if_splits prod.splits outcome.splits)

lemma get_answer_by_intent_history:
  "get_answer_by_intent env intent replica ctx g = (r, c, g') \<Longrightarrow> history c = history ctx"
  by (auto simp: get_answer_by_intent_def Let_def
        dest!: car_intent_branch_history intent_branch_history intent_tail_history
        split: if_splits prod.splits outcome.splits option.splits flow.splits)

lemma generate_answer_history:
  "generate_answer env replica ctx g = (r, c, g') \<Longrightarrow> history c = history ctx"
  by (auto simp: generate_answer_def Let_def split: if_splits prod.splits outcome.splits)

lemma offer_from_category_history:
  "offer_from_category env cat pos neg replica ctx g = (r, c, g') \<Longrightarrow> history c = history ctx"
  by (auto simp: offer_from_category_def split: prod.splits outcome.splits)

lemma process_none_state_history:
  "process_none_state env replica ctx g = (r, c, g') \<Longrightarrow> history c = history ctx"
  by (auto simp: process_none_state_def Let_def
        dest!: get_answer_by_intent_history generate_answer_history offer_from_category_history
        split: if_splits prod.splits outcome.splits)

lemma process_waiting_for_car_history:
  "process_waiting_for_car env replica ctx g = (r, c, g') \<Longrightarrow> history c = history ctx"
  by (auto simp: process_waiting_for_car_def Let_def dest!: offer_from_category_history
        split: if_splits prod.splits outcome.splits)

lemma process_waiting_for_intent_history:
  "process_waiting_for_intent env replica ctx g = (r, c, g') \<Longrightarrow> history c = history ctx"
  by (auto simp: process_waiting_for_intent_def Let_def
        split: if_splits prod.splits outcome.splits)

lemma dispatch_history:
  "dispatch env replica ctx g = (r, c, g') \<Longrightarrow> history c = history ctx"
  by (auto simp: dispatch_def
        dest: process_none_state_history process_waiting_for_car_history
              process_waiting_for_intent_history
        split: BotState.splits)

text \<open>
  A reply of \<^verbatim>\<open>None\<close> comes from \<open>get_answer_by_intent\<close> only, so line 420 never
  tests membership in \<^verbatim>\<open>None\<close>.
\<close>

lemma dispatch_None:
  "dispatch env replica ctx g = (Return None, c, g') \<Longrightarrow> truthy_str (classify_intent env replica)"
  by (auto simp: dispatch_def process_none_state_def process_waiting_for_car_def
        process_waiting_for_intent_def Let_def truthy_str_def
        split: BotState.splits if_splits prod.splits outcome.splits option.splits)

lemma get_history_update_context:
  "get_history (update_context env ctx replica answer intent) =
     slice_from (- history_limit env) (get_history ctx @ [replica])"
  by (simp add: update_context_def setdefaults_def get_history_def Let_def)

lemma get_history_stats_add: "get_history (stats_add ty ctx) = get_history ctx"
  by (simp add: stats_add_def get_history_def Let_def)

lemma process_history:
  assumes "process env replica ctx g = (r, c, g')"
  shows "case r of
           Return a \<Rightarrow> get_history c = slice_from (- history_limit env) (get_history ctx @ [replica])
         | Raise e \<Rightarrow> get_history c = get_history ctx"
proof (cases "is_meaningful_text env replica")
  case False
  with assms show ?thesis
    by (auto simp: process_def get_history_update_context get_history_stats_add
          split: prod.splits outcome.splits)
next
  case True
  show ?thesis
  proof (cases "truthy_int (extract_price env replica)")
    case price: True
    obtain r1 c1 g1 where f: "handle_filter_cars env (extract_price env replica)
        (extract_car_category env replica) ctx g = (r1, c1, g1)"
      by (cases "handle_filter_cars env (extract_price env replica)
        (extract_car_category env replica) ctx g")
    have h: "get_history c1 = get_history ctx"
      using handle_filter_cars_history[OF f] by (simp add: get_history_def)
    from True price assms f h show ?thesis
      by (cases r1)
         (auto simp: process_def Let_def get_history_update_context get_history_stats_add)
  next
    case noprice: False
    obtain r1 c1 g1 where d: "dispatch env replica ctx g = (r1, c1, g1)"
      by (cases "dispatch env replica ctx g")
    have h: "get_history c1 = get_history ctx"
      using dispatch_history[OF d] by (simp add: get_history_def)
    show ?thesis
    proof (cases r1)
      case (Raise e)
      with True noprice d assms h show ?thesis by (auto simp: process_def Let_def)
    next
      case (Return answer)
      have "\<exists>ty. outcome_type env replica answer = Return ty"
        using dispatch_None[of env replica ctx g c1 g1] d Return
        by (cases answer) (auto simp: outcome_type_def)
      then obtain ty where "outcome_type env replica answer = Return ty" ..
      with True noprice d assms h Return show ?thesis
        by (auto simp: process_def Let_def get_history_update_context get_history_stats_add)
    qed
  qed
qed

lemma length_slice_from:
  "0 < L \<Longrightarrow> int (length (slice_from (- L) xs)) \<le> L"
  by (auto simp: slice_from_def)

lemma slice_from_drop:
  "0 < L \<Longrightarrow> slice_from (- L) xs = drop (length xs - nat L) xs"
  by (simp add: slice_from_def)

lemma process_history_bound:
  assumes "0 < history_limit env" and "int (length (get_history ctx)) \<le> history_limit env"
  shows "int (length (get_history (fst (snd (process env replica ctx g))))) \<le> history_limit env"
proof -
  obtain r c g' where p: "process env replica ctx g = (r, c, g')"
    by (cases "process env replica ctx g")
  from process_history[OF p] assms show ?thesis
    by (cases r) (simp_all add: p length_slice_from)
qed

lemma process_all_history_bound:
  assumes "0 < history_limit env"
  shows "int (length (get_history ctx)) \<le> history_limit env \<Longrightarrow>
         int (length (get_history (fst (process_all env replicas ctx g)))) \<le> history_limit env"
proof (induction replicas arbitrary: ctx g)
  case Nil
  then show ?case by simp
next
  case (Cons replica rest)
  obtain r c g' where p: "process env replica ctx g = (r, c, g')"
    by (cases "process env replica ctx g")
  from process_history_bound[OF assms Cons.prems, of replica g] p
  have "int (length (get_history c)) \<le> history_limit env" by simp
  from Cons.IH[OF this] p show ?case by simp
qed

text \<open>
  C6, as the claim states it, fails for the bound 0: \<^verbatim>\<open>history[-0:]\<close> is the whole
  list, so nothing is ever discarded. After two turns the history has two entries.
\<close>

theorem history_bounded_counterexample:
  "history_limit (scenario_env\<lparr>history_limit := 0\<rparr>) = 0
   \<and> get_history (fst (process_all (scenario_env\<lparr>history_limit := 0\<rparr>) [''A'', ''B''] empty_context []))
       = [''A'', ''B'']"
  by (simp add: process_def dispatch_def process_none_state_def process_waiting_for_intent_def
        scenario_env_def scenario_text_def empty_context_def get_state_def truthy_int_def
        truthy_str_def Let_def update_context_def setdefaults_def get_history_def slice_from_def
        stats_add_def outcome_type_def classify_intent_def lemmatized_examples_def
        sentiment_suffix_def car_names_def fmt_def car_intents_def CAR_PRICE_def
        CAR_AVAILABILITY_def CAR_INFO_def BOOK_TEST_DRIVE_def YES_def NO_def)

text \<open>
  C6, amended: for a positive configured bound and a session whose history is within the
  bound (a fresh session has none), after any sequence of calls to \<open>process\<close>, raising
  ones included, the length of the history does not exceed the bound. A turn that returns
  appends the raw utterance and keeps the most recent entries, as many as the bound allows
  (the oldest are discarded first); a turn that raises leaves the history as it was.
\<close>

theorem history_bounded_amended:
  assumes "0 < history_limit env" and "int (length (get_history ctx)) \<le> history_limit env"
  shows "int (length (get_history (fst (process_all env replicas ctx g)))) \<le> history_limit env
       \<and> (\<forall>replica c0 g0.
            case process env replica c0 g0 of
              (Return a, c, g') \<Rightarrow>
                get_history c = drop (length (get_history c0) + 1 - nat (history_limit env))
                                  (get_history c0 @ [replica])
            | (Raise e, c, g') \<Rightarrow> get_history c = get_history c0)"
proof -
  have step: "case process env replica c0 g0 of
              (Return a, c, g') \<Rightarrow>
                get_history c = drop (length (get_history c0) + 1 - nat (history_limit env))
                                  (get_history c0 @ [replica])
            | (Raise e, c, g') \<Rightarrow> get_history c = get_history c0" for replica c0 g0
  proof -
    obtain r c g' where p: "process env replica c0 g0 = (r, c, g')"
      by (cases "process env replica c0 g0")
    from process_history[OF p] show ?thesis
      by (cases r) (simp_all add: p slice_from_drop[OF assms(1)])
  qed
  have "\<forall>replica c0 g0.
            case process env replica c0 g0 of
              (Return a, c, g') \<Rightarrow>
                get_history c = drop (length (get_history c0) + 1 - nat (history_limit env))
                                  (get_history c0 @ [replica])
            | (Raise e, c, g') \<Rightarrow> get_history c = get_history c0"
    by (intro allI step)
  with process_all_history_bound[OF assms, of replicas g] show ?thesis by (rule conjI)
qed

theorem history_bounded_amended_witness:
  "0 < history_limit scenario_env
   \<and> int (length (get_history empty_context)) \<le> history_limit scenario_env
   \<and> int (length (get_history (fst (process_all scenario_env
         [''A'', ''B'', ''???'', ''yes'', ''A'', ''how are you'', ''B''] empty_context [])))) \<le> 5"
proof -
  have l: "0 < history_limit scenario_env" "history_limit scenario_env = 5"
    by (simp_all add: scenario_env_def)
  have h: "int (length (get_history empty_context)) \<le> history_limit scenario_env"
    by (simp add: get_history_def empty_context_def l)
  from history_bounded_amended [OF l(1) h,
         of "[''A'', ''B'', ''???'', ''yes'', ''A'', ''how are you'', ''B'']" "[]"] l h
  show ?thesis by (simp del: process_all.simps)
qed

section \<open>The current vehicle stays in the catalogue\<close>

lemma cars_in_category_known: "c \<in> set (cars_in_category env k) \<Longrightarrow> c \<in> set (car_names env)"
  by (auto simp: cars_in_category_def car_names_def intro: rev_image_eqI)

lemma suitable_cars_known:
  "c \<in> set (suitable_cars env price k ctx) \<Longrightarrow> c \<in> set (car_names env)"
  by (auto simp: suitable_cars_def car_names_def intro: rev_image_eqI)

lemma car_known_simps [simp]:
  "car_known env (ctx\<lparr>state := s\<rparr>) = car_known env ctx"
  "car_known env (ctx\<lparr>last_intent := li\<rparr>) = car_known env ctx"
  "car_known env (ctx\<lparr>current_car := Some None\<rparr>)"
  "car_known env (ctx\<lparr>current_car := Some (Some c)\<rparr>) = (c \<in> set (car_names env))"
  by (simp_all add: car_known_def)

lemma car_known_stats_add [simp]: "car_known env (stats_add ty ctx) = car_known env ctx"
  by (simp add: car_known_def stats_add_def Let_def)

lemma car_known_update_context [simp]:
  "car_known env (update_context env ctx replica answer intent) = car_known env ctx"
  by (simp add: car_known_def update_context_def setdefaults_def Let_def
        split: option.splits)

lemma handle_filter_cars_known:
  "car_known env ctx \<Longrightarrow> handle_filter_cars env price k ctx g = (r, c, g') \<Longrightarrow> car_known env c"
  by (auto simp: handle_filter_cars_def Let_def dest!: random_choice_in suitable_cars_known
        split: if_splits prod.splits outcome.splits)

lemma find_in_history_known:
  assumes "\<forall>t c. extract_car_name env t = Some c \<longrightarrow> c \<in> set (car_names env)"
  shows "find_in_history env hs g = (Return (Some c), g') \<Longrightarrow> c \<in> set (car_names env)"
proof (induction hs)
  case Nil
  then show ?case by simp
next
  case (Cons h hs)
  then show ?case using assms
    by (auto simp: Let_def truthy_str_def dest!: random_choice_in cars_in_category_known
          split: if_splits option.splits prod.splits outcome.splits)
qed

lemma find_car_by_context_known:
  assumes "\<forall>t c. extract_car_name env t = Some c \<longrightarrow> c \<in> set (car_names env)"
      and "find_car_by_context env replica ctx g = (Return (Some c), g')"
  shows "c \<in> set (car_names env)"
  using assms
  by (auto simp: find_car_by_context_def find_car_by_category_or_history_def Let_def
        dest!: random_choice_in cars_in_category_known find_in_history_known[OF assms(1)]
        split: if_splits option.splits prod.splits outcome.splits)

lemma car_intent_branch_known:
  assumes "\<forall>t c. extract_car_name env t = Some c \<longrightarrow> c \<in> set (car_names env)"
      and "car_known env ctx"
      and "car_intent_branch env intent sfx replica ctx g = (r, c, g')"
  shows "car_known env c"
  using assms(2,3)
  by (auto simp: car_intent_branch_def Let_def truthy_str_def
        dest!: find_car_by_context_known[OF assms(1)]
        split: if_splits option.splits prod.splits outcome.splits)

lemma intent_branch_known:
  "car_known env ctx \<Longrightarrow> intent_branch env intent template sfx replica ctx g = (r, c, g')
     \<Longrightarrow> car_known env c"
  by (auto simp: intent_branch_def Let_def dest: handle_filter_cars_known random_choice_in
        split: if_splits prod.splits outcome.splits)

lemma intent_tail_known:
  "car_known env ctx \<Longrightarrow> intent_tail env intent car_name sfx answer ctx g = (r, c, g')
     \<Longrightarrow> car_known env c"
  by (auto simp: intent_tail_def Let_def split: if_splits prod.splits outcome.splits)

lemma get_answer_by_intent_known:
  assumes "\<forall>t c. extract_car_name env t = Some c \<longrightarrow> c \<in> set (car_names env)"
      and "car_known env ctx"
      and "get_answer_by_intent env intent replica ctx g = (r, c, g')"
  shows "car_known env c"
  using assms(2,3)
  by (auto simp: get_answer_by_intent_def Let_def
        dest: car_intent_branch_known[OF assms(1)] intent_branch_known intent_tail_known
        split: if_splits prod.splits outcome.splits option.splits flow.splits)

lemma generate_answer_known:
  "car_known env ctx \<Longrightarrow> generate_answer env replica ctx g = (r, c, g') \<Longrightarrow> car_known env c"
  by (auto simp: generate_answer_def Let_def split: if_splits prod.splits outcome.splits)

lemma offer_from_category_known:
  "car_known env ctx \<Longrightarrow> offer_from_category env k pos neg replica ctx g = (r, c, g')
     \<Longrightarrow> car_known env c"
  by (auto simp: offer_from_category_def dest!: random_choice_in cars_in_category_known
        split: prod.splits outcome.splits)

lemma process_none_state_known:
  assumes "\<forall>t c. extract_car_name env t = Some c \<longrightarrow> c \<in> set (car_names env)"
      and "car_known env ctx"
      and "process_none_state env replica ctx g = (r, c, g')"
  shows "car_known env c"
  using assms
  by (auto simp: process_none_state_def Let_def truthy_str_def
        dest: get_answer_by_intent_known[OF assms(1)] generate_answer_known
              offer_from_category_known
        split: if_splits prod.splits outcome.splits option.splits)

lemma process_waiting_for_car_known:
  assumes "\<forall>t c. extract_car_name env t = Some c \<longrightarrow> c \<in> set (car_names env)"
      and "car_known env ctx"
      and "process_waiting_for_car env replica ctx g = (r, c, g')"
  shows "car_known env c"
  using assms
  by (auto simp: process_waiting_for_car_def Let_def truthy_str_def
        dest: offer_from_category_known
        split: if_splits prod.splits outcome.splits option.splits)

lemma process_waiting_for_intent_known:
  assumes "car_known env ctx"
      and "process_waiting_for_intent env replica ctx g = (r, c, g')"
  shows "car_known env c"
  using assms
  by (auto simp: process_waiting_for_intent_def Let_def truthy_str_def fmt_def
        split: if_splits prod.splits outcome.splits option.splits)

lemma dispatch_known:
  assumes "\<forall>t c. extract_car_name env t = Some c \<longrightarrow> c \<in> set (car_names env)"
      and "car_known env ctx"
      and "dispatch env replica ctx g = (r, c, g')"
  shows "car_known env c"
  using assms(2,3)
  by (auto simp: dispatch_def
        dest: process_none_state_known[OF assms(1)] process_waiting_for_car_known[OF assms(1)]
              process_waiting_for_intent_known
        split: BotState.splits)

lemma process_known:
  assumes "\<forall>t c. extract_car_name env t = Some c \<longrightarrow> c \<in> set (car_names env)"
      and "car_known env ctx"
  shows "car_known env (fst (snd (process env replica ctx g)))"
proof -
  obtain r c g' where p: "process env replica ctx g = (r, c, g')"
    by (cases "process env replica ctx g")
  have "car_known env c"
    using p assms(2)
    by (auto simp: process_def Let_def
          dest: handle_filter_cars_known dispatch_known[OF assms(1)]
          split: if_splits prod.splits outcome.splits)
  then show ?thesis by (simp add: p)
qed

lemma process_all_known:
  assumes "\<forall>t c. extract_car_name env t = Some c \<longrightarrow> c \<in> set (car_names env)"
  shows "car_known env ctx \<Longrightarrow> car_known env (fst (process_all env replicas ctx g))"
proof (induction replicas arbitrary: ctx g)
  case Nil
  then show ?case by simp
next
  case (Cons replica rest)
  obtain r c g' where p: "process env replica ctx g = (r, c, g')"
    by (cases "process env replica ctx g")
  from process_known[OF assms Cons.prems, of replica g] p have "car_known env c" by simp
  from Cons.IH[OF this] p show ?case by simp
qed

text \<open>
  C9: assume that \<open>extract_car_name\<close> yields catalogue keys only, and that the current
  vehicle of the session, if set, is a catalogue key. Then it still is after \<open>process\<close>
  (whether the call returns or raises) and after any sequence of calls; the same holds
  for the operations that assign the field: the state-machine branches (\<open>dispatch\<close>),
  the filter (\<open>handle_filter_cars\<close>), \<open>get_answer_by_intent\<close>, and the vehicle
  that the context-based resolution \<open>find_car_by_context\<close> returns.
\<close>

theorem current_car_in_catalog:
  assumes "\<forall>t c. extract_car_name env t = Some c \<longrightarrow> c \<in> set (car_names env)"
      and "car_known env ctx"
  shows "car_known env (fst (snd (process env replica ctx g)))
       \<and> car_known env (fst (process_all env replicas ctx g))
       \<and> car_known env (fst (snd (dispatch env replica ctx g)))
       \<and> car_known env (fst (snd (handle_filter_cars env price car_category ctx g)))
       \<and> car_known env (fst (snd (get_answer_by_intent env intent replica ctx g)))
       \<and> (\<forall>c g'. find_car_by_context env replica ctx g = (Return (Some c), g')
                   \<longrightarrow> c \<in> set (car_names env))"
proof -
  have "car_known env (fst (snd (dispatch env replica ctx g)))"
    using dispatch_known[OF assms, of replica g]
    by (cases "dispatch env replica ctx g") simp
  moreover have "car_known env (fst (snd (handle_filter_cars env price car_category ctx g)))"
    using handle_filter_cars_known[OF assms(2), of price car_category g]
    by (cases "handle_filter_cars env price car_category ctx g") simp
  moreover have "car_known env (fst (snd (get_answer_by_intent env intent replica ctx g)))"
    using get_answer_by_intent_known[OF assms, of intent replica g]
    by (cases "get_answer_by_intent env intent replica ctx g") simp
  moreover have "\<forall>c g'. find_car_by_context env replica ctx g = (Return (Some c), g')
                   \<longrightarrow> c \<in> set (car_names env)"
    using find_car_by_context_known[OF assms(1)] by blast
  ultimately show ?thesis
    using process_known[OF assms] process_all_known[OF assms] by blast
qed

theorem current_car_in_catalog_witness:
  "car_known scenario_env empty_context
   \<and> car_known scenario_env (fst (snd (process scenario_env ''B'' empty_context [])))
   \<and> current_car (fst (snd (process scenario_env ''B'' empty_context []))) = Some (Some ''B'')
   \<and> ''B'' \<in> set (car_names scenario_env)"
proof -
  have e: "\<forall>t c. extract_car_name scenario_env t = Some c \<longrightarrow> c \<in> set (car_names scenario_env)"
    by (simp add: scenario_env_def car_names_def)
  have k: "car_known scenario_env empty_context"
    by (simp add: car_known_def empty_context_def)
  have p: "current_car (fst (snd (process scenario_env ''B'' empty_context []))) = Some (Some ''B'')"
    by (simp add: process_def dispatch_def process_none_state_def
        scenario_env_def scenario_text_def empty_context_def get_state_def truthy_int_def
        truthy_str_def Let_def update_context_def setdefaults_def
        stats_add_def outcome_type_def classify_intent_def lemmatized_examples_def)
  have n: "''B'' \<in> set (car_names scenario_env)" by (simp add: scenario_env_def car_names_def)
  from current_car_in_catalog [OF e k, of "''B''" "[]"] k p n show ?thesis by simp
qed

section \<open>The retrieval fallback\<close>

lemma argmax_from_sound:
  "(argmax_from b v i xs = b \<and> (\<forall>x \<in> set xs. x \<le> v))
   \<or> (\<exists>k < length xs. argmax_from b v i xs = i + k \<and> v < xs ! k \<and> (\<forall>x \<in> set xs. x \<le> xs ! k))"
proof (induction xs arbitrary: b v i)
  case Nil
  show ?case by simp
next
  case (Cons x xs)
  show ?case
  proof (cases "v < x")
    case True
    from Cons.IH[of i x "Suc i"] show ?thesis
    proof
      assume a: "argmax_from i x (Suc i) xs = i \<and> (\<forall>y \<in> set xs. y \<le> x)"
      have "0 < length (x # xs)" by simp
      moreover have "argmax_from b v i (x # xs) = i + 0" using True a by simp
      moreover have "v < (x # xs) ! 0" using True by simp
      moreover have "\<forall>y \<in> set (x # xs). y \<le> (x # xs) ! 0" using a by simp
      ultimately show ?thesis by blast
    next
      assume "\<exists>k < length xs. argmax_from i x (Suc i) xs = Suc i + k \<and> x < xs ! k
                \<and> (\<forall>y \<in> set xs. y \<le> xs ! k)"
      then obtain k where k: "k < length xs" "argmax_from i x (Suc i) xs = Suc i + k"
          "x < xs ! k" "\<forall>y \<in> set xs. y \<le> xs ! k" by blast
      have "Suc k < length (x # xs)" using k(1) by simp
      moreover have "argmax_from b v i (x # xs) = i + Suc k" using True k(2) by simp
      moreover have "v < (x # xs) ! Suc k" using True k(3) by simp
      moreover have "\<forall>y \<in> set (x # xs). y \<le> (x # xs) ! Suc k" using k(3,4) by auto
      ultimately show ?thesis by blast
    qed
  next
    case False
    from Cons.IH[of b v "Suc i"] show ?thesis
    proof
      assume "argmax_from b v (Suc i) xs = b \<and> (\<forall>y \<in> set xs. y \<le> v)"
      then show ?thesis using False by auto
    next
      assume "\<exists>k < length xs. argmax_from b v (Suc i) xs = Suc i + k \<and> v < xs ! k
                \<and> (\<forall>y \<in> set xs. y \<le> xs ! k)"
      then obtain k where k: "k < length xs" "argmax_from b v (Suc i) xs = Suc i + k"
          "v < xs ! k" "\<forall>y \<in> set xs. y \<le> xs ! k" by blast
      have "Suc k < length (x # xs)" using k(1) by simp
      moreover have "argmax_from b v i (x # xs) = i + Suc k" using False k(2) by simp
      moreover have "v < (x # xs) ! Suc k" using k(3) by simp
      moreover have "\<forall>y \<in> set (x # xs). y \<le> (x # xs) ! Suc k" using False k(3,4) by auto
      ultimately show ?thesis by blast
    qed
  qed
qed

text \<open>\<open>argmax\<close> returns an index of the vector at which the vector is greatest.\<close>

lemma argmax_Return:
  assumes "argmax xs = Return i"
  shows "i < length xs \<and> (\<forall>j < length xs. xs ! j \<le> xs ! i)"
proof (cases xs)
  case Nil
  with assms show ?thesis by (simp add: argmax_def)
next
  case (Cons x rest)
  with assms have i: "i = argmax_from 0 x 1 rest" by (simp add: argmax_def)
  from argmax_from_sound[of 0 x 1 rest] show ?thesis
  proof
    assume "argmax_from 0 x 1 rest = 0 \<and> (\<forall>y \<in> set rest. y \<le> x)"
    then have i0: "i = 0" and "\<forall>y \<in> set (x # rest). y \<le> (x # rest) ! 0" using i by auto
    then have "\<forall>j < length (x # rest). (x # rest) ! j \<le> (x # rest) ! 0"
      by (metis nth_mem)
    then show ?thesis using i0 Cons by simp
  next
    assume "\<exists>k < length rest. argmax_from 0 x 1 rest = 1 + k \<and> x < rest ! k
              \<and> (\<forall>y \<in> set rest. y \<le> rest ! k)"
    then obtain k where k: "k < length rest" "i = Suc k" "x < rest ! k"
        "\<forall>y \<in> set rest. y \<le> rest ! k" using i by auto
    then have "\<forall>y \<in> set (x # rest). y \<le> (x # rest) ! i" by auto
    then have "\<forall>j < length (x # rest). (x # rest) ! j \<le> (x # rest) ! i"
      by (metis nth_mem)
    then show ?thesis using k(1,2) Cons by simp
  qed
qed

lemma argmax_nonempty: "xs \<noteq> [] \<Longrightarrow> \<exists>i. argmax xs = Return i"
  by (cases xs) (simp_all add: argmax_def)

text \<open>
  C8, as the claim states it, fails: with a positive sentiment the text returned is the
  answer stored at the arg-max index followed by a suffix, not the stored answer itself.
\<close>

theorem retrieval_counterexample:
  "generate_answer (scenario_env\<lparr>analyze_sentiment := (\<lambda>s. ''positive'')\<rparr>) ''how are you''
       empty_context [4503599627370496]
     = (Return (Some (''Fine, thanks.'' @ sfx_gen_positive)),
        empty_context\<lparr>last_intent := Some (Some ''offtopic'')\<rparr>, [])
   \<and> argmax (tfidf_similarities (scenario_env\<lparr>analyze_sentiment := (\<lambda>s. ''positive'')\<rparr>)
               ''how are you'') = Return 1
   \<and> answers (scenario_env\<lparr>analyze_sentiment := (\<lambda>s. ''positive'')\<rparr>) ! 1 = ''Fine, thanks.''
   \<and> ''Fine, thanks.'' @ sfx_gen_positive \<noteq> ''Fine, thanks.''"
  by (simp add: generate_answer_def scenario_env_def argmax_def sentiment_suffix_def
        random_random_def draw_def Let_def sfx_gen_positive_def)

text \<open>
  C8, amended: let the similarity vector be as long as the list of stored answers and the
  catalogue be non-empty. Then \<open>generate_answer\<close> never raises, and it returns an
  answer exactly when the input is meaningful (its lemmatization is not empty, line 266,
  and \<open>is_meaningful_text\<close> accepts it, line 268), the corpus is not empty and the
  similarity at the arg-max index strictly exceeds the threshold. On success the text
  returned starts with the answer stored at the arg-max index (an index of greatest
  similarity) and the sentiment suffix. Then \<^verbatim>\<open>random.random()\<close> is drawn: when the draw
  is below 0.3, the upsell mention of the catalogue vehicle that \<^verbatim>\<open>random.choice\<close> picks
  next is appended; when it is not, nothing is appended and no further number is drawn.
  \<open>last_intent\<close> becomes \<open>offtopic\<close> and nothing else changes. On failure it returns
  none, and the context and the random source are untouched.
\<close>

theorem retrieval_amended:
  assumes "length (tfidf_similarities env (lemmatize_phrase env replica)) = length (answers env)"
      and "cars env \<noteq> []"
  shows "\<exists>r c g'. generate_answer env replica ctx g = (Return r, c, g')
     \<and> ((r \<noteq> None) =
          (lemmatize_phrase env replica \<noteq> [] \<and> is_meaningful_text env replica \<and> answers env \<noteq> []
           \<and> (\<exists>i. argmax (tfidf_similarities env (lemmatize_phrase env replica)) = Return i
                  \<and> dialogues_similarity env < tfidf_similarities env (lemmatize_phrase env replica) ! i)))
     \<and> (case r of
           None \<Rightarrow> c = ctx \<and> g' = g
         | Some a \<Rightarrow>
             (\<exists>i. argmax (tfidf_similarities env (lemmatize_phrase env replica)) = Return i
                \<and> i < length (answers env)
                \<and> (\<forall>j < length (answers env).
                      tfidf_similarities env (lemmatize_phrase env replica) ! j
                        \<le> tfidf_similarities env (lemmatize_phrase env replica) ! i)
                \<and> (if fst (random_random g) < 0.3
                    then (\<exists>car \<in> set (car_names env).
                            random_choice (car_names env) (snd (random_random g)) = (Return car, g')
                            \<and> a = answers env ! i
                                  @ sentiment_suffix env replica sfx_gen_positive sfx_gen_negative
                                  @ msg_upsell @ car @ msg_upsell_tail)
                    else a = answers env ! i
                               @ sentiment_suffix env replica sfx_gen_positive sfx_gen_negative
                         \<and> g' = snd (random_random g)))
             \<and> c = ctx\<lparr>last_intent := Some (Some ''offtopic'')\<rparr>)"
proof -
  let ?sims = "tfidf_similarities env (lemmatize_phrase env replica)"
  let ?meaningful = "lemmatize_phrase env replica \<noteq> [] \<and> is_meaningful_text env replica \<and> answers env \<noteq> []"
  show ?thesis
  proof (cases ?meaningful)
    case False
    then have "generate_answer env replica ctx g = (Return None, ctx, g)"
      by (auto simp: generate_answer_def Let_def)
    with False show ?thesis by auto
  next
    case True
    then have "?sims \<noteq> []" using assms(1) by auto
    then obtain i where i: "argmax ?sims = Return i" using argmax_nonempty by blast
    from argmax_Return[OF i] assms(1)
    have ib: "i < length (answers env)" and imax: "\<forall>j < length (answers env). ?sims ! j \<le> ?sims ! i"
      by auto
    show ?thesis
    proof (cases "dialogues_similarity env < ?sims ! i")
      case False
      with True i have "generate_answer env replica ctx g = (Return None, ctx, g)"
        by (simp add: generate_answer_def Let_def)
      with False i show ?thesis by auto
    next
      case above: True
      let ?answer = "answers env ! i @ sentiment_suffix env replica sfx_gen_positive sfx_gen_negative"
      let ?c = "ctx\<lparr>last_intent := Some (Some ''offtopic'')\<rparr>"
      obtain x g1 where rr: "random_random g = (x, g1)" by (cases "random_random g")
      show ?thesis
      proof (cases "x < 0.3")
        case False
        with True i above ib rr have "generate_answer env replica ctx g = (Return (Some ?answer), ?c, g1)"
          by (simp add: generate_answer_def Let_def)
        with True i above ib imax rr False show ?thesis by auto
      next
        case upsell: True
        have "car_names env \<noteq> []" using assms(2) by (simp add: car_names_def)
        then obtain car g2 where rc: "random_choice (car_names env) g1 = (Return car, g2)"
          by (cases "random_choice (car_names env) g1"; cases "fst (random_choice (car_names env) g1)")
             (auto dest: random_choice_Raise)
        then have car: "car \<in> set (car_names env)" by (rule random_choice_in)
        from True i above ib rr upsell rc
        have "generate_answer env replica ctx g =
                (Return (Some (?answer @ msg_upsell @ car @ msg_upsell_tail)), ?c, g2)"
          by (simp add: generate_answer_def Let_def)
        with True i above ib imax car rr upsell rc show ?thesis by auto
      qed
    qed
  qed
qed

text \<open>
  Three runs on the small catalogue: a draw of one half (no upsell), a draw of 0 (the
  upsell of the vehicle that the next draw picks, B), and an input below the threshold.
\<close>

theorem retrieval_amended_witness:
  "generate_answer scenario_env ''how are you'' empty_context [4503599627370496, 1] =
     (Return (Some ''Fine, thanks.''), empty_context\<lparr>last_intent := Some (Some ''offtopic'')\<rparr>, [1])
   \<and> generate_answer scenario_env ''how are you'' empty_context [0, 1] =
     (Return (Some (''Fine, thanks.'' @ msg_upsell @ ''B'' @ msg_upsell_tail)),
      empty_context\<lparr>last_intent := Some (Some ''offtopic'')\<rparr>, [])
   \<and> argmax (tfidf_similarities scenario_env ''how are you'') = Return 1
   \<and> answers scenario_env ! 1 = ''Fine, thanks.''
   \<and> generate_answer scenario_env ''hm'' empty_context [0, 1] = (Return None, empty_context, [0, 1])"
proof -
  have l: "length (tfidf_similarities scenario_env (lemmatize_phrase scenario_env t))
             = length (answers scenario_env)" for t
    by (simp add: scenario_env_def)
  have c: "cars scenario_env \<noteq> []" by (simp add: scenario_env_def)
  from retrieval_amended [OF l c, of "''how are you''" empty_context "[4503599627370496, 1]"]
       retrieval_amended [OF l c, of "''how are you''" empty_context "[0, 1]"]
       retrieval_amended [OF l c, of "''hm''" empty_context "[0, 1]"]
  show ?thesis
    by (simp add: generate_answer_def scenario_env_def argmax_def sentiment_suffix_def
          random_random_def random_choice_def car_names_def draw_def Let_def)
qed

end
